theory Spec2Isabelle
  imports Main "HOL-Library.AList"
begin

section \<open>The parse tree consumed by the binder\<close>

text \<open>
  The binder of \<^verbatim>\<open>binder.ts\<close> walks an already parsed syntax tree. Every parse node
  carries the identity the parser gave it (the first \<open>nat\<close> of each constructor); the
  side tables of \<^verbatim>\<open>AnalyzerNodeInfo\<close> are keyed by it. Only the node kinds that the
  embedded operations inspect are represented; the constructor names are those of the
  node interfaces of the source.
\<close>

datatype KeywordType = NoneKeyword | TrueKeyword | FalseKeyword | DebugKeyword

datatype OperatorType =
    OpAdd | OpSubtract | OpMultiply | OpDivide | OpLessThan | OpGreaterThan
  | OpEquals | OpNotEquals | OpIs | OpIsNot | OpIn | OpNotIn | OpAnd | OpOr | OpNot

datatype ArgumentCategory = Simple | UnpackedList | UnpackedDictionary

datatype NameNode = NameNode nat string

fun nameId :: "NameNode \<Rightarrow> nat" where
  "nameId (NameNode i v) = i"

fun nameValue :: "NameNode \<Rightarrow> string" where
  "nameValue (NameNode i v) = v"

datatype ExpressionNode =
    Name NameNode
  | MemberAccessNode nat ExpressionNode NameNode
  | ConstantNode nat KeywordType
  | NumberNode nat int
  | CallNode nat ExpressionNode "ArgumentNode list"
  | BinaryOperationNode nat ExpressionNode OperatorType ExpressionNode
  | UnaryOperationNode nat OperatorType ExpressionNode
  | AssignmentExpressionNode nat NameNode ExpressionNode
  | AugmentedAssignmentNode nat ExpressionNode OperatorType ExpressionNode
  | TernaryNode nat ExpressionNode ExpressionNode ExpressionNode
  | TupleNode nat "ExpressionNode list"
  | ListNode nat "ExpressionNode list"
  | TypeAnnotationNode nat ExpressionNode ExpressionNode
  | UnpackNode nat ExpressionNode
  | YieldNode nat "ExpressionNode option"
  | YieldFromNode nat ExpressionNode
  | LambdaNode nat "ParameterNode list" ExpressionNode
and ArgumentNode =
    ArgumentNode nat ArgumentCategory "NameNode option" ExpressionNode
and ParameterNode =
    ParameterNode nat "NameNode option" "ExpressionNode option" "ExpressionNode option"

text \<open>The parser's identity of an expression node (\<^verbatim>\<open>ParseNodeBase.id\<close>).\<close>

fun exprId :: "ExpressionNode \<Rightarrow> nat" where
  "exprId (Name n) = nameId n"
| "exprId (MemberAccessNode i l m) = i"
| "exprId (ConstantNode i k) = i"
| "exprId (NumberNode i v) = i"
| "exprId (CallNode i l args) = i"
| "exprId (BinaryOperationNode i l op r) = i"
| "exprId (UnaryOperationNode i op e) = i"
| "exprId (AssignmentExpressionNode i n r) = i"
| "exprId (AugmentedAssignmentNode i l op r) = i"
| "exprId (TernaryNode i a t b) = i"
| "exprId (TupleNode i es) = i"
| "exprId (ListNode i es) = i"
| "exprId (TypeAnnotationNode i v t) = i"
| "exprId (UnpackNode i e) = i"
| "exprId (YieldNode i e) = i"
| "exprId (YieldFromNode i e) = i"
| "exprId (LambdaNode i ps e) = i"

text \<open>
  An \<^verbatim>\<open>ImportFromNode\<close>: the module name (leading dots and name parts), the wildcard
  flag and the imported names with their optional aliases. An \<^verbatim>\<open>ImportAsNode\<close>: the
  module name and the optional alias.
\<close>

datatype ModuleNameNode = ModuleNameNode nat nat "NameNode list"

fun moduleNameId :: "ModuleNameNode \<Rightarrow> nat" where
  "moduleNameId (ModuleNameNode i dots parts) = i"

fun leadingDots :: "ModuleNameNode \<Rightarrow> nat" where
  "leadingDots (ModuleNameNode i dots parts) = dots"

fun nameParts :: "ModuleNameNode \<Rightarrow> NameNode list" where
  "nameParts (ModuleNameNode i dots parts) = parts"

datatype ImportFromAsNode = ImportFromAsNode nat NameNode "NameNode option"

datatype ImportFromNode = ImportFromNode nat ModuleNameNode bool "ImportFromAsNode list"

datatype ImportAsNode = ImportAsNode nat ModuleNameNode "NameNode option"

datatype StatementNode =
    StatementListNode nat "StatementNode list"
  | ExpressionStatement ExpressionNode
  | PassNode nat
  | BreakNode nat
  | ContinueNode nat
  | ReturnNode nat "ExpressionNode option"
  | RaiseNode nat "ExpressionNode option" "ExpressionNode option" "ExpressionNode option"
  | AssignmentNode nat ExpressionNode ExpressionNode
  | DelNode nat "ExpressionNode list"
  | AssertNode nat ExpressionNode "ExpressionNode option"
  | GlobalNode nat "NameNode list"
  | NonlocalNode nat "NameNode list"
  | ImportAs ImportAsNode
  | ImportFrom ImportFromNode
  | IfNode nat ExpressionNode SuiteNode "ElseNode option"
  | WhileNode nat ExpressionNode SuiteNode "SuiteNode option"
  | ForNode nat ExpressionNode ExpressionNode SuiteNode "SuiteNode option"
  | WithNode nat "(ExpressionNode \<times> ExpressionNode option) list" SuiteNode
  | TryNode nat SuiteNode "ExceptNode list" "SuiteNode option" "SuiteNode option"
  | FunctionNode nat bool NameNode "ExpressionNode list" "ParameterNode list"
      "ExpressionNode option" "ExpressionNode option" SuiteNode
  | ClassNode nat NameNode "ExpressionNode list" "ArgumentNode list" SuiteNode
and SuiteNode =
    SuiteNode nat "StatementNode list"
and ExceptNode =
    ExceptNode nat "ExpressionNode option" "NameNode option" SuiteNode
and ElseNode =
    ElseSuite SuiteNode
  | ElseIf StatementNode

section \<open>Flow nodes\<close>

text \<open>
  Modelled from the spec: the flow-node variants of \<^verbatim>\<open>codeFlow.ts\<close> (data model,
  FlowNode). The flags of a node are a bit set (\<^verbatim>\<open>FlowFlags\<close>); every node has a
  unique id. The binder builds each variant as an object literal, and the constructors
  below list the fields of those literals in the order flags, id, then the remaining
  fields. A label is the one variant the binder mutates after creation (its antecedent
  list grows), so a label is a reference: its antecedents live in the binder's
  store, keyed by the label's id.
\<close>

datatype FlowFlags =
    Unreachable | Start | BranchLabel | LoopLabel | Assignment | Unbind | WildcardImport
  | TrueCondition | FalseCondition | Call | PreFinallyGate | PostFinally | AssignmentAlias

datatype FlowLabel = FlowLabel "FlowFlags set" nat

datatype FlowNode =
    FlowNode "FlowFlags set" nat
  | Label FlowLabel
  | FlowAssignment "FlowFlags set" nat ExpressionNode FlowNode nat
  | FlowAssignmentAlias "FlowFlags set" nat FlowNode nat nat
  | FlowCall "FlowFlags set" nat ExpressionNode FlowNode
  | FlowCondition "FlowFlags set" nat ExpressionNode FlowNode
  | FlowPreFinallyGate "FlowFlags set" nat FlowNode bool
  | FlowPostFinally "FlowFlags set" nat FlowNode FlowNode
  | FlowWildcardImport "FlowFlags set" nat ImportFromNode "string list" FlowNode

fun labelFlags :: "FlowLabel \<Rightarrow> FlowFlags set" where
  "labelFlags (FlowLabel f i) = f"

fun labelId :: "FlowLabel \<Rightarrow> nat" where
  "labelId (FlowLabel f i) = i"

fun flowFlags :: "FlowNode \<Rightarrow> FlowFlags set" where
  "flowFlags (FlowNode f i) = f"
| "flowFlags (Label l) = labelFlags l"
| "flowFlags (FlowAssignment f i n a t) = f"
| "flowFlags (FlowAssignmentAlias f i a t s) = f"
| "flowFlags (FlowCall f i n a) = f"
| "flowFlags (FlowCondition f i e a) = f"
| "flowFlags (FlowPreFinallyGate f i a c) = f"
| "flowFlags (FlowPostFinally f i a g) = f"
| "flowFlags (FlowWildcardImport f i n ns a) = f"

fun flowId :: "FlowNode \<Rightarrow> nat" where
  "flowId (FlowNode f i) = i"
| "flowId (Label l) = labelId l"
| "flowId (FlowAssignment f i n a t) = i"
| "flowId (FlowAssignmentAlias f i a t s) = i"
| "flowId (FlowCall f i n a) = i"
| "flowId (FlowCondition f i e a) = i"
| "flowId (FlowPreFinallyGate f i a c) = i"
| "flowId (FlowPostFinally f i a g) = i"
| "flowId (FlowWildcardImport f i n ns a) = i"

section \<open>Symbols, scopes and declarations\<close>

text \<open>
  Modelled from the spec: \<^verbatim>\<open>Symbol\<close> of \<^verbatim>\<open>symbol.ts\<close> (a unique id, a flag set, an
  append-only declaration list), \<^verbatim>\<open>Scope\<close> of \<^verbatim>\<open>scope.ts\<close> (a kind, an optional
  parent, a symbol table) and the declaration variants of \<^verbatim>\<open>declaration.ts\<close>. Symbols,
  scopes and declarations are objects the binder shares and mutates, so they live in
  stores: a symbol is named by its id, a scope and a declaration by the index at which
  they were allocated. Source ranges are left out: no embedded operation reads them.
\<close>

datatype SymbolFlags =
    InitiallyUnbound | ExternallyHidden | ClassMember | InstanceMember | PrivateMember
  | IgnoredForProtocolMatch | ClassVar

datatype ScopeType = Builtin | Module | Class | Function | ListComprehension

datatype NameBindingType = Nonlocal | Global

datatype ModuleLoaderActions =
    ModuleLoaderActions string "(string \<times> ModuleLoaderActions) list option"

datatype Declaration =
    AliasDeclaration nat string bool string "string option" "string option"
      "Declaration option" "(string \<times> ModuleLoaderActions) list option"
  | VariableDeclaration nat bool "nat option" string string
  | ParameterDeclaration nat string string
  | FunctionDeclaration nat bool bool "nat list option" "nat list option" "nat list option"
      string string
  | IntrinsicDeclaration nat string string string

record Symbol =
  symbolFlags :: "SymbolFlags set"
  symbolDeclarations :: "nat list"

record Scope =
  scopeType :: ScopeType
  scopeParent :: "nat option"
  symbolTable :: "(string \<times> nat) list"

section \<open>The state of a binder\<close>

text \<open>
  A deferred binding task captures the scope, the non-local binding map and the
  reference map current when it was queued, and a callback. The source has two
  callbacks, the closures that \<^verbatim>\<open>visitFunction\<close> and \<^verbatim>\<open>visitLambda\<close> pass to
  \<^verbatim>\<open>_deferBinding\<close>; a callback is represented by what its closure captured.
\<close>

datatype DeferredCallback =
    FunctionCallback StatementNode nat
  | LambdaCallback ExpressionNode

datatype DeferredBindingTask = DeferredBindingTask nat nat nat DeferredCallback

fun taskScope :: "DeferredBindingTask \<Rightarrow> nat" where
  "taskScope (DeferredBindingTask s b r c) = s"

fun taskNonLocalBindingsMap :: "DeferredBindingTask \<Rightarrow> nat" where
  "taskNonLocalBindingsMap (DeferredBindingTask s b r c) = b"

fun taskCodeFlowExpressionMap :: "DeferredBindingTask \<Rightarrow> nat" where
  "taskCodeFlowExpressionMap (DeferredBindingTask s b r c) = r"

fun taskCallback :: "DeferredBindingTask \<Rightarrow> DeferredCallback" where
  "taskCallback (DeferredBindingTask s b r c) = c"

text \<open>
  The private fields of the class \<^verbatim>\<open>Binder\<close>, then the stores of the objects they
  refer to, then the side tables of \<^verbatim>\<open>AnalyzerNodeInfo\<close> and the diagnostic sink.
  \<open>currentScope\<close>, \<open>notLocalBindings\<close> and \<open>currentExecutionScopeReferenceMap\<close> are
  references into \<open>scopes\<close>, \<open>bindingMaps\<close> and \<open>referenceMaps\<close>. The three fields
  the source reads with a non-null assertion (\<open>currentScope\<close>, \<open>currentFlowNode\<close>,
  \<open>currentExecutionScopeReferenceMap\<close>) are set by \<^verbatim>\<open>bindModule\<close> before any node is
  visited, and a state of this record is a state after that point.
\<close>

record Binder =
  deferredBindingTasks :: "DeferredBindingTask list"
  currentScope :: nat
  notLocalBindings :: nat
  nestedExceptDepth :: int
  currentFlowNode :: FlowNode
  targetFunctionDeclaration :: "nat option"
  currentBreakTarget :: "FlowLabel option"
  currentContinueTarget :: "FlowLabel option"
  currentTrueTarget :: "FlowLabel option"
  currentFalseTarget :: "FlowLabel option"
  currentExceptTargets :: "FlowLabel list option"
  finallyTargets :: "FlowLabel list"
  currentReturnTarget :: "FlowLabel option"
  currentExecutionScopeReferenceMap :: nat
  typingImportAliases :: "string list"
  typingSymbolAliases :: "string \<rightharpoonup> string"
  nextFlowNodeId :: nat
  labelAntecedents :: "nat \<Rightarrow> FlowNode list"
  nextSymbolId :: nat
  symbols :: "nat \<rightharpoonup> Symbol"
  nextRef :: nat
  scopes :: "nat \<rightharpoonup> Scope"
  declarations :: "nat \<rightharpoonup> Declaration"
  bindingMaps :: "nat \<Rightarrow> (string \<rightharpoonup> NameBindingType)"
  referenceMaps :: "nat \<Rightarrow> (string \<rightharpoonup> string)"
  flowNodeInfo :: "nat \<rightharpoonup> FlowNode"
  afterFlowNodeInfo :: "nat \<rightharpoonup> FlowNode"
  scopeInfo :: "nat \<rightharpoonup> nat"
  declarationInfo :: "nat \<rightharpoonup> nat"
  codeFlowExpressionsInfo :: "nat \<rightharpoonup> nat"
  diagnostics :: "(string \<times> string \<times> nat) list"

section \<open>The builder of the control-flow graph\<close>

text \<open>
  Modelled from the spec: \<^verbatim>\<open>getUniqueFlowNodeId\<close> of \<^verbatim>\<open>codeFlow.ts\<close> draws from a
  single monotonically increasing counter. The static initialiser of the class draws
  the first id for the one node that stands for unreachable code.
\<close>

definition unreachableFlowNode :: FlowNode where
  "unreachableFlowNode = FlowNode {Unreachable} 0"

definition getUniqueFlowNodeId :: "Binder \<Rightarrow> nat \<times> Binder" where
  "getUniqueFlowNodeId st = (nextFlowNodeId st, st\<lparr>nextFlowNodeId := nextFlowNodeId st + 1\<rparr>)"

definition createStartFlowNode :: "Binder \<Rightarrow> FlowNode \<times> Binder" where
  "createStartFlowNode st =
     (case getUniqueFlowNodeId st of (i, st1) \<Rightarrow> (FlowNode {Start} i, st1))"

text \<open>A new label is an object with an empty antecedent list.\<close>

definition createBranchLabel :: "Binder \<Rightarrow> FlowLabel \<times> Binder" where
  "createBranchLabel st =
     (case getUniqueFlowNodeId st of (i, st1) \<Rightarrow>
        (FlowLabel {BranchLabel} i, st1\<lparr>labelAntecedents := (labelAntecedents st1)(i := [])\<rparr>))"

definition createLoopLabel :: "Binder \<Rightarrow> FlowLabel \<times> Binder" where
  "createLoopLabel st =
     (case getUniqueFlowNodeId st of (i, st1) \<Rightarrow>
        (FlowLabel {LoopLabel} i, st1\<lparr>labelAntecedents := (labelAntecedents st1)(i := [])\<rparr>))"

text \<open>\<^verbatim>\<open>label.antecedents\<close>, read through the store.\<close>

definition antecedents :: "Binder \<Rightarrow> FlowLabel \<Rightarrow> FlowNode list" where
  "antecedents st label = labelAntecedents st (labelId label)"

definition finishFlowLabel :: "Binder \<Rightarrow> FlowLabel \<Rightarrow> FlowNode" where
  "finishFlowLabel st node =
     (if length (antecedents st node) = 0 then unreachableFlowNode
      else if length (antecedents st node) = 1 then antecedents st node ! 0
      else Label node)"

definition isCodeUnreachable :: "Binder \<Rightarrow> bool" where
  "isCodeUnreachable st = (Unreachable \<in> flowFlags (currentFlowNode st))"

definition addAntecedent :: "FlowLabel \<Rightarrow> FlowNode \<Rightarrow> Binder \<Rightarrow> Binder" where
  "addAntecedent label antecedent st =
     (if \<not> (Unreachable \<in> flowFlags (currentFlowNode st)) then
        (if \<not> list_ex (\<lambda>existing. flowId existing = flowId antecedent) (antecedents st label)
         then st\<lparr>labelAntecedents :=
                (labelAntecedents st)(labelId label := antecedents st label @ [antecedent])\<rparr>
         else st)
      else st)"

text \<open>
  \<^verbatim>\<open>_currentExceptTargets\<close> is either undefined or an array; an array, also an empty
  one, is truthy.
\<close>

definition addExceptTargets :: "FlowNode \<Rightarrow> Binder \<Rightarrow> Binder" where
  "addExceptTargets flowNode st =
     (case currentExceptTargets st of
        None \<Rightarrow> st
      | Some targets \<Rightarrow> fold (\<lambda>label. addAntecedent label flowNode) targets st)"

section \<open>Scopes and symbols\<close>

text \<open>
  Modelled from the spec: \<^verbatim>\<open>Scope.lookUpSymbol\<close> returns the symbol defined in this
  scope or nothing; \<^verbatim>\<open>Scope.lookUpSymbolRecursive\<close> walks parent pointers and returns
  the first match paired with the scope it came from; \<^verbatim>\<open>Scope.addSymbol\<close> creates a
  symbol with the given flags and installs it; \<^verbatim>\<open>Symbol.addDeclaration\<close> appends to
  the declaration list. A scope is allocated after its parent, so a parent reference is
  smaller than the reference of its child; the walk stops at a reference that is not.
\<close>

definition lookUpSymbol :: "Binder \<Rightarrow> nat \<Rightarrow> string \<Rightarrow> nat option" where
  "lookUpSymbol st scope name =
     (case scopes st scope of None \<Rightarrow> None | Some sc \<Rightarrow> map_of (symbolTable sc) name)"

function lookUpSymbolRecursive :: "Binder \<Rightarrow> nat \<Rightarrow> string \<Rightarrow> (nat \<times> nat) option" where
  "lookUpSymbolRecursive st scope name =
     (case scopes st scope of
        None \<Rightarrow> None
      | Some sc \<Rightarrow>
          (case map_of (symbolTable sc) name of
             Some symbol \<Rightarrow> Some (symbol, scope)
           | None \<Rightarrow>
               (case scopeParent sc of
                  None \<Rightarrow> None
                | Some parent \<Rightarrow>
                    if parent < scope then lookUpSymbolRecursive st parent name else None)))"
  by pat_completeness auto
termination
  by (relation "measure (\<lambda>(st, scope, name). scope)") auto

text \<open>
  Modelled from the spec: symbol ids come from a counter of their own
  (\<^verbatim>\<open>symbol.ts\<close>); the id 0 is the indeterminate sentinel used for member-access
  targets and is never the id of a symbol.
\<close>

definition indeterminateSymbolId :: nat where
  "indeterminateSymbolId = 0"

definition addSymbol :: "nat \<Rightarrow> string \<Rightarrow> SymbolFlags set \<Rightarrow> Binder \<Rightarrow> nat \<times> Binder" where
  "addSymbol scope name flags st =
     (let symbol = nextSymbolId st in
      (symbol,
       st\<lparr>nextSymbolId := symbol + 1,
          symbols := (symbols st)(symbol \<mapsto> \<lparr>symbolFlags = flags, symbolDeclarations = []\<rparr>),
          scopes := (case scopes st scope of
                       None \<Rightarrow> scopes st
                     | Some sc \<Rightarrow> (scopes st)(scope \<mapsto>
                         sc\<lparr>symbolTable := AList.update name symbol (symbolTable sc)\<rparr>))\<rparr>))"

definition setSymbolFlag :: "nat \<Rightarrow> SymbolFlags \<Rightarrow> Binder \<Rightarrow> Binder" where
  "setSymbolFlag symbol flag st =
     (case symbols st symbol of
        None \<Rightarrow> st
      | Some s \<Rightarrow> st\<lparr>symbols := (symbols st)(symbol \<mapsto> s\<lparr>symbolFlags := insert flag (symbolFlags s)\<rparr>)\<rparr>)"

text \<open>A declaration is an object of its own: it is allocated, then its reference appended.\<close>

definition addDeclaration :: "nat \<Rightarrow> nat \<Rightarrow> Binder \<Rightarrow> Binder" where
  "addDeclaration symbol decl st =
     (case symbols st symbol of
        None \<Rightarrow> st
      | Some s \<Rightarrow> st\<lparr>symbols := (symbols st)(symbol \<mapsto>
                      s\<lparr>symbolDeclarations := symbolDeclarations s @ [decl]\<rparr>)\<rparr>)"

definition newDeclaration :: "Declaration \<Rightarrow> Binder \<Rightarrow> nat \<times> Binder" where
  "newDeclaration d st =
     (nextRef st, st\<lparr>nextRef := nextRef st + 1, declarations := (declarations st)(nextRef st \<mapsto> d)\<rparr>)"

text \<open>The declarations of a symbol, read through the store.\<close>

definition getDeclarations :: "Binder \<Rightarrow> nat \<Rightarrow> Declaration list" where
  "getDeclarations st symbol =
     (case symbols st symbol of
        None \<Rightarrow> []
      | Some s \<Rightarrow> List.map_filter (declarations st) (symbolDeclarations s))"

section \<open>File information and collaborators outside the binder\<close>

text \<open>
  The fields of \<^verbatim>\<open>AnalyzerFileInfo\<close> that the embedded operations read, and with
  them the file name that the path utilities
  (\<^verbatim>\<open>stripFileExtension(getFileName(filePath))\<close>) compute from the path. The functions
  the binder imports from files that are not part of the embedded source are parameters:
  \<^verbatim>\<open>StaticExpressions.evaluateStaticBoolLikeExpression\<close> (with the file's execution
  environment applied), \<^verbatim>\<open>isPrivateOrProtectedName\<close>, \<^verbatim>\<open>isConstantName\<close>,
  \<^verbatim>\<open>getNamesInDunderAll\<close>, and \<^verbatim>\<open>ParseTreeUtils.getEnclosingFunction\<close> and
  \<^verbatim>\<open>ParseTreeUtils.getEnclosingClass\<close> (with its flag \<^verbatim>\<open>stopAtFunction\<close>), which
  follow the parent pointers of a node (given here by the node's id; the enclosing
  function is returned as its id and its \<^verbatim>\<open>isAsync\<close> flag). The parse tree of this
  embedding has no parent pointers, so the one loop of the binder that follows them
  itself (in \<^verbatim>\<open>visitFunction\<close>, to the nearest enclosing function or module node) is
  the parameter \<open>getEnclosingFunctionOrModule\<close>. \<^verbatim>\<open>AnalyzerNodeInfo.getImportInfo\<close>
  reads the import result that an earlier pass attached to a module-name node.
\<close>

datatype ImportType = BuiltIn | ThirdParty | Local

record ImportResult =
  importName :: string
  isImportFound :: bool
  isNativeLib :: bool
  isStubFileImport :: bool
  importType :: ImportType
  isPyTypedPresent :: bool
  nonStubImportFound :: "bool option"
  resolvedPaths :: "string list"
  implicitImports :: "(string \<times> string) list"

record ImportLookupResult =
  lookupSymbolTable :: "(string \<times> Symbol) list"

datatype DiagnosticLevel = LevelNone | LevelInformation | LevelWarning | LevelError

record AnalyzerFileInfo =
  filePath :: string
  fileNameWithoutExtension :: string
  reportMissingImports :: DiagnosticLevel
  reportMissingTypeStubs :: DiagnosticLevel
  reportMissingModuleSource :: DiagnosticLevel
  moduleName :: string
  isStubFile :: bool
  isTypingStubFile :: bool
  builtinsScope :: "nat option"
  importLookup :: "string \<Rightarrow> ImportLookupResult option"

record Collaborators =
  evaluateStaticBoolLikeExpression :: "ExpressionNode \<Rightarrow> bool option"
  isPrivateOrProtectedName :: "string \<Rightarrow> bool"
  isConstantName :: "string \<Rightarrow> bool"
  getEnclosingFunction :: "nat \<Rightarrow> (nat \<times> bool) option"
  getEnclosingClass :: "nat \<Rightarrow> bool \<Rightarrow> nat option"
  getEnclosingFunctionOrModule :: "nat \<Rightarrow> nat option"
  getImportInfo :: "nat \<Rightarrow> ImportResult option"
  getNamesInDunderAll :: "(string \<times> Symbol) list \<Rightarrow> string list option"

section \<open>The narrowing classifier\<close>

text \<open>
  Modelled from the spec: \<^verbatim>\<open>isCodeFlowSupportedForReference\<close> of \<^verbatim>\<open>codeFlow.ts\<close>
  accepts bare names and dotted member chains that are themselves supported references;
  \<^verbatim>\<open>createKeyForReference\<close> is the canonical string form of a name or dotted
  member-access chain.
\<close>

fun isCodeFlowSupportedForReference :: "ExpressionNode \<Rightarrow> bool" where
  "isCodeFlowSupportedForReference (Name n) = True"
| "isCodeFlowSupportedForReference (MemberAccessNode i l m) = isCodeFlowSupportedForReference l"
| "isCodeFlowSupportedForReference e = False"

fun createKeyForReference :: "ExpressionNode \<Rightarrow> string" where
  "createKeyForReference (Name n) = nameValue n"
| "createKeyForReference (MemberAccessNode i l m) =
     createKeyForReference l @ ''.'' @ nameValue m"
| "createKeyForReference e = []"

fun argumentCategory :: "ArgumentNode \<Rightarrow> ArgumentCategory" where
  "argumentCategory (ArgumentNode i c n e) = c"

fun valueExpression :: "ArgumentNode \<Rightarrow> ExpressionNode" where
  "valueExpression (ArgumentNode i c n e) = e"

text \<open>
  The tests of \<^verbatim>\<open>_isNarrowingExpression\<close> on the shape of an operand:
  a constant \<^verbatim>\<open>None\<close>; a call \<^verbatim>\<open>type(X)\<close> with one simple argument (the argument is
  returned); a name node with a given value.
\<close>

fun isNoneConstant :: "ExpressionNode \<Rightarrow> bool" where
  "isNoneConstant (ConstantNode i k) = (k = NoneKeyword)"
| "isNoneConstant e = False"

fun isNameWithValue :: "ExpressionNode \<Rightarrow> string \<Rightarrow> bool" where
  "isNameWithValue (Name n) v = (nameValue n = v)"
| "isNameWithValue e v = False"

fun typeCallArgument :: "ExpressionNode \<Rightarrow> ExpressionNode option" where
  "typeCallArgument (CallNode i l args) =
     (if isNameWithValue l ''type'' \<and> length args = 1 \<and> argumentCategory (args ! 0) = Simple
      then Some (valueExpression (args ! 0)) else None)"
| "typeCallArgument e = None"

text \<open>
  \<^verbatim>\<open>_isNarrowingExpression\<close> returns whether the expression takes part in narrowing
  and pushes the reference expressions it finds onto the list it is given; the list is
  returned as it stands after the call.
\<close>

lemma typeCallArgument_size: "typeCallArgument l = Some x \<Longrightarrow> size x < size l"
  apply (cases l; simp split: if_splits)
  subgoal for i f args
    apply (cases args; simp)
    subgoal for a as by (cases a; simp)
    done
  done

lemma argument_size:
  "0 < length args \<Longrightarrow> size (valueExpression (args ! 0)) < Suc (size_list size args + k)"
  apply (cases args; simp)
  subgoal for a as by (cases a; simp)
  done

function isNarrowingExpression ::
  "ExpressionNode \<Rightarrow> ExpressionNode list \<Rightarrow> bool \<times> ExpressionNode list" where
  "isNarrowingExpression (Name n) expressionList =
     (if isCodeFlowSupportedForReference (Name n)
      then (True, expressionList @ [Name n]) else (False, expressionList))"
| "isNarrowingExpression (MemberAccessNode i l m) expressionList =
     (if isCodeFlowSupportedForReference (MemberAccessNode i l m)
      then (True, expressionList @ [MemberAccessNode i l m]) else (False, expressionList))"
| "isNarrowingExpression (AssignmentExpressionNode i n r) expressionList =
     (True, expressionList @ [Name n])"
| "isNarrowingExpression (BinaryOperationNode i l op r) expressionList =
     (let isOrIsNotOperator = (op = OpIs \<or> op = OpIsNot);
          equalsOrNotEqualsOperator = (op = OpEquals \<or> op = OpNotEquals)
      in if isOrIsNotOperator \<or> equalsOrNotEqualsOperator then
           (if isNoneConstant r then isNarrowingExpression l expressionList
            else if isOrIsNotOperator \<and> typeCallArgument l \<noteq> None then
              (case typeCallArgument l of
                 Some x \<Rightarrow> isNarrowingExpression x expressionList
               | None \<Rightarrow> (False, expressionList))
            else
              (case isNarrowingExpression l expressionList of
                 (isLeftNarrowing, expressionList1) \<Rightarrow>
                   if isOrIsNotOperator then (isLeftNarrowing, expressionList1)
                   else
                     (case isNarrowingExpression r expressionList1 of
                        (isRightNarrowing, expressionList2) \<Rightarrow>
                          (isLeftNarrowing \<or> isRightNarrowing, expressionList2))))
         else if op = OpIn then isNarrowingExpression l expressionList
         else (False, expressionList))"
| "isNarrowingExpression (UnaryOperationNode i op e) expressionList =
     (if op = OpNot then isNarrowingExpression e expressionList else (False, expressionList))"
| "isNarrowingExpression (AugmentedAssignmentNode i l op r) expressionList =
     isNarrowingExpression r expressionList"
| "isNarrowingExpression (CallNode i l args) expressionList =
     (if (isNameWithValue l ''isinstance'' \<or> isNameWithValue l ''issubclass'') \<and> length args = 2
      then isNarrowingExpression (valueExpression (args ! 0)) expressionList
      else if isNameWithValue l ''callable'' \<and> length args = 1
      then isNarrowingExpression (valueExpression (args ! 0)) expressionList
      else (False, expressionList))"
| "isNarrowingExpression (ConstantNode i k) expressionList = (False, expressionList)"
| "isNarrowingExpression (NumberNode i v) expressionList = (False, expressionList)"
| "isNarrowingExpression (TernaryNode i a t b) expressionList = (False, expressionList)"
| "isNarrowingExpression (TupleNode i es) expressionList = (False, expressionList)"
| "isNarrowingExpression (ListNode i es) expressionList = (False, expressionList)"
| "isNarrowingExpression (TypeAnnotationNode i v t) expressionList = (False, expressionList)"
| "isNarrowingExpression (UnpackNode i e) expressionList = (False, expressionList)"
| "isNarrowingExpression (YieldNode i e) expressionList = (False, expressionList)"
| "isNarrowingExpression (YieldFromNode i e) expressionList = (False, expressionList)"
| "isNarrowingExpression (LambdaNode i ps e) expressionList = (False, expressionList)"
  by pat_completeness auto
termination
  apply (relation "measure (\<lambda>(e, l). size e)")
  apply (auto dest: typeCallArgument_size simp: argument_size)
  done


section \<open>Creating flow nodes\<close>

definition setReferenceKey :: "string \<Rightarrow> Binder \<Rightarrow> Binder" where
  "setReferenceKey referenceKey st =
     st\<lparr>referenceMaps := (referenceMaps st)(currentExecutionScopeReferenceMap st :=
          (referenceMaps st (currentExecutionScopeReferenceMap st))(referenceKey \<mapsto> referenceKey))\<rparr>"

definition createFlowConditional ::
  "Collaborators \<Rightarrow> FlowFlags set \<Rightarrow> FlowNode \<Rightarrow> ExpressionNode \<Rightarrow> Binder \<Rightarrow> FlowNode \<times> Binder" where
  "createFlowConditional ext flags antecedent expression st =
     (if Unreachable \<in> flowFlags antecedent then (antecedent, st)
      else
        (let staticValue = evaluateStaticBoolLikeExpression ext expression in
         if (staticValue = Some True \<and> FalseCondition \<in> flags) \<or>
            (staticValue = Some False \<and> TrueCondition \<in> flags)
         then (unreachableFlowNode, st)
         else
           (case isNarrowingExpression expression [] of
              (False, expressionList) \<Rightarrow> (antecedent, st)
            | (True, expressionList) \<Rightarrow>
                (let st1 = fold (\<lambda>expr. setReferenceKey (createKeyForReference expr))
                             expressionList st
                 in case getUniqueFlowNodeId st1 of (i, st2) \<Rightarrow>
                      (let conditionalFlowNode = FlowCondition flags i expression antecedent
                       in (conditionalFlowNode, addExceptTargets conditionalFlowNode st2))))))"

definition setFlowNode :: "nat \<Rightarrow> FlowNode \<Rightarrow> Binder \<Rightarrow> Binder" where
  "setFlowNode node flowNode st = st\<lparr>flowNodeInfo := (flowNodeInfo st)(node \<mapsto> flowNode)\<rparr>"

definition createCallFlowNode :: "ExpressionNode \<Rightarrow> Binder \<Rightarrow> Binder" where
  "createCallFlowNode node st =
     (let st1 =
        (if \<not> isCodeUnreachable st then
           (case getUniqueFlowNodeId st of (i, st') \<Rightarrow>
              st'\<lparr>currentFlowNode := FlowCall {Call} i node (currentFlowNode st')\<rparr>)
         else st)
      in setFlowNode (exprId node) (currentFlowNode st1) st1)"

definition createAssignmentAliasFlowNode :: "nat \<Rightarrow> nat \<Rightarrow> Binder \<Rightarrow> Binder" where
  "createAssignmentAliasFlowNode targetSymbolId aliasSymbolId st =
     (if \<not> isCodeUnreachable st then
        (case getUniqueFlowNodeId st of (i, st') \<Rightarrow>
           st'\<lparr>currentFlowNode :=
                FlowAssignmentAlias {AssignmentAlias} i (currentFlowNode st')
                  targetSymbolId aliasSymbolId\<rparr>)
      else st)"

text \<open>
  The failures of the source: an assertion of \<^verbatim>\<open>common/debug\<close> that does not hold, and
  a property read on \<^verbatim>\<open>undefined\<close>.
\<close>

datatype BinderError = AssertionFailed | TypeError

text \<open>
  \<^verbatim>\<open>_createFlowAssignment\<close>. The target is a name or a member access. For a name the
  symbol must be found (the source asserts it).
\<close>

definition createFlowAssignment :: "ExpressionNode \<Rightarrow> bool \<Rightarrow> Binder \<Rightarrow> BinderError + Binder" where
  "createFlowAssignment node unbound st =
     (case (case node of
              Name n \<Rightarrow>
                (case lookUpSymbolRecursive st (currentScope st) (nameValue n) of
                   None \<Rightarrow> Inl AssertionFailed
                 | Some (symbol, scope) \<Rightarrow> Inr symbol)
            | _ \<Rightarrow> Inr indeterminateSymbolId) of
        Inl e \<Rightarrow> Inl e
      | Inr targetSymbolId \<Rightarrow>
          (let prevFlowNode = currentFlowNode st;
               st1 =
                 (if \<not> isCodeUnreachable st \<and> isCodeFlowSupportedForReference node then
                    (case getUniqueFlowNodeId st of (i, st') \<Rightarrow>
                       (let st'' = setReferenceKey (createKeyForReference node) st';
                            flowNode = FlowAssignment
                              (if unbound then {Assignment, Unbind} else {Assignment})
                              i node (currentFlowNode st) targetSymbolId
                        in (addExceptTargets flowNode st'')\<lparr>currentFlowNode := flowNode\<rparr>))
                  else st)
           in Inr (if \<not> unbound \<or> flowNodeInfo st1 (exprId node) = None
                   then setFlowNode (exprId node)
                          (if unbound then prevFlowNode else currentFlowNode st1) st1
                   else st1)))"

fun importFromId :: "ImportFromNode \<Rightarrow> nat" where
  "importFromId (ImportFromNode i m w imports) = i"

definition createFlowWildcardImport :: "ImportFromNode \<Rightarrow> string list \<Rightarrow> Binder \<Rightarrow> Binder" where
  "createFlowWildcardImport node names st =
     (let st1 =
        (if \<not> isCodeUnreachable st then
           (case getUniqueFlowNodeId st of (i, st') \<Rightarrow>
              (let flowNode = FlowWildcardImport {WildcardImport} i node names (currentFlowNode st')
               in (addExceptTargets flowNode st')\<lparr>currentFlowNode := flowNode\<rparr>))
         else st)
      in setFlowNode (importFromId node) (currentFlowNode st1) st1)"

section \<open>Binding names to scopes\<close>

text \<open>
  \<^verbatim>\<open>_bindNameToScope\<close> returns the symbol, or nothing for a name that the current scope
  declares global or nonlocal. The optional map \<^verbatim>\<open>addedSymbols\<close> is an argument that
  the source mutates; it is returned as it stands after the call. A class scope always has
  a parent; the source reads it with a non-null assertion.
\<close>

definition bindNameToScope ::
  "AnalyzerFileInfo \<Rightarrow> Collaborators \<Rightarrow> nat \<Rightarrow> string \<Rightarrow> (string \<times> nat) list option \<Rightarrow> Binder
   \<Rightarrow> BinderError + (nat option \<times> (string \<times> nat) list option \<times> Binder)" where
  "bindNameToScope fileInfo ext scope name addedSymbols st =
     (if bindingMaps st (notLocalBindings st) name = None then
        (case lookUpSymbol st scope name of
           Some symbol \<Rightarrow> Inr (Some symbol, addedSymbols, st)
         | None \<Rightarrow>
             (case addSymbol scope name {InitiallyUnbound, ClassMember} st of (symbol, st1) \<Rightarrow>
                (case (if map_option scopeType (scopes st1 scope) = Some Class then
                         (case Option.bind (scopes st1 scope) scopeParent of
                            None \<Rightarrow> Inl TypeError
                          | Some parent \<Rightarrow>
                              (case lookUpSymbol st1 parent name of
                                 Some aliasSymbol \<Rightarrow>
                                   Inr (createAssignmentAliasFlowNode symbol aliasSymbol st1)
                               | None \<Rightarrow> Inr st1))
                       else Inr st1) of
                   Inl e \<Rightarrow> Inl e
                 | Inr st2 \<Rightarrow>
                     (let st3 = (if isStubFile fileInfo \<and> isPrivateOrProtectedName ext name
                                 then setSymbolFlag symbol ExternallyHidden st2 else st2)
                      in Inr (Some symbol,
                              map_option (AList.update name symbol) addedSymbols, st3)))))
      else Inr (None, addedSymbols, st))"

text \<open>\<^verbatim>\<open>_addSymbolToCurrentScope\<close>: adds the symbol if the current scope has none of this name.\<close>

definition addSymbolToCurrentScope ::
  "AnalyzerFileInfo \<Rightarrow> Collaborators \<Rightarrow> string \<Rightarrow> bool \<Rightarrow> Binder \<Rightarrow> nat \<times> Binder" where
  "addSymbolToCurrentScope fileInfo ext name isInitiallyUnbound st =
     (case lookUpSymbol st (currentScope st) name of
        Some symbol \<Rightarrow> (symbol, st)
      | None \<Rightarrow>
          addSymbol (currentScope st) name
            ((if isInitiallyUnbound then {InitiallyUnbound} else {}) \<union>
             (if map_option scopeType (scopes st (currentScope st)) = Some Class
              then {ClassMember} else {}) \<union>
             (if isStubFile fileInfo \<and> isPrivateOrProtectedName ext name
              then {ExternallyHidden} else {}))
            st)"

definition addBuiltInSymbolToCurrentScope ::
  "AnalyzerFileInfo \<Rightarrow> Collaborators \<Rightarrow> string \<Rightarrow> nat \<Rightarrow> string \<Rightarrow> Binder \<Rightarrow> Binder" where
  "addBuiltInSymbolToCurrentScope fileInfo ext name node type st =
     (case addSymbolToCurrentScope fileInfo ext name False st of (symbol, st1) \<Rightarrow>
        (case newDeclaration
                (IntrinsicDeclaration node type (filePath fileInfo) (moduleName fileInfo)) st1 of
           (decl, st2) \<Rightarrow>
             setSymbolFlag symbol IgnoredForProtocolMatch (addDeclaration symbol decl st2)))"

text \<open>
  The failures of the embedding itself, beside those of the source: a walk that was
  given too little fuel, and a parse node whose visitor is not embedded.
\<close>

datatype WalkError = Raised BinderError | OutOfFuel | NotEmbedded

definition andThen :: "WalkError + 'a \<Rightarrow> ('a \<Rightarrow> WalkError + 'b) \<Rightarrow> WalkError + 'b" where
  "andThen m f = (case m of Inl e \<Rightarrow> Inl e | Inr x \<Rightarrow> f x)"

definition raised :: "BinderError + 'a \<Rightarrow> WalkError + 'a" where
  "raised m = (case m of Inl e \<Rightarrow> Inl (Raised e) | Inr x \<Rightarrow> Inr x)"

text \<open>
  \<^verbatim>\<open>_createNewScope\<close> runs the callback in a new scope and restores the scope, the
  reference map and the non-local bindings afterwards. A scope, a reference map and a
  binding map are new objects, allocated from \<open>nextRef\<close>; \<open>enterNewScope\<close> is the
  state in which the callback starts. An exception of the callback leaves the function.
\<close>

definition enterNewScope :: "ScopeType \<Rightarrow> nat option \<Rightarrow> Binder \<Rightarrow> Binder" where
  "enterNewScope type parentScope st =
     (let scope = nextRef st;
          st1 = st\<lparr>nextRef := scope + 1,
                   scopes := (scopes st)(scope \<mapsto>
                     \<lparr>scopeType = type, scopeParent = parentScope, symbolTable = []\<rparr>),
                   currentScope := scope\<rparr>;
          isExecutionScope = (type = Builtin \<or> type = Module \<or> type = Function);
          st2 = (if isExecutionScope then
                   st1\<lparr>nextRef := nextRef st1 + 1,
                       referenceMaps := (referenceMaps st1)(nextRef st1 := Map.empty),
                       currentExecutionScopeReferenceMap := nextRef st1\<rparr>
                 else st1)
      in st2\<lparr>nextRef := nextRef st2 + 1,
              bindingMaps := (bindingMaps st2)(nextRef st2 := Map.empty),
              notLocalBindings := nextRef st2\<rparr>)"

definition createNewScope ::
  "ScopeType \<Rightarrow> nat option \<Rightarrow> (Binder \<Rightarrow> WalkError + Binder) \<Rightarrow> Binder \<Rightarrow> WalkError + Binder" where
  "createNewScope type parentScope callback st =
     (let prevScope = currentScope st;
          prevReferenceMap = currentExecutionScopeReferenceMap st;
          prevNonLocalBindings = notLocalBindings st
      in andThen (callback (enterNewScope type parentScope st))
           (\<lambda>st1. Inr (st1\<lparr>currentExecutionScopeReferenceMap := prevReferenceMap,
                           currentScope := prevScope,
                           notLocalBindings := prevNonLocalBindings\<rparr>)))"

section \<open>Walking the parse tree\<close>

text \<open>
  The binder extends \<^verbatim>\<open>ParseTreeWalker\<close>, whose \<^verbatim>\<open>walk\<close> calls the visitor of the
  node's kind and, when the visitor returns true, walks the node's children. The visitors
  call \<^verbatim>\<open>this.walk\<close> on sub-nodes in turn. A visitor of the binder is embedded as a
  function of the walk it calls, and returns the visitor's boolean with the new state.
\<close>

datatype ParseNode =
    ExpressionP ExpressionNode
  | ArgumentP ArgumentNode
  | ParameterP ParameterNode
  | StatementP StatementNode
  | SuiteP SuiteNode
  | ExceptP ExceptNode
  | ElseP ElseNode
  | ModuleNameP ModuleNameNode
  | ImportFromAsP ImportFromAsNode

type_synonym Walk = "ParseNode \<Rightarrow> Binder \<Rightarrow> WalkError + Binder"

fun walkMultiple :: "Walk \<Rightarrow> ParseNode list \<Rightarrow> Binder \<Rightarrow> WalkError + Binder" where
  "walkMultiple walk [] st = Inr st"
| "walkMultiple walk (node # nodes) st = andThen (walk node st) (walkMultiple walk nodes)"

fun walkOptional :: "Walk \<Rightarrow> ParseNode option \<Rightarrow> Binder \<Rightarrow> WalkError + Binder" where
  "walkOptional walk None st = Inr st"
| "walkOptional walk (Some node) st = walk node st"

section \<open>Finding yield statements\<close>

text \<open>
  \<^verbatim>\<open>YieldFinder\<close> is a \<^verbatim>\<open>ParseTreeWalker\<close> that overrides the visitors of the two
  yield nodes only: it descends into every child of every other node, so
  \<^verbatim>\<open>checkContainsYield\<close> holds when a yield node stands anywhere below the node, also
  inside a nested function, lambda or class.
\<close>

fun containsYieldExpression :: "ExpressionNode \<Rightarrow> bool"
  and containsYieldArgument :: "ArgumentNode \<Rightarrow> bool"
  and containsYieldParameter :: "ParameterNode \<Rightarrow> bool" where
  "containsYieldExpression (YieldNode i e) = True"
| "containsYieldExpression (YieldFromNode i e) = True"
| "containsYieldExpression (Name n) = False"
| "containsYieldExpression (MemberAccessNode i l m) = containsYieldExpression l"
| "containsYieldExpression (ConstantNode i k) = False"
| "containsYieldExpression (NumberNode i v) = False"
| "containsYieldExpression (CallNode i l args) =
     (containsYieldExpression l \<or> list_ex containsYieldArgument args)"
| "containsYieldExpression (BinaryOperationNode i l op r) =
     (containsYieldExpression l \<or> containsYieldExpression r)"
| "containsYieldExpression (UnaryOperationNode i op e) = containsYieldExpression e"
| "containsYieldExpression (AssignmentExpressionNode i n r) = containsYieldExpression r"
| "containsYieldExpression (AugmentedAssignmentNode i l op r) =
     (containsYieldExpression l \<or> containsYieldExpression r)"
| "containsYieldExpression (TernaryNode i a t b) =
     (containsYieldExpression a \<or> containsYieldExpression t \<or> containsYieldExpression b)"
| "containsYieldExpression (TupleNode i es) = list_ex containsYieldExpression es"
| "containsYieldExpression (ListNode i es) = list_ex containsYieldExpression es"
| "containsYieldExpression (TypeAnnotationNode i v t) =
     (containsYieldExpression v \<or> containsYieldExpression t)"
| "containsYieldExpression (UnpackNode i e) = containsYieldExpression e"
| "containsYieldExpression (LambdaNode i ps e) =
     (list_ex containsYieldParameter ps \<or> containsYieldExpression e)"
| "containsYieldArgument (ArgumentNode i c n e) = containsYieldExpression e"
| "containsYieldParameter (ParameterNode i n d a) =
     ((case d of None \<Rightarrow> False | Some e \<Rightarrow> containsYieldExpression e) \<or>
      (case a of None \<Rightarrow> False | Some e \<Rightarrow> containsYieldExpression e))"

definition containsYieldOptional :: "ExpressionNode option \<Rightarrow> bool" where
  "containsYieldOptional e = (case e of None \<Rightarrow> False | Some x \<Rightarrow> containsYieldExpression x)"

fun containsYieldStatement :: "StatementNode \<Rightarrow> bool"
  and containsYieldSuite :: "SuiteNode \<Rightarrow> bool"
  and containsYieldExcept :: "ExceptNode \<Rightarrow> bool"
  and containsYieldElse :: "ElseNode \<Rightarrow> bool" where
  "containsYieldStatement (StatementListNode i ss) = list_ex containsYieldStatement ss"
| "containsYieldStatement (ExpressionStatement e) = containsYieldExpression e"
| "containsYieldStatement (PassNode i) = False"
| "containsYieldStatement (BreakNode i) = False"
| "containsYieldStatement (ContinueNode i) = False"
| "containsYieldStatement (ReturnNode i e) = containsYieldOptional e"
| "containsYieldStatement (RaiseNode i t v b) =
     (containsYieldOptional t \<or> containsYieldOptional v \<or> containsYieldOptional b)"
| "containsYieldStatement (AssignmentNode i l r) =
     (containsYieldExpression l \<or> containsYieldExpression r)"
| "containsYieldStatement (DelNode i es) = list_ex containsYieldExpression es"
| "containsYieldStatement (AssertNode i t e) =
     (containsYieldExpression t \<or> containsYieldOptional e)"
| "containsYieldStatement (GlobalNode i ns) = False"
| "containsYieldStatement (NonlocalNode i ns) = False"
| "containsYieldStatement (ImportAs n) = False"
| "containsYieldStatement (ImportFrom n) = False"
| "containsYieldStatement (IfNode i t s e) =
     (containsYieldExpression t \<or> containsYieldSuite s \<or>
      (case e of None \<Rightarrow> False | Some x \<Rightarrow> containsYieldElse x))"
| "containsYieldStatement (WhileNode i t s e) =
     (containsYieldExpression t \<or> containsYieldSuite s \<or>
      (case e of None \<Rightarrow> False | Some x \<Rightarrow> containsYieldSuite x))"
| "containsYieldStatement (ForNode i t it s e) =
     (containsYieldExpression t \<or> containsYieldExpression it \<or> containsYieldSuite s \<or>
      (case e of None \<Rightarrow> False | Some x \<Rightarrow> containsYieldSuite x))"
| "containsYieldStatement (WithNode i items s) =
     (list_ex (\<lambda>item. containsYieldExpression (fst item) \<or> containsYieldOptional (snd item)) items \<or>
      containsYieldSuite s)"
| "containsYieldStatement (TryNode i t es e f) =
     (containsYieldSuite t \<or> list_ex containsYieldExcept es \<or>
      (case e of None \<Rightarrow> False | Some x \<Rightarrow> containsYieldSuite x) \<or>
      (case f of None \<Rightarrow> False | Some x \<Rightarrow> containsYieldSuite x))"
| "containsYieldStatement (FunctionNode i isAsync n ds ps r c s) =
     (list_ex containsYieldExpression ds \<or> list_ex containsYieldParameter ps \<or>
      containsYieldOptional r \<or> containsYieldOptional c \<or> containsYieldSuite s)"
| "containsYieldStatement (ClassNode i n ds args s) =
     (list_ex containsYieldExpression ds \<or> list_ex containsYieldArgument args \<or>
      containsYieldSuite s)"
| "containsYieldSuite (SuiteNode i ss) = list_ex containsYieldStatement ss"
| "containsYieldExcept (ExceptNode i t n s) = (containsYieldOptional t \<or> containsYieldSuite s)"
| "containsYieldElse (ElseSuite s) = containsYieldSuite s"
| "containsYieldElse (ElseIf s) = containsYieldStatement s"

fun checkContainsYield :: "ParseNode \<Rightarrow> bool" where
  "checkContainsYield (ExpressionP e) = containsYieldExpression e"
| "checkContainsYield (ArgumentP a) = containsYieldArgument a"
| "checkContainsYield (ParameterP p) = containsYieldParameter p"
| "checkContainsYield (StatementP s) = containsYieldStatement s"
| "checkContainsYield (SuiteP s) = containsYieldSuite s"
| "checkContainsYield (ExceptP e) = containsYieldExcept e"
| "checkContainsYield (ElseP e) = containsYieldElse e"
| "checkContainsYield (ModuleNameP m) = False"
| "checkContainsYield (ImportFromAsP n) = False"

section \<open>Function declarations and diagnostics\<close>

text \<open>
  The fields of a function declaration that the binder updates after it created the
  declaration: \<^verbatim>\<open>isGenerator\<close> and the lists of yield, return and raise statements
  (absent until the first statement is appended). Statements are recorded by node id.
\<close>

fun isGenerator :: "Declaration \<Rightarrow> bool" where
  "isGenerator (FunctionDeclaration n m g ys rs zs p mn) = g"
| "isGenerator d = False"

fun setIsGenerator :: "Declaration \<Rightarrow> Declaration" where
  "setIsGenerator (FunctionDeclaration n m g ys rs zs p mn) =
     FunctionDeclaration n m True ys rs zs p mn"
| "setIsGenerator d = d"

fun pushYieldStatement :: "nat \<Rightarrow> Declaration \<Rightarrow> Declaration" where
  "pushYieldStatement node (FunctionDeclaration n m g ys rs zs p mn) =
     FunctionDeclaration n m g (Some ((case ys of None \<Rightarrow> [] | Some l \<Rightarrow> l) @ [node])) rs zs p mn"
| "pushYieldStatement node d = d"

fun pushReturnStatement :: "nat \<Rightarrow> Declaration \<Rightarrow> Declaration" where
  "pushReturnStatement node (FunctionDeclaration n m g ys rs zs p mn) =
     FunctionDeclaration n m g ys (Some ((case rs of None \<Rightarrow> [] | Some l \<Rightarrow> l) @ [node])) zs p mn"
| "pushReturnStatement node d = d"

fun pushRaiseStatement :: "nat \<Rightarrow> Declaration \<Rightarrow> Declaration" where
  "pushRaiseStatement node (FunctionDeclaration n m g ys rs zs p mn) =
     FunctionDeclaration n m g ys rs (Some ((case zs of None \<Rightarrow> [] | Some l \<Rightarrow> l) @ [node])) p mn"
| "pushRaiseStatement node d = d"

definition updateDeclaration :: "nat \<Rightarrow> (Declaration \<Rightarrow> Declaration) \<Rightarrow> Binder \<Rightarrow> Binder" where
  "updateDeclaration decl f st =
     (case declarations st decl of
        None \<Rightarrow> st
      | Some d \<Rightarrow> st\<lparr>declarations := (declarations st)(decl \<mapsto> f d)\<rparr>)"

text \<open>The generator flag of the declaration that a reference names.\<close>

definition isGeneratorDeclaration :: "Binder \<Rightarrow> nat \<Rightarrow> bool" where
  "isGeneratorDeclaration st decl =
     (case declarations st decl of None \<Rightarrow> False | Some d \<Rightarrow> isGenerator d)"

text \<open>
  \<^verbatim>\<open>_addError\<close> hands the diagnostic sink a category, a message and a range; the
  message is recorded by the name it has in the localizer and the range by the node.
\<close>

definition addError :: "string \<Rightarrow> nat \<Rightarrow> Binder \<Rightarrow> Binder" where
  "addError message node st = st\<lparr>diagnostics := diagnostics st @ [(''error'', message, node)]\<rparr>"

text \<open>
  \<^verbatim>\<open>_addDiagnostic\<close> reports at the level that the rule set of the file gives the
  rule, or not at all. The rule name and the action that the source attaches to the
  diagnostic are not represented.
\<close>

definition addDiagnostic :: "DiagnosticLevel \<Rightarrow> string \<Rightarrow> nat \<Rightarrow> Binder \<Rightarrow> Binder" where
  "addDiagnostic diagLevel message node st =
     (case diagLevel of
        LevelError \<Rightarrow> st\<lparr>diagnostics := diagnostics st @ [(''error'', message, node)]\<rparr>
      | LevelWarning \<Rightarrow> st\<lparr>diagnostics := diagnostics st @ [(''warning'', message, node)]\<rparr>
      | LevelInformation \<Rightarrow>
          st\<lparr>diagnostics := diagnostics st @ [(''information'', message, node)]\<rparr>
      | LevelNone \<Rightarrow> st)"

section \<open>Statements and unreachable code\<close>

fun suiteId :: "SuiteNode \<Rightarrow> nat" where
  "suiteId (SuiteNode i ss) = i"

fun suiteStatements :: "SuiteNode \<Rightarrow> StatementNode list" where
  "suiteStatements (SuiteNode i ss) = ss"

fun importAsId :: "ImportAsNode \<Rightarrow> nat" where
  "importAsId (ImportAsNode i m a) = i"

fun statementId :: "StatementNode \<Rightarrow> nat" where
  "statementId (StatementListNode i ss) = i"
| "statementId (ExpressionStatement e) = exprId e"
| "statementId (PassNode i) = i"
| "statementId (BreakNode i) = i"
| "statementId (ContinueNode i) = i"
| "statementId (ReturnNode i e) = i"
| "statementId (RaiseNode i t v b) = i"
| "statementId (AssignmentNode i l r) = i"
| "statementId (DelNode i es) = i"
| "statementId (AssertNode i t e) = i"
| "statementId (GlobalNode i ns) = i"
| "statementId (NonlocalNode i ns) = i"
| "statementId (ImportAs n) = importAsId n"
| "statementId (ImportFrom n) = importFromId n"
| "statementId (IfNode i t s e) = i"
| "statementId (WhileNode i t s e) = i"
| "statementId (ForNode i t it s e) = i"
| "statementId (WithNode i items s) = i"
| "statementId (TryNode i t es e f) = i"
| "statementId (FunctionNode i isAsync n ds ps r c s) = i"
| "statementId (ClassNode i n ds args s) = i"

text \<open>
  The else branch of the loop of \<^verbatim>\<open>_walkStatementsAndReportUnreachable\<close>: within a
  function that is not yet known to be a generator, a skipped statement is searched for
  yield statements.
\<close>

definition markGeneratorIfYield :: "StatementNode \<Rightarrow> Binder \<Rightarrow> Binder" where
  "markGeneratorIfYield statement st =
     (case targetFunctionDeclaration st of
        None \<Rightarrow> st
      | Some decl \<Rightarrow>
          if \<not> isGeneratorDeclaration st decl then
            (if checkContainsYield (StatementP statement)
             then updateDeclaration decl setIsGenerator st else st)
          else st)"

text \<open>
  The loop of \<^verbatim>\<open>_walkStatementsAndReportUnreachable\<close>, with its local variable
  \<^verbatim>\<open>foundUnreachableStatement\<close> as an argument.
\<close>

fun walkStatements :: "Walk \<Rightarrow> bool \<Rightarrow> StatementNode list \<Rightarrow> Binder \<Rightarrow> WalkError + Binder" where
  "walkStatements walk foundUnreachableStatement [] st = Inr st"
| "walkStatements walk foundUnreachableStatement (statement # statements) st =
     (let st1 = setFlowNode (statementId statement) (currentFlowNode st) st;
          found = (if \<not> foundUnreachableStatement then isCodeUnreachable st1
                   else foundUnreachableStatement)
      in if \<not> found then
           andThen (walk (StatementP statement) st1) (walkStatements walk found statements)
         else walkStatements walk found statements (markGeneratorIfYield statement st1))"

definition walkStatementsAndReportUnreachable ::
  "Walk \<Rightarrow> StatementNode list \<Rightarrow> Binder \<Rightarrow> WalkError + (bool \<times> Binder)" where
  "walkStatementsAndReportUnreachable walk statements st =
     andThen (walkStatements walk False statements st) (\<lambda>st1. Inr (False, st1))"

definition visitSuite :: "Walk \<Rightarrow> SuiteNode \<Rightarrow> Binder \<Rightarrow> WalkError + (bool \<times> Binder)" where
  "visitSuite walk node st =
     andThen (walkStatementsAndReportUnreachable walk (suiteStatements node) st)
       (\<lambda>(b, st1). Inr (False, st1))"

section \<open>Expressions\<close>

definition visitName :: "NameNode \<Rightarrow> Binder \<Rightarrow> WalkError + (bool \<times> Binder)" where
  "visitName node st = Inr (False, setFlowNode (nameId node) (currentFlowNode st) st)"

definition visitMemberAccess :: "ExpressionNode \<Rightarrow> Binder \<Rightarrow> WalkError + (bool \<times> Binder)" where
  "visitMemberAccess node st = Inr (True, setFlowNode (exprId node) (currentFlowNode st) st)"

text \<open>\<^verbatim>\<open>visitCall\<close>, for a call node with its left expression and its arguments.\<close>

definition visitCall ::
  "Walk \<Rightarrow> ExpressionNode \<Rightarrow> ExpressionNode \<Rightarrow> ArgumentNode list \<Rightarrow> Binder
   \<Rightarrow> WalkError + (bool \<times> Binder)" where
  "visitCall walk node leftExpression arguments st =
     andThen (walk (ExpressionP leftExpression) st) (\<lambda>st1.
     andThen (walkMultiple walk (map ArgumentP arguments) st1) (\<lambda>st2.
     Inr (False, createCallFlowNode node st2)))"

fun isYieldFrom :: "ExpressionNode \<Rightarrow> bool" where
  "isYieldFrom (YieldFromNode i e) = True"
| "isYieldFrom e = False"

fun yieldExpression :: "ExpressionNode \<Rightarrow> ExpressionNode option" where
  "yieldExpression (YieldNode i e) = e"
| "yieldExpression (YieldFromNode i e) = Some e"
| "yieldExpression e = None"

text \<open>\<^verbatim>\<open>_bindYield\<close>, for a yield or a yield-from node; both visitors call it and return false.\<close>

definition bindYield :: "Walk \<Rightarrow> Collaborators \<Rightarrow> ExpressionNode \<Rightarrow> Binder \<Rightarrow> WalkError + Binder" where
  "bindYield walk ext node st =
     (let st1 =
        (case getEnclosingFunction ext (exprId node) of
           None \<Rightarrow> addError ''yieldOutsideFunction'' (exprId node) st
         | Some (functionNode, isAsync) \<Rightarrow>
             if isAsync \<and> isYieldFrom node
             then addError ''yieldFromOutsideAsync'' (exprId node) st else st);
          st2 =
        (case targetFunctionDeclaration st1 of
           None \<Rightarrow> st1
         | Some decl \<Rightarrow>
             updateDeclaration decl (\<lambda>d. setIsGenerator (pushYieldStatement (exprId node) d)) st1)
      in andThen (walkOptional walk (map_option ExpressionP (yieldExpression node)) st2)
           (\<lambda>st3. Inr (setFlowNode (exprId node) (currentFlowNode st3) st3)))"

definition visitYield :: "Walk \<Rightarrow> Collaborators \<Rightarrow> ExpressionNode \<Rightarrow> Binder \<Rightarrow> WalkError + (bool \<times> Binder)" where
  "visitYield walk ext node st = andThen (bindYield walk ext node st) (\<lambda>st1. Inr (False, st1))"

definition visitYieldFrom :: "Walk \<Rightarrow> Collaborators \<Rightarrow> ExpressionNode \<Rightarrow> Binder \<Rightarrow> WalkError + (bool \<times> Binder)" where
  "visitYieldFrom walk ext node st = andThen (bindYield walk ext node st) (\<lambda>st1. Inr (False, st1))"

section \<open>Return, break, continue and raise\<close>

definition visitReturn ::
  "Walk \<Rightarrow> nat \<Rightarrow> ExpressionNode option \<Rightarrow> Binder \<Rightarrow> WalkError + (bool \<times> Binder)" where
  "visitReturn walk node returnExpression st =
     (let st1 = (case targetFunctionDeclaration st of
                   None \<Rightarrow> st
                 | Some decl \<Rightarrow> updateDeclaration decl (pushReturnStatement node) st)
      in andThen (walkOptional walk (map_option ExpressionP returnExpression) st1) (\<lambda>st2.
           (let st3 = setFlowNode node (currentFlowNode st2) st2;
                st4 = (case currentReturnTarget st3 of
                         None \<Rightarrow> st3
                       | Some target \<Rightarrow> addAntecedent target (currentFlowNode st3) st3);
                st5 = fold (\<lambda>target s. addAntecedent target (currentFlowNode s) s)
                        (finallyTargets st4) st4
            in Inr (False, st5\<lparr>currentFlowNode := unreachableFlowNode\<rparr>))))"

definition visitContinue :: "nat \<Rightarrow> Binder \<Rightarrow> WalkError + (bool \<times> Binder)" where
  "visitContinue node st =
     (let st1 = (case currentContinueTarget st of
                   None \<Rightarrow> st
                 | Some target \<Rightarrow> addAntecedent target (currentFlowNode st) st)
      in Inr (False, st1\<lparr>currentFlowNode := unreachableFlowNode\<rparr>))"

definition visitBreak :: "nat \<Rightarrow> Binder \<Rightarrow> WalkError + (bool \<times> Binder)" where
  "visitBreak node st =
     (let st1 = (case currentBreakTarget st of
                   None \<Rightarrow> st
                 | Some target \<Rightarrow> addAntecedent target (currentFlowNode st) st)
      in Inr (False, st1\<lparr>currentFlowNode := unreachableFlowNode\<rparr>))"

definition visitRaise ::
  "Walk \<Rightarrow> nat \<Rightarrow> ExpressionNode option \<Rightarrow> ExpressionNode option \<Rightarrow> ExpressionNode option
   \<Rightarrow> Binder \<Rightarrow> WalkError + (bool \<times> Binder)" where
  "visitRaise walk node typeExpression valueExpr tracebackExpression st =
     (let st1 = (case targetFunctionDeclaration st of
                   None \<Rightarrow> st
                 | Some decl \<Rightarrow> updateDeclaration decl (pushRaiseStatement node) st);
          st2 = (if typeExpression = None \<and> nestedExceptDepth st1 = 0
                 then addError ''raiseParams'' node st1 else st1)
      in andThen (walkOptional walk (map_option ExpressionP typeExpression) st2) (\<lambda>st3.
         andThen (walkOptional walk (map_option ExpressionP valueExpr) st3) (\<lambda>st4.
         andThen (walkOptional walk (map_option ExpressionP tracebackExpression) st4) (\<lambda>st5.
           (let st6 = fold (\<lambda>target s. addAntecedent target (currentFlowNode s) s)
                        (finallyTargets st5) st5
            in Inr (False, st6\<lparr>currentFlowNode := unreachableFlowNode\<rparr>))))))"

section \<open>Conditions and branches\<close>

text \<open>\<^verbatim>\<open>_isLogicalExpression\<close>: whether the expression is a NOT, AND or OR expression.\<close>

fun isLogicalExpression :: "ExpressionNode \<Rightarrow> bool" where
  "isLogicalExpression (UnaryOperationNode i op e) = (op = OpNot)"
| "isLogicalExpression (BinaryOperationNode i l op r) = (op = OpAnd \<or> op = OpOr)"
| "isLogicalExpression e = False"

definition bindConditional ::
  "Walk \<Rightarrow> Collaborators \<Rightarrow> ExpressionNode \<Rightarrow> FlowLabel \<Rightarrow> FlowLabel \<Rightarrow> Binder
   \<Rightarrow> WalkError + Binder" where
  "bindConditional walk ext node trueTarget falseTarget st =
     (let savedTrueTarget = currentTrueTarget st;
          savedFalseTarget = currentFalseTarget st;
          st1 = st\<lparr>currentTrueTarget := Some trueTarget, currentFalseTarget := Some falseTarget\<rparr>
      in andThen (walk (ExpressionP node) st1) (\<lambda>st2.
           (let st3 = st2\<lparr>currentTrueTarget := savedTrueTarget,
                           currentFalseTarget := savedFalseTarget\<rparr>
            in if \<not> isLogicalExpression node then
                 (case createFlowConditional ext {TrueCondition} (currentFlowNode st3) node st3 of
                    (trueNode, st4) \<Rightarrow>
                      (let st5 = addAntecedent trueTarget trueNode st4
                       in case createFlowConditional ext {FalseCondition}
                                 (currentFlowNode st5) node st5 of
                            (falseNode, st6) \<Rightarrow> Inr (addAntecedent falseTarget falseNode st6)))
               else Inr st3)))"

definition visitIf ::
  "Walk \<Rightarrow> Collaborators \<Rightarrow> nat \<Rightarrow> ExpressionNode \<Rightarrow> SuiteNode \<Rightarrow> ElseNode option \<Rightarrow> Binder
   \<Rightarrow> WalkError + (bool \<times> Binder)" where
  "visitIf walk ext node testExpression ifSuite elseSuite st =
     (case createBranchLabel st of (thenLabel, st1) \<Rightarrow>
      case createBranchLabel st1 of (elseLabel, st2) \<Rightarrow>
      case createBranchLabel st2 of (postIfLabel, st3) \<Rightarrow>
        (let constExprValue = evaluateStaticBoolLikeExpression ext testExpression
         in andThen (bindConditional walk ext testExpression thenLabel elseLabel st3) (\<lambda>st4.
            andThen (walk (SuiteP ifSuite)
                       (st4\<lparr>currentFlowNode :=
                            (if constExprValue = Some False then unreachableFlowNode
                             else finishFlowLabel st4 thenLabel)\<rparr>)) (\<lambda>st5.
              (let st6 = addAntecedent postIfLabel (currentFlowNode st5) st5
               in andThen (walkOptional walk (map_option ElseP elseSuite)
                             (st6\<lparr>currentFlowNode :=
                                  (if constExprValue = Some True then unreachableFlowNode
                                   else finishFlowLabel st6 elseLabel)\<rparr>)) (\<lambda>st7.
                    (let st8 = addAntecedent postIfLabel (currentFlowNode st7) st7
                     in Inr (False,
                             st8\<lparr>currentFlowNode := finishFlowLabel st8 postIfLabel\<rparr>))))))))"

text \<open>\<^verbatim>\<open>_bindLoopStatement\<close> runs the callback with the loop's continue and break targets.\<close>

definition bindLoopStatement ::
  "FlowLabel \<Rightarrow> FlowLabel \<Rightarrow> (Binder \<Rightarrow> WalkError + Binder) \<Rightarrow> Binder \<Rightarrow> WalkError + Binder" where
  "bindLoopStatement preLoopLabel postLoopLabel callback st =
     (let savedContinueTarget = currentContinueTarget st;
          savedBreakTarget = currentBreakTarget st
      in andThen (callback (st\<lparr>currentContinueTarget := Some preLoopLabel,
                                currentBreakTarget := Some postLoopLabel\<rparr>))
           (\<lambda>st1. Inr (st1\<lparr>currentContinueTarget := savedContinueTarget,
                           currentBreakTarget := savedBreakTarget\<rparr>)))"

definition visitWhile ::
  "Walk \<Rightarrow> Collaborators \<Rightarrow> nat \<Rightarrow> ExpressionNode \<Rightarrow> SuiteNode \<Rightarrow> SuiteNode option \<Rightarrow> Binder
   \<Rightarrow> WalkError + (bool \<times> Binder)" where
  "visitWhile walk ext node testExpression whileSuite elseSuite st =
     (case createBranchLabel st of (thenLabel, st1) \<Rightarrow>
      case createBranchLabel st1 of (elseLabel, st2) \<Rightarrow>
      case createBranchLabel st2 of (postWhileLabel, st3) \<Rightarrow>
        (let constExprValue = evaluateStaticBoolLikeExpression ext testExpression
         in case createLoopLabel st3 of (preLoopLabel, st4) \<Rightarrow>
           (let st5 = addAntecedent preLoopLabel (currentFlowNode st4) st4;
                st6 = st5\<lparr>currentFlowNode := Label preLoopLabel\<rparr>
            in andThen (bindConditional walk ext testExpression thenLabel elseLabel st6) (\<lambda>st7.
               andThen (bindLoopStatement preLoopLabel postWhileLabel (walk (SuiteP whileSuite))
                          (st7\<lparr>currentFlowNode :=
                               (if constExprValue = Some False then unreachableFlowNode
                                else finishFlowLabel st7 thenLabel)\<rparr>)) (\<lambda>st8.
                 (let st9 = addAntecedent preLoopLabel (currentFlowNode st8) st8
                  in andThen (walkOptional walk (map_option SuiteP elseSuite)
                                (st9\<lparr>currentFlowNode :=
                                     (if constExprValue = Some True then unreachableFlowNode
                                      else finishFlowLabel st9 elseLabel)\<rparr>)) (\<lambda>st10.
                       (let st11 = addAntecedent postWhileLabel (currentFlowNode st10) st10
                        in Inr (False, st11\<lparr>currentFlowNode :=
                                          finishFlowLabel st11 postWhileLabel\<rparr>)))))))))"

definition visitTernary ::
  "Walk \<Rightarrow> Collaborators \<Rightarrow> ExpressionNode \<Rightarrow> ExpressionNode \<Rightarrow> ExpressionNode \<Rightarrow> Binder
   \<Rightarrow> WalkError + (bool \<times> Binder)" where
  "visitTernary walk ext ifExpression testExpression elseExpression st =
     (case createBranchLabel st of (trueLabel, st1) \<Rightarrow>
      case createBranchLabel st1 of (falseLabel, st2) \<Rightarrow>
      case createBranchLabel st2 of (postExpressionLabel, st3) \<Rightarrow>
        andThen (bindConditional walk ext testExpression trueLabel falseLabel st3) (\<lambda>st4.
        andThen (walk (ExpressionP ifExpression)
                   (st4\<lparr>currentFlowNode := finishFlowLabel st4 trueLabel\<rparr>)) (\<lambda>st5.
          (let st6 = addAntecedent postExpressionLabel (currentFlowNode st5) st5
           in andThen (walk (ExpressionP elseExpression)
                         (st6\<lparr>currentFlowNode := finishFlowLabel st6 falseLabel\<rparr>)) (\<lambda>st7.
                (let st8 = addAntecedent postExpressionLabel (currentFlowNode st7) st7
                 in Inr (False, st8\<lparr>currentFlowNode :=
                                  finishFlowLabel st8 postExpressionLabel\<rparr>)))))))"

definition visitUnaryOperation ::
  "Walk \<Rightarrow> Collaborators \<Rightarrow> OperatorType \<Rightarrow> ExpressionNode \<Rightarrow> Binder
   \<Rightarrow> WalkError + (bool \<times> Binder)" where
  "visitUnaryOperation walk ext operator expression st =
     (case (currentFalseTarget st, currentTrueTarget st) of
        (Some falseTarget, Some trueTarget) \<Rightarrow>
          if operator = OpNot then
            andThen (bindConditional walk ext expression falseTarget trueTarget st)
              (\<lambda>st1. Inr (False, st1))
          else
            andThen (walk (ExpressionP expression)
                       (st\<lparr>currentTrueTarget := None, currentFalseTarget := None\<rparr>))
              (\<lambda>st1. Inr (False, st1\<lparr>currentFalseTarget := currentFalseTarget st,
                                      currentTrueTarget := currentTrueTarget st\<rparr>))
      | _ \<Rightarrow>
          andThen (walk (ExpressionP expression)
                     (st\<lparr>currentTrueTarget := None, currentFalseTarget := None\<rparr>))
            (\<lambda>st1. Inr (False, st1\<lparr>currentFalseTarget := currentFalseTarget st,
                                    currentTrueTarget := currentTrueTarget st\<rparr>)))"

definition visitBinaryOperation ::
  "Walk \<Rightarrow> Collaborators \<Rightarrow> ExpressionNode \<Rightarrow> OperatorType \<Rightarrow> ExpressionNode \<Rightarrow> Binder
   \<Rightarrow> WalkError + (bool \<times> Binder)" where
  "visitBinaryOperation walk ext leftExpression operator rightExpression st =
     (if operator = OpAnd \<or> operator = OpOr then
        (case (case (currentTrueTarget st, currentFalseTarget st) of
                 (Some t, Some f) \<Rightarrow> (t, f, None, st)
               | _ \<Rightarrow> (case createBranchLabel st of
                          (postRightLabel, st') \<Rightarrow>
                            (postRightLabel, postRightLabel, Some postRightLabel, st'))) of
           (trueTarget, falseTarget, postRightLabel, st1) \<Rightarrow>
             (case createBranchLabel st1 of (preRightLabel, st2) \<Rightarrow>
                andThen (if operator = OpAnd
                         then bindConditional walk ext leftExpression preRightLabel falseTarget st2
                         else bindConditional walk ext leftExpression trueTarget preRightLabel st2)
                  (\<lambda>st3.
                andThen (bindConditional walk ext rightExpression trueTarget falseTarget
                           (st3\<lparr>currentFlowNode := finishFlowLabel st3 preRightLabel\<rparr>))
                  (\<lambda>st4. Inr (False,
                     (case postRightLabel of
                        None \<Rightarrow> st4
                      | Some l \<Rightarrow> st4\<lparr>currentFlowNode := finishFlowLabel st4 l\<rparr>))))))
      else
        andThen (walk (ExpressionP leftExpression)
                   (st\<lparr>currentTrueTarget := None, currentFalseTarget := None\<rparr>)) (\<lambda>st1.
        andThen (walk (ExpressionP rightExpression) st1) (\<lambda>st2.
          Inr (False, st2\<lparr>currentFalseTarget := currentFalseTarget st,
                          currentTrueTarget := currentTrueTarget st\<rparr>))))"

section \<open>Assignment targets\<close>

fun createAssignmentTargetFlowNodes ::
  "Walk \<Rightarrow> ExpressionNode \<Rightarrow> bool \<Rightarrow> bool \<Rightarrow> Binder \<Rightarrow> WalkError + Binder"
  and createAssignmentTargetFlowNodesEach ::
  "Walk \<Rightarrow> ExpressionNode list \<Rightarrow> bool \<Rightarrow> bool \<Rightarrow> Binder \<Rightarrow> WalkError + Binder" where
  "createAssignmentTargetFlowNodes walk (Name n) walkTargets unbound st =
     andThen (raised (createFlowAssignment (Name n) unbound st)) (\<lambda>st1.
       if walkTargets then walk (ExpressionP (Name n)) st1 else Inr st1)"
| "createAssignmentTargetFlowNodes walk (MemberAccessNode i l m) walkTargets unbound st =
     andThen (raised (createFlowAssignment (MemberAccessNode i l m) unbound st)) (\<lambda>st1.
       if walkTargets then walk (ExpressionP (MemberAccessNode i l m)) st1 else Inr st1)"
| "createAssignmentTargetFlowNodes walk (TupleNode i expressions) walkTargets unbound st =
     createAssignmentTargetFlowNodesEach walk expressions walkTargets unbound st"
| "createAssignmentTargetFlowNodes walk (TypeAnnotationNode i v t) walkTargets unbound st =
     andThen (createAssignmentTargetFlowNodes walk v False unbound st) (\<lambda>st1.
       if walkTargets then walk (ExpressionP (TypeAnnotationNode i v t)) st1 else Inr st1)"
| "createAssignmentTargetFlowNodes walk (UnpackNode i e) walkTargets unbound st =
     andThen (createAssignmentTargetFlowNodes walk e False unbound st) (\<lambda>st1.
       if walkTargets then walk (ExpressionP (UnpackNode i e)) st1 else Inr st1)"
| "createAssignmentTargetFlowNodes walk (ListNode i entries) walkTargets unbound st =
     createAssignmentTargetFlowNodesEach walk entries walkTargets unbound st"
| "createAssignmentTargetFlowNodes walk target walkTargets unbound st =
     (if walkTargets then walk (ExpressionP target) st else Inr st)"
| "createAssignmentTargetFlowNodesEach walk [] walkTargets unbound st = Inr st"
| "createAssignmentTargetFlowNodesEach walk (e # es) walkTargets unbound st =
     andThen (createAssignmentTargetFlowNodes walk e walkTargets unbound st)
       (createAssignmentTargetFlowNodesEach walk es walkTargets unbound)"

fun bindPossibleTupleNamedTarget ::
  "AnalyzerFileInfo \<Rightarrow> Collaborators \<Rightarrow> ExpressionNode \<Rightarrow> (string \<times> nat) list option \<Rightarrow> Binder
   \<Rightarrow> WalkError + ((string \<times> nat) list option \<times> Binder)"
  and bindPossibleTupleNamedTargetEach ::
  "AnalyzerFileInfo \<Rightarrow> Collaborators \<Rightarrow> ExpressionNode list \<Rightarrow> (string \<times> nat) list option \<Rightarrow> Binder
   \<Rightarrow> WalkError + ((string \<times> nat) list option \<times> Binder)" where
  "bindPossibleTupleNamedTarget fileInfo ext (Name n) addedSymbols st =
     andThen (raised (bindNameToScope fileInfo ext (currentScope st) (nameValue n) addedSymbols st))
       (\<lambda>(symbol, added, st1). Inr (added, st1))"
| "bindPossibleTupleNamedTarget fileInfo ext (TupleNode i expressions) addedSymbols st =
     bindPossibleTupleNamedTargetEach fileInfo ext expressions addedSymbols st"
| "bindPossibleTupleNamedTarget fileInfo ext (ListNode i entries) addedSymbols st =
     bindPossibleTupleNamedTargetEach fileInfo ext entries addedSymbols st"
| "bindPossibleTupleNamedTarget fileInfo ext (TypeAnnotationNode i v t) addedSymbols st =
     bindPossibleTupleNamedTarget fileInfo ext v addedSymbols st"
| "bindPossibleTupleNamedTarget fileInfo ext (UnpackNode i e) addedSymbols st =
     bindPossibleTupleNamedTarget fileInfo ext e addedSymbols st"
| "bindPossibleTupleNamedTarget fileInfo ext target addedSymbols st = Inr (addedSymbols, st)"
| "bindPossibleTupleNamedTargetEach fileInfo ext [] addedSymbols st = Inr (addedSymbols, st)"
| "bindPossibleTupleNamedTargetEach fileInfo ext (e # es) addedSymbols st =
     andThen (bindPossibleTupleNamedTarget fileInfo ext e addedSymbols st)
       (\<lambda>(added, st1). bindPossibleTupleNamedTargetEach fileInfo ext es added st1)"

section \<open>Try statements\<close>

fun createBranchLabels :: "nat \<Rightarrow> Binder \<Rightarrow> FlowLabel list \<times> Binder" where
  "createBranchLabels 0 st = ([], st)"
| "createBranchLabels (Suc n) st =
     (case createBranchLabel st of (label, st1) \<Rightarrow>
        (case createBranchLabels n st1 of (labels, st2) \<Rightarrow> (label # labels, st2)))"

text \<open>
  The loop of \<^verbatim>\<open>visitTry\<close> over the except clauses, each with its label; the local
  variable \<^verbatim>\<open>isAfterElseAndExceptsReachable\<close> is threaded through.
\<close>

fun walkExceptClauses ::
  "Walk \<Rightarrow> FlowLabel \<Rightarrow> (ExceptNode \<times> FlowLabel) list \<Rightarrow> bool \<Rightarrow> Binder
   \<Rightarrow> WalkError + (bool \<times> Binder)" where
  "walkExceptClauses walk preFinallyLabel [] isAfterElseAndExceptsReachable st =
     Inr (isAfterElseAndExceptsReachable, st)"
| "walkExceptClauses walk preFinallyLabel ((exceptNode, label) # rest)
     isAfterElseAndExceptsReachable st =
     andThen (walk (ExceptP exceptNode) (st\<lparr>currentFlowNode := finishFlowLabel st label\<rparr>))
       (\<lambda>st1.
          (let st2 = addAntecedent preFinallyLabel (currentFlowNode st1) st1
           in walkExceptClauses walk preFinallyLabel rest
                (if \<not> isCodeUnreachable st2 then True else isAfterElseAndExceptsReachable) st2))"

definition visitTry ::
  "Walk \<Rightarrow> nat \<Rightarrow> SuiteNode \<Rightarrow> ExceptNode list \<Rightarrow> SuiteNode option \<Rightarrow> SuiteNode option \<Rightarrow> Binder
   \<Rightarrow> WalkError + (bool \<times> Binder)" where
  "visitTry walk node trySuite exceptClauses elseSuite finallySuite st =
     (case createBranchLabels (length exceptClauses) st of (curExceptTargets, st1) \<Rightarrow>
      case createBranchLabel st1 of (preFinallyLabel, st2) \<Rightarrow>
      case createBranchLabel st2 of (preFinallyReturnOrRaiseLabel, st3) \<Rightarrow>
      case getUniqueFlowNodeId st3 of (gateId, st4) \<Rightarrow>
        (let preFinallyGate = FlowPreFinallyGate {PreFinallyGate} gateId
                                (Label preFinallyReturnOrRaiseLabel) False;
             st5 = (if finallySuite \<noteq> None
                    then addAntecedent preFinallyLabel preFinallyGate st4 else st4);
             st6 = fold (\<lambda>exceptLabel s. addAntecedent exceptLabel (currentFlowNode s) s)
                     curExceptTargets st5;
             st7 = (if finallySuite \<noteq> None
                    then st6\<lparr>finallyTargets := finallyTargets st6 @ [preFinallyReturnOrRaiseLabel]\<rparr>
                    else st6);
             prevExceptTargets = currentExceptTargets st7
         in andThen (walk (SuiteP trySuite) (st7\<lparr>currentExceptTargets := Some curExceptTargets\<rparr>))
              (\<lambda>st8.
            andThen (walkOptional walk (map_option SuiteP elseSuite)
                       (st8\<lparr>currentExceptTargets := prevExceptTargets\<rparr>)) (\<lambda>st9.
              (let st10 = addAntecedent preFinallyLabel (currentFlowNode st9) st9;
                   reachableAfterElse = (\<not> isCodeUnreachable st10)
               in andThen (walkExceptClauses walk preFinallyLabel (zip exceptClauses curExceptTargets)
                             reachableAfterElse
                             (st10\<lparr>nestedExceptDepth := nestedExceptDepth st10 + 1\<rparr>))
                    (\<lambda>(isAfterElseAndExceptsReachable, st11).
                       (let st12 = st11\<lparr>nestedExceptDepth := nestedExceptDepth st11 - 1\<rparr>;
                            st13 = (if finallySuite \<noteq> None
                                    then st12\<lparr>finallyTargets := butlast (finallyTargets st12)\<rparr>
                                    else st12);
                            st14 = st13\<lparr>currentFlowNode := finishFlowLabel st13 preFinallyLabel\<rparr>
                        in case finallySuite of
                             None \<Rightarrow> Inr (False, st14)
                           | Some suite \<Rightarrow>
                               andThen (walk (SuiteP suite) st14) (\<lambda>st15.
                                 (case getUniqueFlowNodeId st15 of (postId, st16) \<Rightarrow>
                                    (let postFinallyNode =
                                           FlowPostFinally {PostFinally} postId
                                             (currentFlowNode st16) preFinallyGate
                                     in Inr (False,
                                          st16\<lparr>currentFlowNode :=
                                            (if isAfterElseAndExceptsReachable
                                             then postFinallyNode
                                             else unreachableFlowNode)\<rparr>)))))))))))"

definition visitExcept ::
  "Walk \<Rightarrow> AnalyzerFileInfo \<Rightarrow> Collaborators \<Rightarrow> nat \<Rightarrow> ExpressionNode option \<Rightarrow> NameNode option
   \<Rightarrow> SuiteNode \<Rightarrow> Binder \<Rightarrow> WalkError + (bool \<times> Binder)" where
  "visitExcept walk fileInfo ext node typeExpression name exceptSuite st =
     andThen (walkOptional walk (map_option ExpressionP typeExpression) st) (\<lambda>st1.
     andThen (case name of
                None \<Rightarrow> Inr st1
              | Some n \<Rightarrow>
                  andThen (walk (ExpressionP (Name n)) st1) (\<lambda>st2.
                  andThen (raised (bindNameToScope fileInfo ext (currentScope st2) (nameValue n)
                                     None st2)) (\<lambda>(symbol, added, st3).
                  andThen (createAssignmentTargetFlowNodes walk (Name n) True False st3) (\<lambda>st4.
                    (case symbol of
                       None \<Rightarrow> Inr st4
                     | Some s \<Rightarrow>
                         (case newDeclaration
                                 (VariableDeclaration (nameId n)
                                    (isConstantName ext (nameValue n)) (Some node)
                                    (filePath fileInfo) (moduleName fileInfo)) st4 of
                            (decl, st5) \<Rightarrow> Inr (addDeclaration s decl st5))))))) (\<lambda>st6.
     andThen (walk (SuiteP exceptSuite) st6) (\<lambda>st7.
     andThen (case name of
                None \<Rightarrow> Inr st7
              | Some n \<Rightarrow> raised (createFlowAssignment (Name n) True st7))
       (\<lambda>st8. Inr (False, st8)))))"

section \<open>Functions, lambdas and deferred binding\<close>

definition setScope :: "nat \<Rightarrow> nat \<Rightarrow> Binder \<Rightarrow> Binder" where
  "setScope node scope st = st\<lparr>scopeInfo := (scopeInfo st)(node \<mapsto> scope)\<rparr>"

definition setDeclaration :: "nat \<Rightarrow> nat \<Rightarrow> Binder \<Rightarrow> Binder" where
  "setDeclaration node decl st = st\<lparr>declarationInfo := (declarationInfo st)(node \<mapsto> decl)\<rparr>"

definition setAfterFlowNode :: "nat \<Rightarrow> FlowNode \<Rightarrow> Binder \<Rightarrow> Binder" where
  "setAfterFlowNode node flowNode st =
     st\<lparr>afterFlowNodeInfo := (afterFlowNodeInfo st)(node \<mapsto> flowNode)\<rparr>"

definition setCodeFlowExpressions :: "nat \<Rightarrow> nat \<Rightarrow> Binder \<Rightarrow> Binder" where
  "setCodeFlowExpressions node referenceMap st =
     st\<lparr>codeFlowExpressionsInfo := (codeFlowExpressionsInfo st)(node \<mapsto> referenceMap)\<rparr>"

text \<open>\<^verbatim>\<open>_deferBinding\<close> pushes a task that captures the current scope and maps.\<close>

definition deferBinding :: "DeferredCallback \<Rightarrow> Binder \<Rightarrow> Binder" where
  "deferBinding callback st =
     st\<lparr>deferredBindingTasks := deferredBindingTasks st @
          [DeferredBindingTask (currentScope st) (notLocalBindings st)
             (currentExecutionScopeReferenceMap st) callback]\<rparr>"

text \<open>
  The loop over the parameters in the two deferred callbacks. The callback of a lambda
  also walks the name of each parameter.
\<close>

fun bindParameters ::
  "Walk \<Rightarrow> AnalyzerFileInfo \<Rightarrow> Collaborators \<Rightarrow> bool \<Rightarrow> ParameterNode list \<Rightarrow> Binder
   \<Rightarrow> WalkError + Binder" where
  "bindParameters walk fileInfo ext walkName [] st = Inr st"
| "bindParameters walk fileInfo ext walkName (ParameterNode i None d a # params) st =
     bindParameters walk fileInfo ext walkName params st"
| "bindParameters walk fileInfo ext walkName (ParameterNode i (Some n) d a # params) st =
     andThen (raised (bindNameToScope fileInfo ext (currentScope st) (nameValue n) None st))
       (\<lambda>(symbol, added, st1).
          (let st2 =
             (case symbol of
                None \<Rightarrow> st1
              | Some s \<Rightarrow>
                  (case newDeclaration
                          (ParameterDeclaration i (filePath fileInfo) (moduleName fileInfo)) st1 of
                     (decl, st') \<Rightarrow> setDeclaration (nameId n) decl (addDeclaration s decl st')))
           in andThen (raised (createFlowAssignment (Name n) False st2)) (\<lambda>st3.
              andThen (if walkName then walk (ExpressionP (Name n)) st3 else Inr st3)
                (bindParameters walk fileInfo ext walkName params))))"

text \<open>The closure that \<^verbatim>\<open>visitFunction\<close> defers, for the function node and its declaration.\<close>

fun functionCallback ::
  "Walk \<Rightarrow> AnalyzerFileInfo \<Rightarrow> Collaborators \<Rightarrow> StatementNode \<Rightarrow> nat \<Rightarrow> Binder
   \<Rightarrow> WalkError + Binder" where
  "functionCallback walk fileInfo ext (FunctionNode i isAsync n ds params r c suite)
     functionDeclaration st =
     (case createStartFlowNode st of (start, st1) \<Rightarrow>
        andThen (bindParameters walk fileInfo ext False params (st1\<lparr>currentFlowNode := start\<rparr>))
          (\<lambda>st2.
             (case createBranchLabel (st2\<lparr>targetFunctionDeclaration := Some functionDeclaration\<rparr>) of
                (returnLabel, st3) \<Rightarrow>
                  andThen (walk (SuiteP suite) (st3\<lparr>currentReturnTarget := Some returnLabel\<rparr>))
                    (\<lambda>st4.
                       (let st5 = setAfterFlowNode (suiteId suite) (currentFlowNode st4) st4
                        in case currentReturnTarget st5 of
                             None \<Rightarrow> Inl (Raised TypeError)
                           | Some target \<Rightarrow>
                               (let st6 = addAntecedent target (currentFlowNode st5) st5
                                in Inr (setAfterFlowNode i (finishFlowLabel st6 target) st6)))))))"
| "functionCallback walk fileInfo ext node functionDeclaration st = Inl NotEmbedded"

text \<open>The closure that \<^verbatim>\<open>visitLambda\<close> defers, for the lambda node.\<close>

fun lambdaCallback ::
  "Walk \<Rightarrow> AnalyzerFileInfo \<Rightarrow> Collaborators \<Rightarrow> ExpressionNode \<Rightarrow> Binder \<Rightarrow> WalkError + Binder" where
  "lambdaCallback walk fileInfo ext (LambdaNode i params expression) st =
     (case createStartFlowNode st of (start, st1) \<Rightarrow>
        andThen (bindParameters walk fileInfo ext True params (st1\<lparr>currentFlowNode := start\<rparr>))
          (\<lambda>st2.
        andThen (walk (ExpressionP expression) st2) (\<lambda>st3.
          Inr (setCodeFlowExpressions i (currentExecutionScopeReferenceMap st3) st3))))"
| "lambdaCallback walk fileInfo ext node st = Inl NotEmbedded"

fun invokeCallback ::
  "Walk \<Rightarrow> AnalyzerFileInfo \<Rightarrow> Collaborators \<Rightarrow> DeferredCallback \<Rightarrow> Binder \<Rightarrow> WalkError + Binder" where
  "invokeCallback walk fileInfo ext (FunctionCallback node functionDeclaration) st =
     functionCallback walk fileInfo ext node functionDeclaration st"
| "invokeCallback walk fileInfo ext (LambdaCallback node) st =
     lambdaCallback walk fileInfo ext node st"

text \<open>
  The loop over the parameters of \<^verbatim>\<open>visitFunction\<close> (default values and annotations)
  and of \<^verbatim>\<open>visitLambda\<close> (default values only), walked in the enclosing scope.
\<close>

fun walkParameterDefaults :: "Walk \<Rightarrow> bool \<Rightarrow> ParameterNode list \<Rightarrow> Binder \<Rightarrow> WalkError + Binder" where
  "walkParameterDefaults walk withAnnotations [] st = Inr st"
| "walkParameterDefaults walk withAnnotations (ParameterNode i n d a # params) st =
     andThen (walkOptional walk (map_option ExpressionP d) st) (\<lambda>st1.
     andThen (if withAnnotations then walkOptional walk (map_option ExpressionP a) st1 else Inr st1)
       (walkParameterDefaults walk withAnnotations params))"

fun visitFunction ::
  "Walk \<Rightarrow> AnalyzerFileInfo \<Rightarrow> Collaborators \<Rightarrow> StatementNode \<Rightarrow> Binder
   \<Rightarrow> WalkError + (bool \<times> Binder)" where
  "visitFunction walk fileInfo ext (FunctionNode i isAsync name decorators params r c suite) st =
     andThen (raised (bindNameToScope fileInfo ext (currentScope st) (nameValue name) None st))
       (\<lambda>(symbol, added, st1).
          (case newDeclaration
                  (FunctionDeclaration i (getEnclosingClass ext i True \<noteq> None) False
                     None None None (filePath fileInfo) (moduleName fileInfo)) st1 of
             (functionDeclaration, st2) \<Rightarrow>
               (let st3 = (case symbol of
                             None \<Rightarrow> st2
                           | Some s \<Rightarrow> addDeclaration s functionDeclaration st2);
                    st4 = setDeclaration i functionDeclaration st3
                in andThen (walkMultiple walk (map ExpressionP decorators) st4) (\<lambda>st5.
                   andThen (walkParameterDefaults walk True params st5) (\<lambda>st6.
                   andThen (walkOptional walk (map_option ExpressionP r) st6) (\<lambda>st7.
                   andThen (walkOptional walk (map_option ExpressionP c) st7) (\<lambda>st8.
                     (case Option.bind (getEnclosingFunctionOrModule ext i) (scopeInfo st8) of
                        None \<Rightarrow> Inl (Raised AssertionFailed)
                      | Some functionOrModuleScope \<Rightarrow>
                          andThen (createNewScope Function (Some functionOrModuleScope)
                                     (\<lambda>s.
                                        (let s1 = setScope i (currentScope s) s;
                                             s2 = (if getEnclosingClass ext i False \<noteq> None
                                                   then addBuiltInSymbolToCurrentScope fileInfo ext
                                                          ''__class__'' i ''class'' s1
                                                   else s1);
                                             s3 = deferBinding
                                                    (FunctionCallback
                                                       (FunctionNode i isAsync name decorators
                                                          params r c suite)
                                                       functionDeclaration) s2
                                         in Inr (setCodeFlowExpressions i
                                                   (currentExecutionScopeReferenceMap s3) s3)))
                                     st8) (\<lambda>st9.
                          andThen (createAssignmentTargetFlowNodes walk (Name name) False False st9)
                            (\<lambda>st10. Inr (False, st10)))))))))))"
| "visitFunction walk fileInfo ext node st = Inl NotEmbedded"

fun visitLambda :: "Walk \<Rightarrow> ExpressionNode \<Rightarrow> Binder \<Rightarrow> WalkError + (bool \<times> Binder)" where
  "visitLambda walk (LambdaNode i params expression) st =
     andThen (walkParameterDefaults walk False params st) (\<lambda>st1.
     andThen (createNewScope Function (Some (currentScope st1))
                (\<lambda>s. Inr (deferBinding (LambdaCallback (LambdaNode i params expression))
                             (setScope i (currentScope s) s)))
                st1)
       (\<lambda>st2. Inr (False, st2)))"
| "visitLambda walk node st = Inl NotEmbedded"

text \<open>
  \<^verbatim>\<open>_bindDeferred\<close>: while the queue is not empty, the first task is removed, the
  state it captured is restored and its callback is invoked. A callback may queue more
  tasks, so the loop is bounded by fuel; with no fuel left and tasks still queued the
  result is \<open>OutOfFuel\<close>.
\<close>

fun bindDeferred ::
  "nat \<Rightarrow> (DeferredCallback \<Rightarrow> Binder \<Rightarrow> WalkError + Binder) \<Rightarrow> Binder \<Rightarrow> WalkError + Binder" where
  "bindDeferred fuel invoke st =
     (case deferredBindingTasks st of
        [] \<Rightarrow> Inr st
      | nextItem # rest \<Rightarrow>
          (case fuel of
             0 \<Rightarrow> Inl OutOfFuel
           | Suc fuel' \<Rightarrow>
               andThen (invoke (taskCallback nextItem)
                          (st\<lparr>deferredBindingTasks := rest,
                              currentScope := taskScope nextItem,
                              notLocalBindings := taskNonLocalBindingsMap nextItem,
                              nestedExceptDepth := 0,
                              currentExecutionScopeReferenceMap :=
                                taskCodeFlowExpressionMap nextItem\<rparr>))
                 (bindDeferred fuel' invoke)))"

section \<open>Binding a module\<close>

text \<open>
  The fields of a binder as its constructor leaves them. The three fields that the
  constructor leaves undefined hold a value here that \<^verbatim>\<open>bindModule\<close> replaces before an
  operation reads it. The unreachable node has drawn the flow-node id 0.
\<close>

definition constructBinder :: Binder where
  "constructBinder =
     \<lparr>deferredBindingTasks = [], currentScope = 0, notLocalBindings = 0, nestedExceptDepth = 0,
      currentFlowNode = unreachableFlowNode, targetFunctionDeclaration = None,
      currentBreakTarget = None, currentContinueTarget = None, currentTrueTarget = None,
      currentFalseTarget = None, currentExceptTargets = None, finallyTargets = [],
      currentReturnTarget = None, currentExecutionScopeReferenceMap = 0,
      typingImportAliases = [], typingSymbolAliases = Map.empty,
      nextFlowNodeId = 1, labelAntecedents = (\<lambda>i. []),
      nextSymbolId = 1, symbols = Map.empty, nextRef = 1, scopes = Map.empty,
      declarations = Map.empty, bindingMaps = (\<lambda>m. Map.empty),
      referenceMaps = (\<lambda>m. Map.empty), flowNodeInfo = Map.empty,
      afterFlowNodeInfo = Map.empty, scopeInfo = Map.empty, declarationInfo = Map.empty,
      codeFlowExpressionsInfo = Map.empty, diagnostics = []\<rparr>"

text \<open>
  The callback that \<^verbatim>\<open>bindModule\<close> runs in the module's scope. The flow node it
  attaches to the module node first is still undefined at that point. \<open>openModule\<close> is
  its part before the statements are walked: the implicit names are bound and the start
  node is created.
\<close>

definition openModule :: "AnalyzerFileInfo \<Rightarrow> Collaborators \<Rightarrow> nat \<Rightarrow> Binder \<Rightarrow> Binder" where
  "openModule fileInfo ext node st =
     (let st1 = setScope node (currentScope st) st;
          st2 = st1\<lparr>flowNodeInfo := (flowNodeInfo st1)(node := None)\<rparr>;
          st3 = fold (\<lambda>(name, type). addBuiltInSymbolToCurrentScope fileInfo ext name node type)
                  [(''__doc__'', ''str''), (''__name__'', ''str''), (''__loader__'', ''Any''),
                   (''__package__'', ''str''), (''__spec__'', ''Any''),
                   (''__path__'', ''Iterable[str]''), (''__file__'', ''str''),
                   (''__cached__'', ''str''), (''__dict__'', ''Dict[str, Any]'')] st2
      in case createStartFlowNode st3 of (start, st4) \<Rightarrow> st4\<lparr>currentFlowNode := start\<rparr>)"

definition bindModuleScope ::
  "Walk \<Rightarrow> AnalyzerFileInfo \<Rightarrow> Collaborators \<Rightarrow> nat \<Rightarrow> StatementNode list \<Rightarrow> Binder
   \<Rightarrow> WalkError + Binder" where
  "bindModuleScope walk fileInfo ext node statements st =
     andThen (walkStatementsAndReportUnreachable walk statements (openModule fileInfo ext node st))
       (\<lambda>(b, st1).
          (let st2 = setCodeFlowExpressions node (currentExecutionScopeReferenceMap st1) st1
           in Inr (setAfterFlowNode node (currentFlowNode st2) st2)))"

definition bindModule ::
  "nat \<Rightarrow> Walk \<Rightarrow> AnalyzerFileInfo \<Rightarrow> Collaborators \<Rightarrow> nat \<Rightarrow> StatementNode list
   \<Rightarrow> WalkError + Binder" where
  "bindModule fuel walk fileInfo ext node statements =
     andThen (createNewScope (if builtinsScope fileInfo = None then Builtin else Module)
                (builtinsScope fileInfo) (bindModuleScope walk fileInfo ext node statements)
                constructBinder)
       (bindDeferred fuel (invokeCallback walk fileInfo ext))"

section \<open>Imports\<close>

fun loaderPath :: "ModuleLoaderActions \<Rightarrow> string" where
  "loaderPath (ModuleLoaderActions p imps) = p"

fun loaderImplicitImports :: "ModuleLoaderActions \<Rightarrow> (string \<times> ModuleLoaderActions) list option" where
  "loaderImplicitImports (ModuleLoaderActions p imps) = imps"

text \<open>
  \<^verbatim>\<open>_addImplicitImportsToLoaderActions\<close>, on the map of implicit imports of the loader
  actions it is given (an alias declaration or a nested entry): an entry that exists gets
  the new path, a missing entry is added with an empty map of its own.
\<close>

definition addImplicitImportsToLoaderActions ::
  "ImportResult \<Rightarrow> (string \<times> ModuleLoaderActions) list option
   \<Rightarrow> (string \<times> ModuleLoaderActions) list option" where
  "addImplicitImportsToLoaderActions importResult imps =
     fold (\<lambda>(name, path) m.
             (case Option.bind m (\<lambda>entries. map_of entries name) of
                Some existingLoaderAction \<Rightarrow>
                  map_option
                    (AList.update name
                       (ModuleLoaderActions path (loaderImplicitImports existingLoaderAction))) m
              | None \<Rightarrow>
                  Some (AList.update name (ModuleLoaderActions path (Some []))
                          (case m of None \<Rightarrow> [] | Some entries \<Rightarrow> entries))))
       (implicitImports importResult) imps"

text \<open>
  The loop of \<^verbatim>\<open>_createAliasDeclarationForMultipartImportName\<close> that fills in the
  name parts after the first: \<open>i\<close> is the index of the first of the remaining parts.
\<close>

fun fillLoaderActions ::
  "ImportResult \<Rightarrow> nat \<Rightarrow> NameNode list \<Rightarrow> (string \<times> ModuleLoaderActions) list option
   \<Rightarrow> (string \<times> ModuleLoaderActions) list option" where
  "fillLoaderActions importInfo i [] imps = imps"
| "fillLoaderActions importInfo i (part # rest) imps =
     (if i \<ge> length (resolvedPaths importInfo) then imps
      else
        (let loaderActions =
               (case Option.bind imps (\<lambda>entries. map_of entries (nameValue part)) of
                  Some existing \<Rightarrow> existing
                | None \<Rightarrow> ModuleLoaderActions [] (Some []));
             filled =
               (if rest = [] then
                  ModuleLoaderActions (resolvedPaths importInfo ! i)
                    (addImplicitImportsToLoaderActions importInfo
                       (loaderImplicitImports loaderActions))
                else loaderActions)
         in Some (AList.update (nameValue part)
                    (ModuleLoaderActions (loaderPath filled)
                       (fillLoaderActions importInfo (i + 1) rest (loaderImplicitImports filled)))
                    (case imps of None \<Rightarrow> [] | Some entries \<Rightarrow> entries))))"

fun isAliasWithFirstNamePart :: "string \<Rightarrow> Declaration \<Rightarrow> bool" where
  "isAliasWithFirstNamePart v (AliasDeclaration n p u m s f sub imps) = (f = Some v)"
| "isAliasWithFirstNamePart v d = False"

text \<open>The update of an alias declaration for a resolved import, new or found on the symbol.\<close>

fun updateResolvedAlias ::
  "ImportResult \<Rightarrow> bool \<Rightarrow> NameNode list \<Rightarrow> Declaration \<Rightarrow> Declaration" where
  "updateResolvedAlias importInfo hasAlias parts (AliasDeclaration n p u m s f sub imps) =
     (if hasAlias \<or> length parts = 1 then
        AliasDeclaration n (last (resolvedPaths importInfo)) u m s f sub
          (addImplicitImportsToLoaderActions importInfo imps)
      else AliasDeclaration n p u m s f sub (fillLoaderActions importInfo 1 (tl parts) imps))"
| "updateResolvedAlias importInfo hasAlias parts d = d"

definition unresolvedPath :: string where
  "unresolvedPath = ''*** unresolved ***''"

definition createAliasDeclarationForMultipartImportName ::
  "nat \<Rightarrow> ModuleNameNode \<Rightarrow> NameNode option \<Rightarrow> ImportResult option \<Rightarrow> nat \<Rightarrow> Binder
   \<Rightarrow> BinderError + Binder" where
  "createAliasDeclarationForMultipartImportName node module importAlias importInfo symbol st =
     (case nameParts module of
        [] \<Rightarrow> Inl TypeError
      | firstNamePart # otherParts \<Rightarrow>
          (case (case importInfo of
                   None \<Rightarrow> None
                 | Some info \<Rightarrow>
                     if isImportFound info \<and> \<not> isNativeLib info \<and> length (resolvedPaths info) > 0
                     then Some info else None) of
             Some info \<Rightarrow>
               (case find (\<lambda>decl. case declarations st decl of
                                     None \<Rightarrow> False
                                   | Some d \<Rightarrow> isAliasWithFirstNamePart (nameValue firstNamePart) d)
                       (case symbols st symbol of None \<Rightarrow> [] | Some s \<Rightarrow> symbolDeclarations s) of
                  Some existingDecl \<Rightarrow>
                    Inr (updateDeclaration existingDecl
                           (updateResolvedAlias info (importAlias \<noteq> None) (nameParts module)) st)
                | None \<Rightarrow>
                    (case newDeclaration
                            (updateResolvedAlias info (importAlias \<noteq> None) (nameParts module)
                               (AliasDeclaration node [] (importAlias \<noteq> None) (importName info)
                                  None (Some (nameValue firstNamePart)) None None)) st of
                       (newDecl, st1) \<Rightarrow> Inr (addDeclaration symbol newDecl st1)))
           | None \<Rightarrow>
               (case newDeclaration
                       (AliasDeclaration node unresolvedPath (importAlias \<noteq> None) []
                          None None None None) st of
                  (newDecl, st1) \<Rightarrow> Inr (addDeclaration symbol newDecl st1))))"

fun importAsModule :: "ImportAsNode \<Rightarrow> ModuleNameNode" where
  "importAsModule (ImportAsNode i m a) = m"

fun importAsAlias :: "ImportAsNode \<Rightarrow> NameNode option" where
  "importAsAlias (ImportAsNode i m a) = a"

definition visitImportAs ::
  "AnalyzerFileInfo \<Rightarrow> Collaborators \<Rightarrow> ImportAsNode \<Rightarrow> Binder \<Rightarrow> WalkError + (bool \<times> Binder)" where
  "visitImportAs fileInfo ext node st =
     (case nameParts (importAsModule node) of
        [] \<Rightarrow> Inr (True, st)
      | firstNamePart # otherParts \<Rightarrow>
          (let symbolName = (case importAsAlias node of
                               Some a \<Rightarrow> nameValue a
                             | None \<Rightarrow> nameValue firstNamePart)
           in andThen (raised (bindNameToScope fileInfo ext (currentScope st) symbolName None st))
                (\<lambda>(symbol, added, st1).
                   (let st2 = (case symbol of
                                 Some s \<Rightarrow>
                                   if isStubFile fileInfo \<and> importAsAlias node = None
                                   then setSymbolFlag s ExternallyHidden st1 else st1
                               | None \<Rightarrow> st1)
                    in case getImportInfo ext (moduleNameId (importAsModule node)) of
                         None \<Rightarrow> Inl (Raised AssertionFailed)
                       | Some importInfo \<Rightarrow>
                           andThen (case symbol of
                                      Some s \<Rightarrow>
                                        raised (createAliasDeclarationForMultipartImportName
                                                  (importAsId node) (importAsModule node)
                                                  (importAsAlias node) (Some importInfo) s st2)
                                    | None \<Rightarrow> Inr st2) (\<lambda>st3.
                           andThen (raised (createFlowAssignment
                                              (Name (case importAsAlias node of
                                                       Some a \<Rightarrow> a
                                                     | None \<Rightarrow> firstNamePart))
                                              False st3)) (\<lambda>st4.
                             Inr (True,
                                  if length (nameParts (importAsModule node)) = 1 \<and>
                                     (nameValue firstNamePart = ''typing'' \<or>
                                      nameValue firstNamePart = ''typing_extensions'')
                                  then st4\<lparr>typingImportAliases := typingImportAliases st4 @
                                             [case importAsAlias node of
                                                Some a \<Rightarrow>
                                                  if nameValue a \<noteq> [] then nameValue a
                                                  else nameValue firstNamePart
                                              | None \<Rightarrow> nameValue firstNamePart]\<rparr>
                                  else st4)))))))"

fun importFromModule :: "ImportFromNode \<Rightarrow> ModuleNameNode" where
  "importFromModule (ImportFromNode i m w imports) = m"

fun isWildcardImport :: "ImportFromNode \<Rightarrow> bool" where
  "isWildcardImport (ImportFromNode i m w imports) = w"

fun importFromImports :: "ImportFromNode \<Rightarrow> ImportFromAsNode list" where
  "importFromImports (ImportFromNode i m w imports) = imports"

definition addImplicitFromImport ::
  "AnalyzerFileInfo \<Rightarrow> Collaborators \<Rightarrow> ImportFromNode \<Rightarrow> ImportResult option \<Rightarrow> Binder
   \<Rightarrow> BinderError + Binder" where
  "addImplicitFromImport fileInfo ext node importInfo st =
     (case nameParts (importFromModule node) of
        [] \<Rightarrow> Inl TypeError
      | firstNamePart # otherParts \<Rightarrow>
          (case bindNameToScope fileInfo ext (currentScope st) (nameValue firstNamePart) None st of
             Inl e \<Rightarrow> Inl e
           | Inr (symbol, added, st1) \<Rightarrow>
               (case (case symbol of
                        Some s \<Rightarrow>
                          createAliasDeclarationForMultipartImportName (importFromId node)
                            (importFromModule node) None importInfo s st1
                      | None \<Rightarrow> Inr st1) of
                  Inl e \<Rightarrow> Inl e
                | Inr st2 \<Rightarrow> createFlowAssignment (Name firstNamePart) False st2)))"

definition startsWithUnderscore :: "string \<Rightarrow> bool" where
  "startsWithUnderscore name = (case name of [] \<Rightarrow> False | c # cs \<Rightarrow> c = CHR ''_'')"

definition getWildcardImportNames :: "Collaborators \<Rightarrow> ImportLookupResult \<Rightarrow> string list" where
  "getWildcardImportNames ext lookupInfo =
     (case getNamesInDunderAll ext (lookupSymbolTable lookupInfo) of
        Some namesToImport \<Rightarrow> namesToImport
      | None \<Rightarrow>
          filter (\<lambda>name. \<not> startsWithUnderscore name) (map fst (lookupSymbolTable lookupInfo)))"

text \<open>
  The loop of \<^verbatim>\<open>visitImportFrom\<close> over the names of a wildcard import; the list
  \<^verbatim>\<open>names\<close> of the names bound so far is threaded through. A name that the symbol
  table of the imported module lacks makes the source read a property of \<^verbatim>\<open>undefined\<close>.
\<close>

fun bindWildcardNames ::
  "AnalyzerFileInfo \<Rightarrow> Collaborators \<Rightarrow> nat \<Rightarrow> string \<Rightarrow> ImportLookupResult \<Rightarrow> string list
   \<Rightarrow> string list \<Rightarrow> Binder \<Rightarrow> BinderError + (string list \<times> Binder)" where
  "bindWildcardNames fileInfo ext node resolvedPath lookupInfo [] names st = Inr (names, st)"
| "bindWildcardNames fileInfo ext node resolvedPath lookupInfo (name # wildcardNames) names st =
     (case map_of (lookupSymbolTable lookupInfo) name of
        None \<Rightarrow> Inl TypeError
      | Some importedSymbol \<Rightarrow>
          if \<not> (IgnoredForProtocolMatch \<in> symbolFlags importedSymbol) then
            (case bindNameToScope fileInfo ext (currentScope st) name None st of
               Inl e \<Rightarrow> Inl e
             | Inr (None, added, st1) \<Rightarrow>
                 bindWildcardNames fileInfo ext node resolvedPath lookupInfo wildcardNames names st1
             | Inr (Some symbol, added, st1) \<Rightarrow>
                 (case newDeclaration
                         (AliasDeclaration node resolvedPath False (moduleName fileInfo)
                            (Some name) None None None) st1 of
                    (aliasDecl, st2) \<Rightarrow>
                      bindWildcardNames fileInfo ext node resolvedPath lookupInfo wildcardNames
                        (names @ [name]) (addDeclaration symbol aliasDecl st2)))
          else bindWildcardNames fileInfo ext node resolvedPath lookupInfo wildcardNames names st)"

fun importFromAsId :: "ImportFromAsNode \<Rightarrow> nat" where
  "importFromAsId (ImportFromAsNode i n a) = i"

fun importFromAsName :: "ImportFromAsNode \<Rightarrow> NameNode" where
  "importFromAsName (ImportFromAsNode i n a) = n"

fun importFromAsAlias :: "ImportFromAsNode \<Rightarrow> NameNode option" where
  "importFromAsAlias (ImportFromAsNode i n a) = a"

definition importedNameNode :: "ImportFromAsNode \<Rightarrow> NameNode" where
  "importedNameNode importSymbolNode =
     (case importFromAsAlias importSymbolNode of
        Some a \<Rightarrow> a
      | None \<Rightarrow> importFromAsName importSymbolNode)"

text \<open>
  The loop of \<^verbatim>\<open>visitImportFrom\<close> over the imported names of a from-import without
  wildcard. The variable \<^verbatim>\<open>resolvedPath\<close> is assigned inside the loop and threaded
  through.
\<close>

fun bindImportedNames ::
  "AnalyzerFileInfo \<Rightarrow> Collaborators \<Rightarrow> ImportFromNode \<Rightarrow> ImportResult option \<Rightarrow> bool
   \<Rightarrow> ImportFromAsNode list \<Rightarrow> string \<Rightarrow> Binder \<Rightarrow> BinderError + Binder" where
  "bindImportedNames fileInfo ext node importInfo isTypingImport [] resolvedPath st = Inr st"
| "bindImportedNames fileInfo ext node importInfo isTypingImport (importSymbolNode # rest)
     resolvedPath st =
     (let importedName = nameValue (importFromAsName importSymbolNode);
          nameNode = importedNameNode importSymbolNode
      in case bindNameToScope fileInfo ext (currentScope st) (nameValue nameNode) None st of
           Inl e \<Rightarrow> Inl e
         | Inr (None, added, st1) \<Rightarrow>
             bindImportedNames fileInfo ext node importInfo isTypingImport rest resolvedPath st1
         | Inr (Some symbol, added, st1) \<Rightarrow>
             (let st2 = (if isStubFile fileInfo \<and> importFromAsAlias importSymbolNode = None
                         then setSymbolFlag symbol ExternallyHidden st1 else st1);
                  implicitImport =
                    (case importInfo of
                       None \<Rightarrow> None
                     | Some info \<Rightarrow> find (\<lambda>imp. fst imp = importedName) (implicitImports info));
                  submoduleFallback =
                    map_option
                      (\<lambda>imp. AliasDeclaration (importFromAsId importSymbolNode) (snd imp) False
                                (moduleName fileInfo) None None None None)
                      implicitImport;
                  resolvedPath' =
                    (if implicitImport \<noteq> None \<and> length (nameParts (importFromModule node)) = 0
                     then [] else resolvedPath)
              in case newDeclaration
                        (AliasDeclaration (importFromAsId importSymbolNode) resolvedPath'
                           (importFromAsAlias importSymbolNode \<noteq> None) (moduleName fileInfo)
                           (Some importedName) None submoduleFallback None) st2 of
                   (aliasDecl, st3) \<Rightarrow>
                     (case createFlowAssignment (Name nameNode) False
                             (addDeclaration symbol aliasDecl st3) of
                        Inl e \<Rightarrow> Inl e
                      | Inr st4 \<Rightarrow>
                          bindImportedNames fileInfo ext node importInfo isTypingImport rest
                            resolvedPath'
                            (if isTypingImport \<and> importedName \<in> {''Final'', ''TypeAlias''}
                             then st4\<lparr>typingSymbolAliases :=
                                        (typingSymbolAliases st4)(nameValue nameNode \<mapsto> importedName)\<rparr>
                             else st4))))"

text \<open>
  \<^verbatim>\<open>visitImportFrom\<close>. An import that was found has at least one resolved path; an
  import result that says found and has none would make the resolved path a value that
  is no string, and is not part of the embedding.
\<close>

definition visitImportFrom ::
  "AnalyzerFileInfo \<Rightarrow> Collaborators \<Rightarrow> ImportFromNode \<Rightarrow> Binder \<Rightarrow> WalkError + (bool \<times> Binder)" where
  "visitImportFrom fileInfo ext node st =
     (let importInfo = getImportInfo ext (moduleNameId (importFromModule node));
          module = importFromModule node
      in if (case importInfo of
               None \<Rightarrow> False
             | Some info \<Rightarrow> isImportFound info \<and> resolvedPaths info = [])
         then Inl NotEmbedded
         else
           (let resolvedPath =
                  (case importInfo of
                     None \<Rightarrow> []
                   | Some info \<Rightarrow> if isImportFound info then last (resolvedPaths info) else []);
                isModuleInitFile =
                  (fileNameWithoutExtension fileInfo = ''__init__'' \<and> leadingDots module = 1 \<and>
                   length (nameParts module) > 0);
                isTypingImport =
                  (case nameParts module of
                     [firstNamePart] \<Rightarrow>
                       nameValue firstNamePart = ''typing'' \<or>
                       nameValue firstNamePart = ''typing_extensions''
                   | _ \<Rightarrow> False)
            in if isWildcardImport node then
                 (let st1 = (if getEnclosingClass ext (importFromId node) False \<noteq> None \<or>
                                getEnclosingFunction ext (importFromId node) \<noteq> None
                             then addError ''wildcardInFunction'' (importFromId node) st
                             else st)
                  in case importInfo of
                       None \<Rightarrow> Inr (True, st1)
                     | Some info \<Rightarrow>
                         andThen
                           (case importLookup fileInfo resolvedPath of
                              None \<Rightarrow> Inr ([], st1)
                            | Some lookupInfo \<Rightarrow>
                                (let wildcardNames = getWildcardImportNames ext lookupInfo
                                 in andThen
                                      (if isModuleInitFile \<and>
                                          \<not> list_ex (\<lambda>name. name = nameValue (hd (nameParts module)))
                                              wildcardNames
                                       then raised (addImplicitFromImport fileInfo ext node
                                                      (Some info) st1)
                                       else Inr st1)
                                      (\<lambda>st2. raised (bindWildcardNames fileInfo ext
                                                        (importFromId node) resolvedPath lookupInfo
                                                        wildcardNames [] st2))))
                           (\<lambda>(names, st3).
                              (let st4 = createFlowWildcardImport node names st3
                               in Inr (True,
                                       if isTypingImport then
                                         st4\<lparr>typingSymbolAliases :=
                                               (typingSymbolAliases st4)
                                                 (''Final'' \<mapsto> ''Final'',
                                                  ''TypeAlias'' \<mapsto> ''TypeAlias'')\<rparr>
                                       else st4))))
               else
                 andThen
                   (if isModuleInitFile \<and>
                       \<not> list_ex (\<lambda>importSymbolNode.
                                    nameValue (importedNameNode importSymbolNode) =
                                    nameValue (hd (nameParts module)))
                           (importFromImports node)
                    then raised (addImplicitFromImport fileInfo ext node importInfo st)
                    else Inr st)
                   (\<lambda>st1.
                      andThen (raised (bindImportedNames fileInfo ext node importInfo isTypingImport
                                         (importFromImports node) resolvedPath st1))
                        (\<lambda>st2. Inr (True, st2)))))"

definition visitModuleName ::
  "AnalyzerFileInfo \<Rightarrow> Collaborators \<Rightarrow> ModuleNameNode \<Rightarrow> Binder \<Rightarrow> WalkError + (bool \<times> Binder)" where
  "visitModuleName fileInfo ext node st =
     (case getImportInfo ext (moduleNameId node) of
        None \<Rightarrow> Inl (Raised AssertionFailed)
      | Some importResult \<Rightarrow>
          if \<not> isImportFound importResult then
            Inr (True, addDiagnostic (reportMissingImports fileInfo) ''importResolveFailure''
                         (moduleNameId node) st)
          else
            (let st1 =
                   (if \<not> isStubFileImport importResult \<and> importType importResult = ThirdParty \<and>
                       \<not> isPyTypedPresent importResult
                    then addDiagnostic (reportMissingTypeStubs fileInfo) ''stubFileMissing''
                           (moduleNameId node) st
                    else st);
                 st2 =
                   (if isStubFileImport importResult \<and> importType importResult \<noteq> BuiltIn \<and>
                       nonStubImportFound importResult = Some False
                    then (if \<not> isStubFile fileInfo
                          then addDiagnostic (reportMissingModuleSource fileInfo)
                                 ''importSourceResolveFailure'' (moduleNameId node) st1
                          else st1)
                    else st1)
             in Inr (True, st2)))"

section \<open>The walk of the parse tree\<close>

text \<open>
  Modelled from the spec: the walker descends the syntax tree and dispatches per node
  kind, in source order (\<^verbatim>\<open>ParseTreeWalker\<close> of \<^verbatim>\<open>parseTreeWalker.ts\<close>). A node kind
  for which the binder has no visitor is visited by the default visitor, which returns
  true. The visitors of the binder for assignments, annotations, assignment expressions,
  augmented assignments, for, with, del, assert, global, nonlocal and class statements
  are not embedded; the walk of such a node is \<open>NotEmbedded\<close>. An expression that stands
  as a statement, and the else branch of an if statement, are the nodes themselves.
\<close>

fun unwrapNode :: "ParseNode \<Rightarrow> ParseNode" where
  "unwrapNode (StatementP (ExpressionStatement e)) = ExpressionP e"
| "unwrapNode (ElseP (ElseSuite s)) = SuiteP s"
| "unwrapNode (ElseP (ElseIf (ExpressionStatement e))) = ExpressionP e"
| "unwrapNode (ElseP (ElseIf s)) = StatementP s"
| "unwrapNode node = node"

fun visitNode ::
  "Walk \<Rightarrow> AnalyzerFileInfo \<Rightarrow> Collaborators \<Rightarrow> ParseNode \<Rightarrow> Binder
   \<Rightarrow> WalkError + (bool \<times> Binder)" where
  "visitNode walk fileInfo ext (ExpressionP (Name n)) st = visitName n st"
| "visitNode walk fileInfo ext (ExpressionP (MemberAccessNode i l m)) st =
     visitMemberAccess (MemberAccessNode i l m) st"
| "visitNode walk fileInfo ext (ExpressionP (ConstantNode i k)) st = Inr (True, st)"
| "visitNode walk fileInfo ext (ExpressionP (NumberNode i v)) st = Inr (True, st)"
| "visitNode walk fileInfo ext (ExpressionP (CallNode i l args)) st =
     visitCall walk (CallNode i l args) l args st"
| "visitNode walk fileInfo ext (ExpressionP (BinaryOperationNode i l op r)) st =
     visitBinaryOperation walk ext l op r st"
| "visitNode walk fileInfo ext (ExpressionP (UnaryOperationNode i op e)) st =
     visitUnaryOperation walk ext op e st"
| "visitNode walk fileInfo ext (ExpressionP (TernaryNode i a t b)) st =
     visitTernary walk ext a t b st"
| "visitNode walk fileInfo ext (ExpressionP (TupleNode i es)) st = Inr (True, st)"
| "visitNode walk fileInfo ext (ExpressionP (ListNode i es)) st = Inr (True, st)"
| "visitNode walk fileInfo ext (ExpressionP (UnpackNode i e)) st = Inr (True, st)"
| "visitNode walk fileInfo ext (ExpressionP (YieldNode i e)) st =
     visitYield walk ext (YieldNode i e) st"
| "visitNode walk fileInfo ext (ExpressionP (YieldFromNode i e)) st =
     visitYieldFrom walk ext (YieldFromNode i e) st"
| "visitNode walk fileInfo ext (ExpressionP (LambdaNode i ps e)) st =
     visitLambda walk (LambdaNode i ps e) st"
| "visitNode walk fileInfo ext (ExpressionP e) st = Inl NotEmbedded"
| "visitNode walk fileInfo ext (ArgumentP a) st = Inr (True, st)"
| "visitNode walk fileInfo ext (ParameterP p) st = Inr (True, st)"
| "visitNode walk fileInfo ext (StatementP (StatementListNode i ss)) st = Inr (True, st)"
| "visitNode walk fileInfo ext (StatementP (PassNode i)) st = Inr (True, st)"
| "visitNode walk fileInfo ext (StatementP (BreakNode i)) st = visitBreak i st"
| "visitNode walk fileInfo ext (StatementP (ContinueNode i)) st = visitContinue i st"
| "visitNode walk fileInfo ext (StatementP (ReturnNode i e)) st = visitReturn walk i e st"
| "visitNode walk fileInfo ext (StatementP (RaiseNode i t v b)) st = visitRaise walk i t v b st"
| "visitNode walk fileInfo ext (StatementP (ImportAs n)) st = visitImportAs fileInfo ext n st"
| "visitNode walk fileInfo ext (StatementP (ImportFrom n)) st = visitImportFrom fileInfo ext n st"
| "visitNode walk fileInfo ext (StatementP (IfNode i t s e)) st = visitIf walk ext i t s e st"
| "visitNode walk fileInfo ext (StatementP (WhileNode i t s e)) st = visitWhile walk ext i t s e st"
| "visitNode walk fileInfo ext (StatementP (TryNode i t es e f)) st = visitTry walk i t es e f st"
| "visitNode walk fileInfo ext (StatementP (FunctionNode i isAsync n ds ps r c s)) st =
     visitFunction walk fileInfo ext (FunctionNode i isAsync n ds ps r c s) st"
| "visitNode walk fileInfo ext (StatementP s) st = Inl NotEmbedded"
| "visitNode walk fileInfo ext (SuiteP s) st = visitSuite walk s st"
| "visitNode walk fileInfo ext (ExceptP (ExceptNode i t n s)) st =
     visitExcept walk fileInfo ext i t n s st"
| "visitNode walk fileInfo ext (ElseP e) st = Inl NotEmbedded"
| "visitNode walk fileInfo ext (ModuleNameP m) st = visitModuleName fileInfo ext m st"
| "visitNode walk fileInfo ext (ImportFromAsP n) st = Inr (True, st)"

definition optionalName :: "NameNode option \<Rightarrow> ParseNode list" where
  "optionalName n = (case n of None \<Rightarrow> [] | Some x \<Rightarrow> [ExpressionP (Name x)])"

definition optionalExpression :: "ExpressionNode option \<Rightarrow> ParseNode list" where
  "optionalExpression e = (case e of None \<Rightarrow> [] | Some x \<Rightarrow> [ExpressionP x])"

text \<open>The children of the nodes whose visitor can return true.\<close>

fun getChildren :: "ParseNode \<Rightarrow> ParseNode list" where
  "getChildren (ExpressionP (MemberAccessNode i l m)) = [ExpressionP l, ExpressionP (Name m)]"
| "getChildren (ExpressionP (TupleNode i es)) = map ExpressionP es"
| "getChildren (ExpressionP (ListNode i es)) = map ExpressionP es"
| "getChildren (ExpressionP (UnpackNode i e)) = [ExpressionP e]"
| "getChildren (ArgumentP (ArgumentNode i c n e)) = optionalName n @ [ExpressionP e]"
| "getChildren (ParameterP (ParameterNode i n d a)) =
     optionalName n @ optionalExpression a @ optionalExpression d"
| "getChildren (StatementP (StatementListNode i ss)) = map StatementP ss"
| "getChildren (StatementP (ImportAs (ImportAsNode i m a))) = ModuleNameP m # optionalName a"
| "getChildren (StatementP (ImportFrom (ImportFromNode i m w imports))) =
     ModuleNameP m # map ImportFromAsP imports"
| "getChildren (ImportFromAsP (ImportFromAsNode i n a)) = ExpressionP (Name n) # optionalName a"
| "getChildren (ModuleNameP (ModuleNameNode i dots parts)) = map (\<lambda>n. ExpressionP (Name n)) parts"
| "getChildren node = []"

primrec walkFuel :: "nat \<Rightarrow> AnalyzerFileInfo \<Rightarrow> Collaborators \<Rightarrow> Walk" where
  "walkFuel 0 = (\<lambda>fileInfo ext node st. Inl OutOfFuel)"
| "walkFuel (Suc fuel) =
     (\<lambda>fileInfo ext node st.
        andThen (visitNode (walkFuel fuel fileInfo ext) fileInfo ext (unwrapNode node) st)
          (\<lambda>(descend, st1).
             if descend
             then walkMultiple (walkFuel fuel fileInfo ext) (getChildren (unwrapNode node)) st1
             else Inr st1))"

section \<open>Invariants and instances used in the statements\<close>

text \<open>The antecedent ids of every label are pairwise distinct.\<close>

definition labelsDistinct :: "Binder \<Rightarrow> bool" where
  "labelsDistinct st = (\<forall>i. distinct (map flowId (labelAntecedents st i)))"

text \<open>
  An instance of the parameters, for concrete runs: a source file \<^verbatim>\<open>m.py\<close> that is no
  stub and binds its own builtins scope, with code at module level only. Of the static
  evaluation only the constants are given: \<^verbatim>\<open>True\<close> is true, \<^verbatim>\<open>False\<close> and
  \<^verbatim>\<open>None\<close> are false, as \<^verbatim>\<open>evaluateStaticBoolLikeExpression\<close> has them.
\<close>

fun staticConstants :: "ExpressionNode \<Rightarrow> bool option" where
  "staticConstants (ConstantNode i TrueKeyword) = Some True"
| "staticConstants (ConstantNode i FalseKeyword) = Some False"
| "staticConstants (ConstantNode i NoneKeyword) = Some False"
| "staticConstants e = None"

definition moduleLevelCollaborators :: Collaborators where
  "moduleLevelCollaborators =
     \<lparr>evaluateStaticBoolLikeExpression = staticConstants,
      isPrivateOrProtectedName = startsWithUnderscore,
      isConstantName = (\<lambda>name. False),
      getEnclosingFunction = (\<lambda>node. None),
      getEnclosingClass = (\<lambda>node stopAtFunction. None),
      getEnclosingFunctionOrModule = (\<lambda>node. Some 0),
      getImportInfo = (\<lambda>node. None),
      getNamesInDunderAll = (\<lambda>table. None)\<rparr>"

definition sourceFileInfo :: AnalyzerFileInfo where
  "sourceFileInfo =
     \<lparr>filePath = ''/project/m.py'', fileNameWithoutExtension = ''m'',
      reportMissingImports = LevelError, reportMissingTypeStubs = LevelNone,
      reportMissingModuleSource = LevelWarning, moduleName = ''m'',
      isStubFile = False, isTypingStubFile = False, builtinsScope = None,
      importLookup = (\<lambda>path. None)\<rparr>"

text \<open>
  The state in which \<^verbatim>\<open>bindModule\<close> starts to walk the statements of the module
  with parse node 0 of such a file.
\<close>

definition moduleStart :: Binder where
  "moduleStart =
     openModule sourceFileInfo moduleLevelCollaborators 0 (enterNewScope Builtin None constructBinder)"

text \<open>
  An import that the resolver did not find, and collaborators whose parse tree holds this
  import result at every module name.
\<close>

definition unresolvedImport :: ImportResult where
  "unresolvedImport =
     \<lparr>importName = ''missing'', isImportFound = False, isNativeLib = False,
      isStubFileImport = False, importType = Local, isPyTypedPresent = False,
      nonStubImportFound = None, resolvedPaths = [], implicitImports = []\<rparr>"

definition unresolvedCollaborators :: Collaborators where
  "unresolvedCollaborators =
     moduleLevelCollaborators\<lparr>getImportInfo := (\<lambda>node. Some unresolvedImport)\<rparr>"






text \<open>
  A module of two statements: the function \<^verbatim>\<open>def f(): pass\<close>, and the expression
  statement \<^verbatim>\<open>lambda: (yield)\<close>.
\<close>

definition staleTargetModule :: "StatementNode list" where
  "staleTargetModule =
     [FunctionNode 1 False (NameNode 2 ''f'') [] [] None None
        (SuiteNode 3 [StatementListNode 4 [PassNode 5]]),
      StatementListNode 6 [ExpressionStatement (LambdaNode 7 [] (YieldNode 8 None))]]"

section \<open>Finishing a label\<close>

text \<open>
  Claim C6. For every flow label, finishing the label returns the Unreachable node when
  the label has no antecedent, the antecedent itself (not the label) when it has exactly
  one, and the label itself when it has two or more.
\<close>

theorem finishFlowLabel_result:
  "(antecedents st node = [] \<longrightarrow> finishFlowLabel st node = unreachableFlowNode) \<and>
   (\<forall>a. antecedents st node = [a] \<longrightarrow> finishFlowLabel st node = a) \<and>
   (2 \<le> length (antecedents st node) \<longrightarrow> finishFlowLabel st node = Label node)"
  by (auto simp: finishFlowLabel_def)

theorem finishFlowLabel_result_witness:
  "finishFlowLabel constructBinder (FlowLabel {BranchLabel} 5) = unreachableFlowNode \<and>
   finishFlowLabel (constructBinder\<lparr>labelAntecedents := (\<lambda>i. [])(5 := [FlowNode {Start} 1])\<rparr>)
     (FlowLabel {BranchLabel} 5) = FlowNode {Start} 1 \<and>
   finishFlowLabel
     (constructBinder\<lparr>labelAntecedents :=
        (\<lambda>i. [])(5 := [FlowNode {Start} 1, FlowCall {Call} 2 (NumberNode 7 0) (FlowNode {Start} 1)])\<rparr>)
     (FlowLabel {BranchLabel} 5) = Label (FlowLabel {BranchLabel} 5)"
  using finishFlowLabel_result [of constructBinder "FlowLabel {BranchLabel} 5"]
    finishFlowLabel_result
      [of "constructBinder\<lparr>labelAntecedents := (\<lambda>i. [])(5 := [FlowNode {Start} 1])\<rparr>"
          "FlowLabel {BranchLabel} 5"]
    finishFlowLabel_result
      [of "constructBinder\<lparr>labelAntecedents :=
             (\<lambda>i. [])(5 := [FlowNode {Start} 1,
                              FlowCall {Call} 2 (NumberNode 7 0) (FlowNode {Start} 1)])\<rparr>"
          "FlowLabel {BranchLabel} 5"]
  by (simp add: antecedents_def constructBinder_def)

section \<open>The conditional-flow constructor\<close>

lemma addAntecedent_referenceMaps [simp]:
  "referenceMaps (addAntecedent label a st) = referenceMaps st"
  by (simp add: addAntecedent_def)

lemma addExceptTargets_referenceMaps [simp]:
  "referenceMaps (addExceptTargets n st) = referenceMaps st"
proof -
  have "referenceMaps (fold (\<lambda>label. addAntecedent label n) targets st) = referenceMaps st"
    for targets
    by (induction targets arbitrary: st) auto
  then show ?thesis by (simp add: addExceptTargets_def split: option.splits)
qed

lemma setReferenceKey_current [simp]:
  "currentExecutionScopeReferenceMap (setReferenceKey k st) = currentExecutionScopeReferenceMap st"
  by (simp add: setReferenceKey_def)

lemma fold_setReferenceKey_current [simp]:
  "currentExecutionScopeReferenceMap (fold (\<lambda>expr. setReferenceKey (f expr)) es st) =
   currentExecutionScopeReferenceMap st"
  by (induction es arbitrary: st) auto

lemma setReferenceKey_keeps:
  "referenceMaps st (currentExecutionScopeReferenceMap st) k = Some k \<Longrightarrow>
   referenceMaps (setReferenceKey k' st) (currentExecutionScopeReferenceMap st) k = Some k"
  by (simp add: setReferenceKey_def)

lemma fold_setReferenceKey_keeps:
  "referenceMaps st (currentExecutionScopeReferenceMap st) k = Some k \<Longrightarrow>
   referenceMaps (fold (\<lambda>expr. setReferenceKey (f expr)) es st)
     (currentExecutionScopeReferenceMap st) k = Some k"
proof (induction es arbitrary: st)
  case Nil
  then show ?case by simp
next
  case (Cons e es)
  have "referenceMaps (setReferenceKey (f e) st)
          (currentExecutionScopeReferenceMap (setReferenceKey (f e) st)) k = Some k"
    using Cons.prems by (simp add: setReferenceKey_keeps)
  from Cons.IH [OF this] show ?case by simp
qed

lemma fold_setReferenceKey_registers:
  "e \<in> set es \<Longrightarrow>
   referenceMaps (fold (\<lambda>expr. setReferenceKey (f expr)) es st)
     (currentExecutionScopeReferenceMap st) (f e) = Some (f e)"
proof (induction es arbitrary: st)
  case Nil
  then show ?case by simp
next
  case (Cons x xs)
  show ?case
  proof (cases "e = x")
    case True
    have "referenceMaps (setReferenceKey (f x) st)
            (currentExecutionScopeReferenceMap (setReferenceKey (f x) st)) (f x) = Some (f x)"
      by (simp add: setReferenceKey_def)
    from fold_setReferenceKey_keeps [OF this] True show ?thesis by simp
  next
    case False
    then have "e \<in> set xs" using Cons.prems by simp
    from Cons.IH [OF this, of "setReferenceKey (f x) st"] show ?thesis by simp
  qed
qed

text \<open>
  Claim C3. The conditional-flow constructor obeys these rules, in this order, for every
  flag (true condition or false condition), antecedent and expression: if the antecedent
  is Unreachable it is returned unchanged; if the expression statically evaluates to the
  boolean opposite of the flag, the Unreachable node is returned; if the expression is
  not classified as a narrowing expression, the antecedent is returned unchanged;
  otherwise a new Condition node with that flag, antecedent and expression is returned,
  and every reference key extracted from the expression is registered in the reference
  map of the current execution scope.
\<close>

theorem createFlowConditional_rules:
  assumes flag: "flag = TrueCondition \<or> flag = FalseCondition"
  shows
  "(Unreachable \<in> flowFlags antecedent \<longrightarrow>
      createFlowConditional ext {flag} antecedent expression st = (antecedent, st)) \<and>
   (Unreachable \<notin> flowFlags antecedent \<and>
    evaluateStaticBoolLikeExpression ext expression = Some (flag = FalseCondition) \<longrightarrow>
      createFlowConditional ext {flag} antecedent expression st = (unreachableFlowNode, st)) \<and>
   (Unreachable \<notin> flowFlags antecedent \<and>
    evaluateStaticBoolLikeExpression ext expression \<noteq> Some (flag = FalseCondition) \<and>
    \<not> fst (isNarrowingExpression expression []) \<longrightarrow>
      createFlowConditional ext {flag} antecedent expression st = (antecedent, st)) \<and>
   (Unreachable \<notin> flowFlags antecedent \<and>
    evaluateStaticBoolLikeExpression ext expression \<noteq> Some (flag = FalseCondition) \<and>
    fst (isNarrowingExpression expression []) \<longrightarrow>
      fst (createFlowConditional ext {flag} antecedent expression st) =
        FlowCondition {flag} (nextFlowNodeId st) expression antecedent \<and>
      (\<forall>e \<in> set (snd (isNarrowingExpression expression [])).
         referenceMaps (snd (createFlowConditional ext {flag} antecedent expression st))
           (currentExecutionScopeReferenceMap st) (createKeyForReference e) =
         Some (createKeyForReference e)))"
proof (intro conjI impI)
  show "createFlowConditional ext {flag} antecedent expression st = (antecedent, st)"
    if "Unreachable \<in> flowFlags antecedent"
    using that by (simp add: createFlowConditional_def)
next
  assume h: "Unreachable \<notin> flowFlags antecedent \<and>
    evaluateStaticBoolLikeExpression ext expression = Some (flag = FalseCondition)"
  then show "createFlowConditional ext {flag} antecedent expression st = (unreachableFlowNode, st)"
    using flag by (auto simp: createFlowConditional_def Let_def)
next
  assume h: "Unreachable \<notin> flowFlags antecedent \<and>
    evaluateStaticBoolLikeExpression ext expression \<noteq> Some (flag = FalseCondition) \<and>
    \<not> fst (isNarrowingExpression expression [])"
  then show "createFlowConditional ext {flag} antecedent expression st = (antecedent, st)"
    using flag by (auto simp: createFlowConditional_def Let_def split: prod.splits bool.splits)
next
  assume h: "Unreachable \<notin> flowFlags antecedent \<and>
    evaluateStaticBoolLikeExpression ext expression \<noteq> Some (flag = FalseCondition) \<and>
    fst (isNarrowingExpression expression [])"
  obtain es where es: "isNarrowingExpression expression [] = (True, es)"
    using h by (cases "isNarrowingExpression expression []") auto
  have nostatic: "\<not> ((evaluateStaticBoolLikeExpression ext expression = Some True \<and> FalseCondition \<in> {flag}) \<or>
            (evaluateStaticBoolLikeExpression ext expression = Some False \<and> TrueCondition \<in> {flag}))"
    using h flag by auto
  let ?st1 = "fold (\<lambda>expr. setReferenceKey (createKeyForReference expr)) es st"
  let ?n = "FlowCondition {flag} (nextFlowNodeId st) expression antecedent"
  have nid: "nextFlowNodeId ?st1 = nextFlowNodeId st"
    by (induction es arbitrary: st) (auto simp: setReferenceKey_def)
  have res: "createFlowConditional ext {flag} antecedent expression st =
      (?n, addExceptTargets ?n (?st1\<lparr>nextFlowNodeId := nextFlowNodeId st + 1\<rparr>))"
    using h nostatic es nid
    by (auto simp: createFlowConditional_def Let_def getUniqueFlowNodeId_def)
  show "fst (createFlowConditional ext {flag} antecedent expression st) = ?n"
    by (simp add: res)
  show "\<forall>e \<in> set (snd (isNarrowingExpression expression [])).
         referenceMaps (snd (createFlowConditional ext {flag} antecedent expression st))
           (currentExecutionScopeReferenceMap st) (createKeyForReference e) =
         Some (createKeyForReference e)"
    by (simp add: res es fold_setReferenceKey_registers)
qed

theorem createFlowConditional_rules_witness:
  "createFlowConditional moduleLevelCollaborators {TrueCondition} unreachableFlowNode
     (Name (NameNode 3 ''x''))
     (constructBinder\<lparr>currentFlowNode := FlowNode {Start} 1, nextFlowNodeId := 2\<rparr>) =
   (unreachableFlowNode,
    constructBinder\<lparr>currentFlowNode := FlowNode {Start} 1, nextFlowNodeId := 2\<rparr>) \<and>
   createFlowConditional moduleLevelCollaborators {TrueCondition} (FlowNode {Start} 1)
     (ConstantNode 4 FalseKeyword)
     (constructBinder\<lparr>currentFlowNode := FlowNode {Start} 1, nextFlowNodeId := 2\<rparr>) =
   (unreachableFlowNode,
    constructBinder\<lparr>currentFlowNode := FlowNode {Start} 1, nextFlowNodeId := 2\<rparr>) \<and>
   createFlowConditional moduleLevelCollaborators {TrueCondition} (FlowNode {Start} 1)
     (NumberNode 5 7)
     (constructBinder\<lparr>currentFlowNode := FlowNode {Start} 1, nextFlowNodeId := 2\<rparr>) =
   (FlowNode {Start} 1,
    constructBinder\<lparr>currentFlowNode := FlowNode {Start} 1, nextFlowNodeId := 2\<rparr>) \<and>
   fst (createFlowConditional moduleLevelCollaborators {FalseCondition} (FlowNode {Start} 1)
          (Name (NameNode 3 ''x''))
          (constructBinder\<lparr>currentFlowNode := FlowNode {Start} 1, nextFlowNodeId := 2\<rparr>)) =
   FlowCondition {FalseCondition} 2 (Name (NameNode 3 ''x'')) (FlowNode {Start} 1) \<and>
   referenceMaps
     (snd (createFlowConditional moduleLevelCollaborators {FalseCondition} (FlowNode {Start} 1)
             (Name (NameNode 3 ''x''))
             (constructBinder\<lparr>currentFlowNode := FlowNode {Start} 1, nextFlowNodeId := 2\<rparr>)))
     0 ''x'' = Some ''x''"
  using
    createFlowConditional_rules [of TrueCondition unreachableFlowNode moduleLevelCollaborators
      "Name (NameNode 3 ''x'')"
      "constructBinder\<lparr>currentFlowNode := FlowNode {Start} 1, nextFlowNodeId := 2\<rparr>"]
    createFlowConditional_rules [of TrueCondition "FlowNode {Start} 1" moduleLevelCollaborators
      "ConstantNode 4 FalseKeyword"
      "constructBinder\<lparr>currentFlowNode := FlowNode {Start} 1, nextFlowNodeId := 2\<rparr>"]
    createFlowConditional_rules [of TrueCondition "FlowNode {Start} 1" moduleLevelCollaborators
      "NumberNode 5 7"
      "constructBinder\<lparr>currentFlowNode := FlowNode {Start} 1, nextFlowNodeId := 2\<rparr>"]
    createFlowConditional_rules [of FalseCondition "FlowNode {Start} 1" moduleLevelCollaborators
      "Name (NameNode 3 ''x'')"
      "constructBinder\<lparr>currentFlowNode := FlowNode {Start} 1, nextFlowNodeId := 2\<rparr>"]
  by (simp add: unreachableFlowNode_def moduleLevelCollaborators_def constructBinder_def)

section \<open>Antecedents of labels\<close>

lemma addAntecedent_labelsDistinct:
  "labelsDistinct st \<Longrightarrow> labelsDistinct (addAntecedent label a st)"
  by (auto simp: labelsDistinct_def addAntecedent_def antecedents_def list_ex_iff)

lemma createBranchLabel_labelsDistinct:
  "labelsDistinct st \<Longrightarrow> labelsDistinct (snd (createBranchLabel st))"
  by (auto simp: labelsDistinct_def createBranchLabel_def getUniqueFlowNodeId_def)

lemma createLoopLabel_labelsDistinct:
  "labelsDistinct st \<Longrightarrow> labelsDistinct (snd (createLoopLabel st))"
  by (auto simp: labelsDistinct_def createLoopLabel_def getUniqueFlowNodeId_def)

lemma addAntecedent_unreachable:
  "Unreachable \<in> flowFlags (currentFlowNode st) \<Longrightarrow> addAntecedent label a st = st"
  by (simp add: addAntecedent_def)

lemma addAntecedent_currentFlowNode [simp]:
  "currentFlowNode (addAntecedent label a st) = currentFlowNode st"
  by (simp add: addAntecedent_def)


lemma addAntecedent_adds:
  "Unreachable \<notin> flowFlags (currentFlowNode st) \<Longrightarrow>
   \<forall>a \<in> set (antecedents st label). flowId a \<noteq> flowId n \<Longrightarrow>
   n \<in> set (antecedents (addAntecedent label n st) label)"
  by (auto simp: addAntecedent_def antecedents_def list_ex_iff)

lemma addAntecedent_ids:
  "flowId ` set (antecedents (addAntecedent label n st) l) \<subseteq> insert (flowId n) (flowId ` set (antecedents st l))"
  by (auto simp: addAntecedent_def antecedents_def)

lemma fold_addAntecedent_currentFlowNode [simp]:
  "currentFlowNode (fold (\<lambda>label. addAntecedent label n) targets st) = currentFlowNode st"
  by (induction targets arbitrary: st) auto







section \<open>A module of a source file\<close>

text \<open>
  The state in which the walk of the statements starts, field by field, and
  \<^verbatim>\<open>bindModule\<close> in terms of it. The implicit names change symbols, scopes and
  declarations only.
\<close>

lemma addBuiltIn_frame:
  "currentFlowNode (addBuiltInSymbolToCurrentScope fi ext name node type st) = currentFlowNode st"
  "nextFlowNodeId (addBuiltInSymbolToCurrentScope fi ext name node type st) = nextFlowNodeId st"
  "labelAntecedents (addBuiltInSymbolToCurrentScope fi ext name node type st) = labelAntecedents st"
  "deferredBindingTasks (addBuiltInSymbolToCurrentScope fi ext name node type st) = deferredBindingTasks st"
  "currentScope (addBuiltInSymbolToCurrentScope fi ext name node type st) = currentScope st"
  "notLocalBindings (addBuiltInSymbolToCurrentScope fi ext name node type st) = notLocalBindings st"
  "currentExecutionScopeReferenceMap (addBuiltInSymbolToCurrentScope fi ext name node type st) = currentExecutionScopeReferenceMap st"
  "nestedExceptDepth (addBuiltInSymbolToCurrentScope fi ext name node type st) = nestedExceptDepth st"
  "targetFunctionDeclaration (addBuiltInSymbolToCurrentScope fi ext name node type st) = targetFunctionDeclaration st"
  "currentBreakTarget (addBuiltInSymbolToCurrentScope fi ext name node type st) = currentBreakTarget st"
  "currentContinueTarget (addBuiltInSymbolToCurrentScope fi ext name node type st) = currentContinueTarget st"
  "currentTrueTarget (addBuiltInSymbolToCurrentScope fi ext name node type st) = currentTrueTarget st"
  "currentFalseTarget (addBuiltInSymbolToCurrentScope fi ext name node type st) = currentFalseTarget st"
  "currentExceptTargets (addBuiltInSymbolToCurrentScope fi ext name node type st) = currentExceptTargets st"
  "finallyTargets (addBuiltInSymbolToCurrentScope fi ext name node type st) = finallyTargets st"
  "currentReturnTarget (addBuiltInSymbolToCurrentScope fi ext name node type st) = currentReturnTarget st"
  "bindingMaps (addBuiltInSymbolToCurrentScope fi ext name node type st) = bindingMaps st"
  "referenceMaps (addBuiltInSymbolToCurrentScope fi ext name node type st) = referenceMaps st"
  "flowNodeInfo (addBuiltInSymbolToCurrentScope fi ext name node type st) = flowNodeInfo st"
  "afterFlowNodeInfo (addBuiltInSymbolToCurrentScope fi ext name node type st) = afterFlowNodeInfo st"
  "scopeInfo (addBuiltInSymbolToCurrentScope fi ext name node type st) = scopeInfo st"
  "declarationInfo (addBuiltInSymbolToCurrentScope fi ext name node type st) = declarationInfo st"
  "codeFlowExpressionsInfo (addBuiltInSymbolToCurrentScope fi ext name node type st) = codeFlowExpressionsInfo st"
  "diagnostics (addBuiltInSymbolToCurrentScope fi ext name node type st) = diagnostics st"
  "typingImportAliases (addBuiltInSymbolToCurrentScope fi ext name node type st) = typingImportAliases st"
  "typingSymbolAliases (addBuiltInSymbolToCurrentScope fi ext name node type st) = typingSymbolAliases st"
  by (simp_all add: addBuiltInSymbolToCurrentScope_def addSymbolToCurrentScope_def addSymbol_def
      newDeclaration_def addDeclaration_def setSymbolFlag_def Let_def
      split: option.splits prod.splits)


lemmas module_defs =
  moduleStart_def openModule_def enterNewScope_def constructBinder_def Let_def
  createStartFlowNode_def getUniqueFlowNodeId_def setScope_def

lemma moduleStart_flow:
  "currentFlowNode moduleStart = FlowNode {Start} 1"
  "nextFlowNodeId moduleStart = 2"
  "labelAntecedents moduleStart = (\<lambda>i. [])"
  "deferredBindingTasks moduleStart = []"
  "currentScope moduleStart = 1"
  "notLocalBindings moduleStart = 3"
  "currentExecutionScopeReferenceMap moduleStart = 2"
  "nestedExceptDepth moduleStart = 0"
  "targetFunctionDeclaration moduleStart = None"
  "currentBreakTarget moduleStart = None"
  "currentContinueTarget moduleStart = None"
  "currentTrueTarget moduleStart = None"
  "currentFalseTarget moduleStart = None"
  "currentExceptTargets moduleStart = None"
  "finallyTargets moduleStart = []"
  "currentReturnTarget moduleStart = None"
  "flowNodeInfo moduleStart = Map.empty"
  "afterFlowNodeInfo moduleStart = Map.empty"
  "scopeInfo moduleStart = [0 \<mapsto> 1]"
  "declarationInfo moduleStart = Map.empty"
  "codeFlowExpressionsInfo moduleStart = Map.empty"
  "diagnostics moduleStart = []"
  "typingImportAliases moduleStart = []"
  by (simp_all add: module_defs addBuiltIn_frame)

lemma moduleStart_maps:
  "bindingMaps moduleStart m = Map.empty"
  "referenceMaps moduleStart m = Map.empty"
  by (simp_all add: module_defs addBuiltIn_frame)


lemma builtinsScope_sourceFileInfo: "builtinsScope sourceFileInfo = None"
  by (simp add: sourceFileInfo_def)

lemma bindModule_sourceFile:
  "bindModule fuel walk sourceFileInfo moduleLevelCollaborators 0 statements =
     andThen
       (andThen
          (andThen (walkStatementsAndReportUnreachable walk statements moduleStart)
             (\<lambda>(b, st1).
                (let st2 = setCodeFlowExpressions 0 (currentExecutionScopeReferenceMap st1) st1
                 in Inr (setAfterFlowNode 0 (currentFlowNode st2) st2))))
          (\<lambda>st1. Inr (st1\<lparr>currentExecutionScopeReferenceMap :=
                            currentExecutionScopeReferenceMap constructBinder,
                          currentScope := currentScope constructBinder,
                          notLocalBindings := notLocalBindings constructBinder\<rparr>)))
       (bindDeferred fuel (invokeCallback walk sourceFileInfo moduleLevelCollaborators))"
  by (simp add: bindModule_def createNewScope_def bindModuleScope_def moduleStart_def
      builtinsScope_sourceFileInfo)

lemmas walk_defs =
  andThen_def raised_def
  walkStatementsAndReportUnreachable_def visitSuite_def visitIf_def bindConditional_def
  createFlowConditional_def createBranchLabel_def createLoopLabel_def getUniqueFlowNodeId_def
  createStartFlowNode_def addAntecedent_def antecedents_def finishFlowLabel_def
  unreachableFlowNode_def isCodeUnreachable_def setFlowNode_def setScope_def
  setCodeFlowExpressions_def setAfterFlowNode_def markGeneratorIfYield_def addExceptTargets_def
  visitTry_def visitExcept_def visitCall_def visitName_def createCallFlowNode_def

lemma ext_static: "evaluateStaticBoolLikeExpression moduleLevelCollaborators = staticConstants"
  by (simp add: moduleLevelCollaborators_def)


text \<open>
  Claim C2, as amended. The antecedent ids of a label stay pairwise distinct under each
  operation of the binder that writes an antecedent list: a new branch or loop label has
  no antecedent, and \<^verbatim>\<open>_addAntecedent\<close> adds a node only when no antecedent of the
  label has its id. \<^verbatim>\<open>_addAntecedent\<close> adds nothing while the current flow node is
  Unreachable. (The Unreachable node itself can be stored as an antecedent: the
  operation tests the current flow node, not the node it is given.)
\<close>

theorem label_antecedents_distinct:
  "labelsDistinct st \<Longrightarrow>
   labelsDistinct (addAntecedent label a st) \<and>
   labelsDistinct (snd (createBranchLabel st)) \<and>
   labelsDistinct (snd (createLoopLabel st)) \<and>
   antecedents (snd (createBranchLabel st)) (fst (createBranchLabel st)) = [] \<and>
   antecedents (snd (createLoopLabel st)) (fst (createLoopLabel st)) = [] \<and>
   (Unreachable \<in> flowFlags (currentFlowNode st) \<longrightarrow> addAntecedent label a st = st)"
  by (simp add: addAntecedent_labelsDistinct createBranchLabel_labelsDistinct
      createLoopLabel_labelsDistinct addAntecedent_unreachable)
    (simp add: createBranchLabel_def createLoopLabel_def getUniqueFlowNodeId_def antecedents_def)

theorem label_antecedents_distinct_witness:
  "labelsDistinct
     (addAntecedent (FlowLabel {BranchLabel} 2) (FlowNode {Start} 1)
        (constructBinder\<lparr>currentFlowNode := FlowNode {Start} 1, nextFlowNodeId := 3,
           labelAntecedents := (\<lambda>i. [])(2 := [FlowNode {Start} 1])\<rparr>)) \<and>
   antecedents
     (addAntecedent (FlowLabel {BranchLabel} 2) (FlowNode {Start} 1)
        (constructBinder\<lparr>currentFlowNode := FlowNode {Start} 1, nextFlowNodeId := 3,
           labelAntecedents := (\<lambda>i. [])(2 := [FlowNode {Start} 1])\<rparr>))
     (FlowLabel {BranchLabel} 2) = [FlowNode {Start} 1] \<and>
   addAntecedent (FlowLabel {BranchLabel} 2) (FlowNode {Start} 1) constructBinder =
     constructBinder"
proof -
  let ?s = "constructBinder\<lparr>currentFlowNode := FlowNode {Start} 1, nextFlowNodeId := 3,
           labelAntecedents := (\<lambda>i. [])(2 := [FlowNode {Start} 1])\<rparr>"
  have h: "labelsDistinct ?s" by (simp add: labelsDistinct_def)
  have h0: "labelsDistinct constructBinder" by (simp add: labelsDistinct_def constructBinder_def)
  show ?thesis
    using label_antecedents_distinct [OF h, of "FlowLabel {BranchLabel} 2" "FlowNode {Start} 1"]
      label_antecedents_distinct [OF h0, of "FlowLabel {BranchLabel} 2" "FlowNode {Start} 1"]
    by (simp add: addAntecedent_def antecedents_def constructBinder_def unreachableFlowNode_def)
qed

text \<open>
  Claim C2 as stated fails: in the module \<^verbatim>\<open>if False: pass\<close> the branch label of the
  if suite (flow node 2) has the Unreachable node as its one antecedent.
\<close>

theorem unreachable_antecedent_counterexample:
  "map_sum (\<lambda>e. e) (\<lambda>st. antecedents st (FlowLabel {BranchLabel} 2))
     (bindModule 1 (walkFuel 4 sourceFileInfo moduleLevelCollaborators) sourceFileInfo
        moduleLevelCollaborators 0
        [IfNode 1 (ConstantNode 2 FalseKeyword)
           (SuiteNode 3 [StatementListNode 4 [PassNode 5]]) None]) =
   Inr [unreachableFlowNode]"
proof -
  have fuel: "(4::nat) = Suc (Suc (Suc (Suc 0)))" by simp
  show ?thesis
    unfolding bindModule_sourceFile fuel
    by (simp add: walk_defs moduleStart_flow moduleStart_maps ext_static Let_def)
qed

section \<open>Except targets\<close>


lemma antecedents_frame:
  "labelAntecedents st' = labelAntecedents st \<Longrightarrow> antecedents st' l = antecedents st l"
  by (simp add: antecedents_def)

lemma setReferenceKey_frame [simp]:
  "labelAntecedents (setReferenceKey k st) = labelAntecedents st"
  "currentFlowNode (setReferenceKey k st) = currentFlowNode st"
  "currentExceptTargets (setReferenceKey k st) = currentExceptTargets st"
  "nextFlowNodeId (setReferenceKey k st) = nextFlowNodeId st"
  by (simp_all add: setReferenceKey_def)

lemma fold_setReferenceKey_frame [simp]:
  "labelAntecedents (fold (\<lambda>expr. setReferenceKey (f expr)) es st) = labelAntecedents st"
  "currentFlowNode (fold (\<lambda>expr. setReferenceKey (f expr)) es st) = currentFlowNode st"
  "currentExceptTargets (fold (\<lambda>expr. setReferenceKey (f expr)) es st) = currentExceptTargets st"
  "nextFlowNodeId (fold (\<lambda>expr. setReferenceKey (f expr)) es st) = nextFlowNodeId st"
  by (induction es arbitrary: st) simp_all





section \<open>Unbinding a name\<close>

lemma addAntecedent_flowNodeInfo [simp]:
  "flowNodeInfo (addAntecedent label a st) = flowNodeInfo st"
  by (simp add: addAntecedent_def)

lemma addExceptTargets_flowNodeInfo [simp]:
  "flowNodeInfo (addExceptTargets n st) = flowNodeInfo st"
proof -
  have "flowNodeInfo (fold (\<lambda>label. addAntecedent label n) targets st) = flowNodeInfo st"
    for targets
    by (induction targets arbitrary: st) auto
  then show ?thesis by (simp add: addExceptTargets_def split: option.splits)
qed

text \<open>
  Claim C8. When an assignment flow node is created with the unbound flag for a target
  that already has a flow node attached in the side table, the attached flow node is
  retained: the side table is unchanged. The current flow node advances to the new
  assignment node, which carries the Unbind flag (the node is created when the current
  flow is reachable and the target is a supported reference).
\<close>

theorem unbound_assignment_keeps_flow_node:
  assumes "createFlowAssignment node True st = Inr st'"
    and "flowNodeInfo st (exprId node) \<noteq> None"
  shows "flowNodeInfo st' = flowNodeInfo st \<and>
    (\<not> isCodeUnreachable st \<and> isCodeFlowSupportedForReference node \<longrightarrow>
       (\<exists>targetSymbolId.
          currentFlowNode st' =
            FlowAssignment {Assignment, Unbind} (nextFlowNodeId st) node (currentFlowNode st)
              targetSymbolId))"
  using assms
  by (auto simp: createFlowAssignment_def getUniqueFlowNodeId_def setReferenceKey_def Let_def
      split: sum.splits if_splits)

theorem unbound_assignment_keeps_flow_node_witness:
  "map_sum (\<lambda>e. e) (\<lambda>st'. (flowNodeInfo st' 3, currentFlowNode st'))
     (createFlowAssignment (Name (NameNode 3 ''e'')) True
        (constructBinder\<lparr>currentScope := 1,
           scopes := [1 \<mapsto> \<lparr>scopeType = Builtin, scopeParent = None, symbolTable = [(''e'', 1)]\<rparr>],
           currentFlowNode := FlowAssignment {Assignment} 2 (Name (NameNode 3 ''e''))
                                (FlowNode {Start} 1) 1,
           nextFlowNodeId := 3,
           flowNodeInfo := [3 \<mapsto> FlowAssignment {Assignment} 2 (Name (NameNode 3 ''e''))
                                    (FlowNode {Start} 1) 1]\<rparr>)) =
   Inr (Some (FlowAssignment {Assignment} 2 (Name (NameNode 3 ''e'')) (FlowNode {Start} 1) 1),
        FlowAssignment {Assignment, Unbind} 3 (Name (NameNode 3 ''e''))
          (FlowAssignment {Assignment} 2 (Name (NameNode 3 ''e'')) (FlowNode {Start} 1) 1) 1)"
proof -
  let ?s = "constructBinder\<lparr>currentScope := 1,
           scopes := [1 \<mapsto> \<lparr>scopeType = Builtin, scopeParent = None, symbolTable = [(''e'', 1)]\<rparr>],
           currentFlowNode := FlowAssignment {Assignment} 2 (Name (NameNode 3 ''e''))
                                (FlowNode {Start} 1) 1,
           nextFlowNodeId := 3,
           flowNodeInfo := [3 \<mapsto> FlowAssignment {Assignment} 2 (Name (NameNode 3 ''e''))
                                    (FlowNode {Start} 1) 1]\<rparr>"
  obtain st' where r: "createFlowAssignment (Name (NameNode 3 ''e'')) True ?s = Inr st'"
    by (simp add: createFlowAssignment_def Let_def)
  have h: "flowNodeInfo ?s (exprId (Name (NameNode 3 ''e''))) \<noteq> None" by simp
  have t: "lookUpSymbolRecursive ?s (currentScope ?s) ''e'' = Some (1, 1)" by simp
  from unbound_assignment_keeps_flow_node [OF r h] r t show ?thesis
    by (auto simp: isCodeUnreachable_def createFlowAssignment_def getUniqueFlowNodeId_def
        Let_def setReferenceKey_def addExceptTargets_def constructBinder_def)
qed

section \<open>Names bound in a class scope\<close>

text \<open>
  Claim C10. When a name is bound for the first time in a class scope (the scope has no
  symbol of this name, and the name is not declared global or nonlocal there) and the
  parent scope has a symbol of the same name, the binder emits an AssignmentAlias flow
  node whose target is the id of the new symbol of the class scope and whose alias is the
  id of the symbol of the parent scope, provided the current flow is reachable.
\<close>

theorem class_scope_alias:
  assumes "scopes st scope = Some sc" and "scopeType sc = Class"
    and "scopeParent sc = Some parent" and "parent \<noteq> scope"
    and "bindingMaps st (notLocalBindings st) name = None"
    and "lookUpSymbol st scope name = None"
    and "lookUpSymbol st parent name = Some aliasSymbol"
    and "\<not> isCodeUnreachable st"
  shows "\<exists>added st'.
    bindNameToScope fileInfo ext scope name addedSymbols st =
      Inr (Some (nextSymbolId st), added, st') \<and>
    currentFlowNode st' =
      FlowAssignmentAlias {AssignmentAlias} (nextFlowNodeId st) (currentFlowNode st)
        (nextSymbolId st) aliasSymbol \<and>
    lookUpSymbol st' scope name = Some (nextSymbolId st)"
  using assms
  by (auto simp: bindNameToScope_def addSymbol_def lookUpSymbol_def
      createAssignmentAliasFlowNode_def isCodeUnreachable_def getUniqueFlowNodeId_def
      setSymbolFlag_def Let_def update_conv' split: option.splits)

theorem class_scope_alias_witness:
  "map_sum (\<lambda>e. e) (\<lambda>(symbol, added, st'). (symbol, currentFlowNode st'))
     (bindNameToScope sourceFileInfo moduleLevelCollaborators 2 ''x'' None
        (constructBinder\<lparr>currentScope := 2, nextSymbolId := 2, nextRef := 5,
           currentFlowNode := FlowNode {Start} 1, nextFlowNodeId := 2,
           symbols := [1 \<mapsto> \<lparr>symbolFlags = {InitiallyUnbound, ClassMember},
                                symbolDeclarations = []\<rparr>],
           scopes := [1 \<mapsto> \<lparr>scopeType = Builtin, scopeParent = None, symbolTable = [(''x'', 1)]\<rparr>,
                      2 \<mapsto> \<lparr>scopeType = Class, scopeParent = Some 1, symbolTable = []\<rparr>]\<rparr>)) =
   Inr (Some 2, FlowAssignmentAlias {AssignmentAlias} 2 (FlowNode {Start} 1) 2 1)"
proof -
  let ?s = "constructBinder\<lparr>currentScope := 2, nextSymbolId := 2, nextRef := 5,
           currentFlowNode := FlowNode {Start} 1, nextFlowNodeId := 2,
           symbols := [1 \<mapsto> \<lparr>symbolFlags = {InitiallyUnbound, ClassMember},
                                symbolDeclarations = []\<rparr>],
           scopes := [1 \<mapsto> \<lparr>scopeType = Builtin, scopeParent = None, symbolTable = [(''x'', 1)]\<rparr>,
                      2 \<mapsto> \<lparr>scopeType = Class, scopeParent = Some 1, symbolTable = []\<rparr>]\<rparr>"
  have h1: "scopes ?s 2 = Some \<lparr>scopeType = Class, scopeParent = Some 1, symbolTable = []\<rparr>"
    by simp
  have h2: "scopeType \<lparr>scopeType = Class, scopeParent = Some 1, symbolTable = []\<rparr> = Class"
    by simp
  have h3: "scopeParent \<lparr>scopeType = Class, scopeParent = Some 1, symbolTable = []\<rparr> = Some 1"
    by simp
  have h4: "(1::nat) \<noteq> 2" by simp
  have h5: "bindingMaps ?s (notLocalBindings ?s) ''x'' = None"
    by (simp add: constructBinder_def)
  have h6: "lookUpSymbol ?s 2 ''x'' = None" by (simp add: lookUpSymbol_def)
  have h7: "lookUpSymbol ?s 1 ''x'' = Some 1" by (simp add: lookUpSymbol_def)
  have h8: "\<not> isCodeUnreachable ?s" by (simp add: isCodeUnreachable_def)
  from class_scope_alias [OF h1 h2 h3 h4 h5 h6 h7 h8,
      of sourceFileInfo moduleLevelCollaborators None]
  show ?thesis by auto
qed

section \<open>The implicit names of a module\<close>

text \<open>
  The implicit names are new symbols of the module's scope, with one declaration each;
  a name other than these nine is not in the scope when the walk of the statements starts.
\<close>

lemma addBuiltIn_symbols:
  assumes "scopes st (currentScope st) = Some sc"
  shows "currentScope (addBuiltInSymbolToCurrentScope fi ext name node type st) = currentScope st"
    and "\<exists>sc'. scopes (addBuiltInSymbolToCurrentScope fi ext name node type st) (currentScope st) = Some sc' \<and>
           scopeType sc' = scopeType sc \<and> scopeParent sc' = scopeParent sc \<and>
           map_of (symbolTable sc') = (if map_of (symbolTable sc) name = None
              then (map_of (symbolTable sc))(name \<mapsto> nextSymbolId st) else map_of (symbolTable sc))"
    and "nextSymbolId (addBuiltInSymbolToCurrentScope fi ext name node type st) =
           (if map_of (symbolTable sc) name = None then nextSymbolId st + 1 else nextSymbolId st)"
    and "nextRef (addBuiltInSymbolToCurrentScope fi ext name node type st) = nextRef st + 1"
  using assms
  by (auto simp: addBuiltInSymbolToCurrentScope_def addSymbolToCurrentScope_def addSymbol_def
      newDeclaration_def addDeclaration_def setSymbolFlag_def lookUpSymbol_def Let_def update_conv'
      split: option.splits prod.splits)


lemma fold_addBuiltIn_symbols:
  assumes "scopes st (currentScope st) = Some sc"
    and "distinct (map fst xs)"
    and "\<forall>n \<in> fst ` set xs. map_of (symbolTable sc) n = None"
  shows "(\<exists>sc'. scopes (fold (\<lambda>(name, type). addBuiltInSymbolToCurrentScope fi ext name node type) xs st)
                 (currentScope st) = Some sc' \<and>
           scopeType sc' = scopeType sc \<and> scopeParent sc' = scopeParent sc \<and>
           (\<forall>n. n \<notin> fst ` set xs \<longrightarrow> map_of (symbolTable sc') n = map_of (symbolTable sc) n)) \<and>
         nextSymbolId (fold (\<lambda>(name, type). addBuiltInSymbolToCurrentScope fi ext name node type) xs st) =
           nextSymbolId st + length xs \<and>
         nextRef (fold (\<lambda>(name, type). addBuiltInSymbolToCurrentScope fi ext name node type) xs st) =
           nextRef st + length xs"
  using assms
proof (induction xs arbitrary: st sc)
  case Nil
  then show ?case by simp
next
  case (Cons x xs)
  obtain name type where x: "x = (name, type)" by (cases x)
  let ?st1 = "addBuiltInSymbolToCurrentScope fi ext name node type st"
  have new: "map_of (symbolTable sc) name = None"
    using Cons.prems(3) x by simp
  have cur: "currentScope ?st1 = currentScope st"
    by (rule addBuiltIn_symbols(1) [OF Cons.prems(1)])
  obtain sc1 where sc1: "scopes ?st1 (currentScope st) = Some sc1"
    "scopeType sc1 = scopeType sc" "scopeParent sc1 = scopeParent sc"
    "map_of (symbolTable sc1) = (map_of (symbolTable sc))(name \<mapsto> nextSymbolId st)"
    using addBuiltIn_symbols(2) [OF Cons.prems(1), of fi ext name node type] new by auto
  have p1: "scopes ?st1 (currentScope ?st1) = Some sc1" using sc1(1) cur by simp
  have p2: "distinct (map fst xs)" using Cons.prems(2) by simp
  have p3: "\<forall>n \<in> fst ` set xs. map_of (symbolTable sc1) n = None"
    using Cons.prems(2,3) x sc1(4) by auto
  from Cons.IH [OF p1 p2 p3] obtain sc' where ih:
    "scopes (fold (\<lambda>(name, type). addBuiltInSymbolToCurrentScope fi ext name node type) xs ?st1)
       (currentScope ?st1) = Some sc'"
    "scopeType sc' = scopeType sc1" "scopeParent sc' = scopeParent sc1"
    "\<forall>n. n \<notin> fst ` set xs \<longrightarrow> map_of (symbolTable sc') n = map_of (symbolTable sc1) n"
    "nextSymbolId (fold (\<lambda>(name, type). addBuiltInSymbolToCurrentScope fi ext name node type) xs ?st1) =
       nextSymbolId ?st1 + length xs"
    "nextRef (fold (\<lambda>(name, type). addBuiltInSymbolToCurrentScope fi ext name node type) xs ?st1) =
       nextRef ?st1 + length xs"
    by blast
  show ?case
    using ih x cur sc1 new
      addBuiltIn_symbols(3) [OF Cons.prems(1), of fi ext name node type]
      addBuiltIn_symbols(4) [OF Cons.prems(1), of fi ext name node type]
    by auto
qed

lemma moduleStart_symbols:
  "\<exists>sc. scopes moduleStart 1 = Some sc \<and> scopeType sc = Builtin \<and> scopeParent sc = None \<and>
     (\<forall>n. n \<notin> {''__doc__'', ''__name__'', ''__loader__'', ''__package__'', ''__spec__'',
                ''__path__'', ''__file__'', ''__cached__'', ''__dict__''} \<longrightarrow>
          map_of (symbolTable sc) n = None)"
  "nextSymbolId moduleStart = 10"
  "nextRef moduleStart = 13"
proof -
  let ?st = "(setScope 0 (currentScope (enterNewScope Builtin None constructBinder))
               (enterNewScope Builtin None constructBinder))
             \<lparr>flowNodeInfo := (flowNodeInfo (setScope 0 (currentScope (enterNewScope Builtin None constructBinder))
               (enterNewScope Builtin None constructBinder)))(0 := None)\<rparr>"
  let ?xs = "[(''__doc__'', ''str''), (''__name__'', ''str''), (''__loader__'', ''Any''),
                   (''__package__'', ''str''), (''__spec__'', ''Any''),
                   (''__path__'', ''Iterable[str]''), (''__file__'', ''str''),
                   (''__cached__'', ''str''), (''__dict__'', ''Dict[str, Any]'')]"
  have s: "scopes ?st (currentScope ?st) =
      Some \<lparr>scopeType = Builtin, scopeParent = None, symbolTable = []\<rparr>"
    "currentScope ?st = 1" "nextSymbolId ?st = 1" "nextRef ?st = 4"
    by (simp_all add: enterNewScope_def constructBinder_def setScope_def Let_def)
  have d: "distinct (map fst ?xs)" by simp
  have n: "\<forall>n \<in> fst ` set ?xs.
      map_of (symbolTable \<lparr>scopeType = Builtin, scopeParent = None, symbolTable = []\<rparr>) n = None"
    by simp
  note f = fold_addBuiltIn_symbols [OF s(1) d n, of sourceFileInfo moduleLevelCollaborators 0]
  have m: "moduleStart =
      (fold (\<lambda>(name, type). addBuiltInSymbolToCurrentScope sourceFileInfo moduleLevelCollaborators
                name 0 type) ?xs ?st)
      \<lparr>nextFlowNodeId := nextFlowNodeId (fold (\<lambda>(name, type). addBuiltInSymbolToCurrentScope
           sourceFileInfo moduleLevelCollaborators name 0 type) ?xs ?st) + 1,
        currentFlowNode := FlowNode {Start} (nextFlowNodeId (fold (\<lambda>(name, type).
           addBuiltInSymbolToCurrentScope sourceFileInfo moduleLevelCollaborators name 0 type) ?xs ?st))\<rparr>"
    unfolding moduleStart_def openModule_def createStartFlowNode_def getUniqueFlowNodeId_def
    by (simp add: Let_def)
  show "\<exists>sc. scopes moduleStart 1 = Some sc \<and> scopeType sc = Builtin \<and> scopeParent sc = None \<and>
     (\<forall>n. n \<notin> {''__doc__'', ''__name__'', ''__loader__'', ''__package__'', ''__spec__'',
                ''__path__'', ''__file__'', ''__cached__'', ''__dict__''} \<longrightarrow>
          map_of (symbolTable sc) n = None)"
    using f s(2) by (subst m) auto
  show "nextSymbolId moduleStart = 10" using f s(3) by (subst m) simp
  show "nextRef moduleStart = 13" using f s(4) by (subst m) simp
qed

lemma moduleStart_fresh:
  assumes "n \<notin> {''__doc__'', ''__name__'', ''__loader__'', ''__package__'', ''__spec__'',
                ''__path__'', ''__file__'', ''__cached__'', ''__dict__''}"
  obtains sc where "scopes moduleStart 1 = Some sc" and "scopeType sc = Builtin"
    and "scopeParent sc = None" and "map_of (symbolTable sc) n = None"
proof -
  from moduleStart_symbols(1) obtain sc where
    a: "scopes moduleStart 1 = Some sc \<and> scopeType sc = Builtin \<and> scopeParent sc = None \<and>
     (\<forall>n. n \<notin> {''__doc__'', ''__name__'', ''__loader__'', ''__package__'', ''__spec__'',
                ''__path__'', ''__file__'', ''__cached__'', ''__dict__''} \<longrightarrow>
          map_of (symbolTable sc) n = None)" ..
  note d = a [THEN conjunct1] a [THEN conjunct2, THEN conjunct1]
    a [THEN conjunct2, THEN conjunct2, THEN conjunct1]
  note b = a [THEN conjunct2, THEN conjunct2, THEN conjunct2]
  from b [rule_format, OF assms] have c: "map_of (symbolTable sc) n = None" .
  from d c show ?thesis by (rule that)
qed

section \<open>Imports that cannot be resolved\<close>

lemma addExceptTargets_stores [simp]:
  "symbols (addExceptTargets n st) = symbols st"
  "declarations (addExceptTargets n st) = declarations st"
  "scopes (addExceptTargets n st) = scopes st"
  "currentScope (addExceptTargets n st) = currentScope st"
proof -
  have "symbols (fold (\<lambda>label. addAntecedent label n) targets st) = symbols st \<and>
        declarations (fold (\<lambda>label. addAntecedent label n) targets st) = declarations st \<and>
        scopes (fold (\<lambda>label. addAntecedent label n) targets st) = scopes st \<and>
        currentScope (fold (\<lambda>label. addAntecedent label n) targets st) = currentScope st"
    for targets
    by (induction targets arbitrary: st) (auto simp: addAntecedent_def)
  then show "symbols (addExceptTargets n st) = symbols st"
    "declarations (addExceptTargets n st) = declarations st"
    "scopes (addExceptTargets n st) = scopes st"
    "currentScope (addExceptTargets n st) = currentScope st"
    by (simp_all add: addExceptTargets_def split: option.splits)
qed

lemma setReferenceKey_stores [simp]:
  "symbols (setReferenceKey k st) = symbols st"
  "declarations (setReferenceKey k st) = declarations st"
  "scopes (setReferenceKey k st) = scopes st"
  "currentScope (setReferenceKey k st) = currentScope st"
  by (simp_all add: setReferenceKey_def)

lemma createFlowAssignment_name:
  assumes "lookUpSymbolRecursive st (currentScope st) (nameValue n) = Some found"
  shows "\<exists>st'. createFlowAssignment (Name n) unbound st = Inr st' \<and>
           symbols st' = symbols st \<and> declarations st' = declarations st \<and>
           scopes st' = scopes st \<and> currentScope st' = currentScope st"
  using assms
  by (cases found)
    (auto simp: createFlowAssignment_def Let_def getUniqueFlowNodeId_def setFlowNode_def
      split: prod.splits)

lemma bindNameToScope_binds:
  assumes "bindingMaps st (notLocalBindings st) name = None"
    and "scopes st scope = Some sc" and "scopeType sc = Class \<longrightarrow> scopeParent sc \<noteq> None"
    and "\<forall>symbol. map_of (symbolTable sc) name = Some symbol \<longrightarrow> symbols st symbol \<noteq> None"
  shows "\<exists>symbol added st1 sc1.
    bindNameToScope fileInfo ext scope name addedSymbols st = Inr (Some symbol, added, st1) \<and>
    scopes st1 scope = Some sc1 \<and> map_of (symbolTable sc1) name = Some symbol \<and>
    symbols st1 symbol \<noteq> None \<and> declarations st1 = declarations st \<and>
    nextRef st1 = nextRef st \<and> currentScope st1 = currentScope st"
  using assms
  by (auto simp: bindNameToScope_def addSymbol_def lookUpSymbol_def setSymbolFlag_def Let_def
      createAssignmentAliasFlowNode_def getUniqueFlowNodeId_def update_conv'
      split: option.splits)

lemma createAlias_unresolved:
  assumes "nameParts module = firstNamePart # otherParts"
    and "\<not> isImportFound info \<or> isNativeLib info \<or> resolvedPaths info = []"
    and "symbols st symbol = Some s"
  shows "createAliasDeclarationForMultipartImportName node module importAlias (Some info) symbol st =
    Inr (st\<lparr>nextRef := nextRef st + 1,
            declarations := (declarations st)(nextRef st \<mapsto>
              AliasDeclaration node unresolvedPath (importAlias \<noteq> None) [] None None None None),
            symbols := (symbols st)(symbol \<mapsto>
              s\<lparr>symbolDeclarations := symbolDeclarations s @ [nextRef st]\<rparr>)\<rparr>)"
  using assms
  by (auto simp: createAliasDeclarationForMultipartImportName_def newDeclaration_def
      addDeclaration_def)

lemma map_filter_snoc:
  "f x = Some y \<Longrightarrow> List.map_filter f (xs @ [x]) = List.map_filter f xs @ [y]"
  by (simp add: List.map_filter_def)

text \<open>
  Claim C9, as amended. Take an \<^verbatim>\<open>import\<close> statement (\<^verbatim>\<open>import a.b.c\<close> or
  \<^verbatim>\<open>import a.b.c as x\<close>) whose module name has at least one part and whose import
  result says that the module cannot be resolved (import not found, or native library,
  or no resolved path). Let the name it binds (the alias, or else the first part of the
  module name) not be declared global or nonlocal in the current scope, and let the state
  of the binder be well formed: the current scope exists, it has a parent if it is a class
  scope, and a symbol that its table holds for the name exists. Then the statement is
  bound without error, the name is a symbol of the current scope, and the last
  declaration of this symbol is an Alias declaration of the import node with the sentinel
  path \<^verbatim>\<open>*** unresolved ***\<close>, which is not empty, and with an empty module name.
\<close>

theorem unresolved_import_sentinel:
  assumes "nameParts (importAsModule node) = firstNamePart # otherParts"
    and "getImportInfo ext (moduleNameId (importAsModule node)) = Some info"
    and "\<not> isImportFound info \<or> isNativeLib info \<or> resolvedPaths info = []"
    and "symbolName = (case importAsAlias node of Some a \<Rightarrow> nameValue a
                       | None \<Rightarrow> nameValue firstNamePart)"
    and "bindingMaps st (notLocalBindings st) symbolName = None"
    and "scopes st (currentScope st) = Some sc"
    and "scopeType sc = Class \<longrightarrow> scopeParent sc \<noteq> None"
    and "\<forall>symbol. map_of (symbolTable sc) symbolName = Some symbol \<longrightarrow> symbols st symbol \<noteq> None"
  shows "\<exists>st' symbol.
    visitImportAs fileInfo ext node st = Inr (True, st') \<and>
    lookUpSymbol st' (currentScope st) symbolName = Some symbol \<and>
    getDeclarations st' symbol \<noteq> [] \<and>
    last (getDeclarations st' symbol) =
      AliasDeclaration (importAsId node) unresolvedPath (importAsAlias node \<noteq> None) []
        None None None None \<and>
    unresolvedPath \<noteq> []"
proof -
  obtain symbol added st1 sc1 where b:
    "bindNameToScope fileInfo ext (currentScope st) symbolName None st = Inr (Some symbol, added, st1)"
    "scopes st1 (currentScope st) = Some sc1" "map_of (symbolTable sc1) symbolName = Some symbol"
    "symbols st1 symbol \<noteq> None" "declarations st1 = declarations st"
    "nextRef st1 = nextRef st" "currentScope st1 = currentScope st"
    using bindNameToScope_binds [OF assms(5,6,7,8), of fileInfo ext None] by blast
  define st2 where "st2 = (if isStubFile fileInfo \<and> importAsAlias node = None
                           then setSymbolFlag symbol ExternallyHidden st1 else st1)"
  have "symbols st2 symbol \<noteq> None"
    using b(4) by (auto simp: st2_def setSymbolFlag_def split: option.splits)
  then obtain s where s: "symbols st2 symbol = Some s" by blast
  have f2: "scopes st2 = scopes st1" "currentScope st2 = currentScope st1"
    "nextRef st2 = nextRef st1" "declarations st2 = declarations st1"
    by (auto simp: st2_def setSymbolFlag_def split: option.splits)
  let ?d = "AliasDeclaration (importAsId node) unresolvedPath (importAsAlias node \<noteq> None) []
              None None None None"
  define st3 where "st3 = st2\<lparr>nextRef := nextRef st2 + 1,
            declarations := (declarations st2)(nextRef st2 \<mapsto> ?d),
            symbols := (symbols st2)(symbol \<mapsto>
              s\<lparr>symbolDeclarations := symbolDeclarations s @ [nextRef st2]\<rparr>)\<rparr>"
  have c: "createAliasDeclarationForMultipartImportName (importAsId node) (importAsModule node)
             (importAsAlias node) (Some info) symbol st2 = Inr st3"
    unfolding st3_def by (rule createAlias_unresolved [OF assms(1,3) s])
  have l: "lookUpSymbolRecursive st3 (currentScope st3) symbolName = Some (symbol, currentScope st)"
    using b(2,3,7) f2 by (simp add: st3_def)
  have nm: "nameValue (case importAsAlias node of Some a \<Rightarrow> a | None \<Rightarrow> firstNamePart) = symbolName"
    using assms(4) by (simp split: option.splits)
  obtain st4 where a: "createFlowAssignment
      (Name (case importAsAlias node of Some a \<Rightarrow> a | None \<Rightarrow> firstNamePart)) False st3 = Inr st4"
    "symbols st4 = symbols st3" "declarations st4 = declarations st3"
    "scopes st4 = scopes st3" "currentScope st4 = currentScope st3"
    using createFlowAssignment_name [of st3 "case importAsAlias node of Some a \<Rightarrow> a | None \<Rightarrow> firstNamePart"
        "(symbol, currentScope st)" False] l nm by auto
  define st5 where "st5 = (if length (nameParts (importAsModule node)) = 1 \<and>
                                     (nameValue firstNamePart = ''typing'' \<or>
                                      nameValue firstNamePart = ''typing_extensions'')
                                  then st4\<lparr>typingImportAliases := typingImportAliases st4 @
                                             [case importAsAlias node of
                                                Some a \<Rightarrow>
                                                  if nameValue a \<noteq> [] then nameValue a
                                                  else nameValue firstNamePart
                                              | None \<Rightarrow> nameValue firstNamePart]\<rparr>
                                  else st4)"
  have r: "visitImportAs fileInfo ext node st = Inr (True, st5)"
    using assms(1,2,4) b(1) c a(1)
    by (simp add: visitImportAs_def andThen_def raised_def Let_def st2_def st5_def)
  have f5: "symbols st5 = symbols st3" "declarations st5 = declarations st3"
    "scopes st5 = scopes st3"
    using a by (auto simp: st5_def)
  have g: "getDeclarations st5 symbol =
      List.map_filter (declarations st3) (symbolDeclarations s) @ [?d]"
  proof -
    have d: "declarations st3 (nextRef st2) = Some ?d" by (simp add: st3_def)
    have sy: "symbols st3 symbol =
        Some (s\<lparr>symbolDeclarations := symbolDeclarations s @ [nextRef st2]\<rparr>)"
      by (simp add: st3_def)
    show ?thesis
      using map_filter_snoc [of "declarations st3" "nextRef st2" ?d "symbolDeclarations s"] d
      by (simp add: getDeclarations_def f5 sy)
  qed
  have lk: "lookUpSymbol st5 (currentScope st) symbolName = Some symbol"
    using b(2,3) f2 by (simp add: lookUpSymbol_def f5 st3_def)
  show ?thesis
    using r lk g by (simp add: unresolvedPath_def)
qed

theorem unresolved_import_sentinel_witness:
  "(\<exists>st' symbol.
     visitImportAs sourceFileInfo unresolvedCollaborators
       (ImportAsNode 1 (ModuleNameNode 2 0 [NameNode 3 ''missing'']) None) moduleStart =
       Inr (True, st') \<and>
     lookUpSymbol st' 1 ''missing'' = Some symbol \<and>
     getDeclarations st' symbol \<noteq> [] \<and>
     last (getDeclarations st' symbol) =
       AliasDeclaration 1 ''*** unresolved ***'' False [] None None None None) \<and>
   (\<exists>st' symbol.
     visitImportAs sourceFileInfo unresolvedCollaborators
       (ImportAsNode 1 (ModuleNameNode 2 0 [NameNode 3 ''missing'']) (Some (NameNode 4 ''x'')))
       (constructBinder\<lparr>currentScope := 2, nextSymbolId := 2, nextRef := 5,
          currentFlowNode := FlowNode {Start} 1, nextFlowNodeId := 2,
          symbols := [1 \<mapsto> \<lparr>symbolFlags = {InitiallyUnbound, ClassMember},
                               symbolDeclarations = []\<rparr>],
          scopes := [1 \<mapsto> \<lparr>scopeType = Builtin, scopeParent = None, symbolTable = [(''x'', 1)]\<rparr>,
                     2 \<mapsto> \<lparr>scopeType = Class, scopeParent = Some 1, symbolTable = []\<rparr>]\<rparr>) =
       Inr (True, st') \<and>
     lookUpSymbol st' 2 ''x'' = Some symbol \<and>
     getDeclarations st' symbol \<noteq> [] \<and>
     last (getDeclarations st' symbol) =
       AliasDeclaration 1 ''*** unresolved ***'' True [] None None None None)"
proof -
  let ?node = "ImportAsNode 1 (ModuleNameNode 2 0 [NameNode 3 ''missing'']) None"
  have "''missing'' \<notin> {''__doc__'', ''__name__'', ''__loader__'', ''__package__'', ''__spec__'',
                ''__path__'', ''__file__'', ''__cached__'', ''__dict__''}"
    by simp
  then obtain sc where sc: "scopes moduleStart 1 = Some sc" "scopeType sc = Builtin"
    "scopeParent sc = None" "map_of (symbolTable sc) ''missing'' = None"
    by (rule moduleStart_fresh)
  have h1: "nameParts (importAsModule ?node) = NameNode 3 ''missing'' # []" by simp
  have h2: "getImportInfo unresolvedCollaborators (moduleNameId (importAsModule ?node)) =
      Some unresolvedImport"
    by (simp add: unresolvedCollaborators_def)
  have h3: "\<not> isImportFound unresolvedImport \<or> isNativeLib unresolvedImport \<or>
      resolvedPaths unresolvedImport = []"
    by (simp add: unresolvedImport_def)
  have h4: "''missing'' = (case importAsAlias ?node of Some a \<Rightarrow> nameValue a
                       | None \<Rightarrow> nameValue (NameNode 3 ''missing''))"
    by simp
  have h5: "bindingMaps moduleStart (notLocalBindings moduleStart) ''missing'' = None"
    by (simp add: moduleStart_maps)
  have h6: "scopes moduleStart (currentScope moduleStart) = Some sc"
    using sc(1) by (simp add: moduleStart_flow)
  have h7: "scopeType sc = Class \<longrightarrow> scopeParent sc \<noteq> None" using sc(2) by simp
  have h8: "\<forall>symbol. map_of (symbolTable sc) ''missing'' = Some symbol \<longrightarrow>
      symbols moduleStart symbol \<noteq> None"
    using sc(4) by simp
  let ?renamed = "ImportAsNode 1 (ModuleNameNode 2 0 [NameNode 3 ''missing''])
                  (Some (NameNode 4 ''x''))"
  let ?c = "constructBinder\<lparr>currentScope := 2, nextSymbolId := 2, nextRef := 5,
          currentFlowNode := FlowNode {Start} 1, nextFlowNodeId := 2,
          symbols := [1 \<mapsto> \<lparr>symbolFlags = {InitiallyUnbound, ClassMember},
                               symbolDeclarations = []\<rparr>],
          scopes := [1 \<mapsto> \<lparr>scopeType = Builtin, scopeParent = None, symbolTable = [(''x'', 1)]\<rparr>,
                     2 \<mapsto> \<lparr>scopeType = Class, scopeParent = Some 1, symbolTable = []\<rparr>]\<rparr>"
  let ?sc = "\<lparr>scopeType = Class, scopeParent = Some 1, symbolTable = []\<rparr>"
  have c1: "nameParts (importAsModule ?renamed) = NameNode 3 ''missing'' # []" by simp
  have c2: "getImportInfo unresolvedCollaborators (moduleNameId (importAsModule ?renamed)) =
      Some unresolvedImport"
    by (simp add: unresolvedCollaborators_def)
  have c4: "''x'' = (case importAsAlias ?renamed of Some a \<Rightarrow> nameValue a
                       | None \<Rightarrow> nameValue (NameNode 3 ''missing''))"
    by simp
  have c5: "bindingMaps ?c (notLocalBindings ?c) ''x'' = None"
    by (simp add: constructBinder_def)
  have c6: "scopes ?c (currentScope ?c) = Some ?sc" by simp
  have c7: "scopeType ?sc = Class \<longrightarrow> scopeParent ?sc \<noteq> None" by simp
  have c8: "\<forall>symbol. map_of (symbolTable ?sc) ''x'' = Some symbol \<longrightarrow> symbols ?c symbol \<noteq> None"
    by simp
  have a: "\<exists>st' symbol.
     visitImportAs sourceFileInfo unresolvedCollaborators ?node moduleStart = Inr (True, st') \<and>
     lookUpSymbol st' 1 ''missing'' = Some symbol \<and>
     getDeclarations st' symbol \<noteq> [] \<and>
     last (getDeclarations st' symbol) =
       AliasDeclaration 1 ''*** unresolved ***'' False [] None None None None"
    using unresolved_import_sentinel [OF h1 h2 h3 h4 h5 h6 h7 h8, of sourceFileInfo]
    by (simp add: moduleStart_flow unresolvedPath_def)
  have b: "\<exists>st' symbol.
     visitImportAs sourceFileInfo unresolvedCollaborators ?renamed ?c = Inr (True, st') \<and>
     lookUpSymbol st' 2 ''x'' = Some symbol \<and>
     getDeclarations st' symbol \<noteq> [] \<and>
     last (getDeclarations st' symbol) =
       AliasDeclaration 1 ''*** unresolved ***'' True [] None None None None"
    using unresolved_import_sentinel [OF c1 c2 h3 c4 c5 c6 c7 c8, of sourceFileInfo]
    by (simp add: unresolvedPath_def)
  from a b show ?thesis by (rule conjI)
qed

text \<open>
  Claim C9 as stated fails for the other import statement: in
  \<^verbatim>\<open>from missing import y\<close>, with \<^verbatim>\<open>missing\<close> not found, the symbol \<^verbatim>\<open>y\<close> receives an
  Alias declaration whose path is the empty string, not the sentinel.
\<close>

theorem from_import_empty_path_counterexample:
  "map_sum (\<lambda>e. e)
     (\<lambda>(descend, st'). map_option (getDeclarations st') (lookUpSymbol st' 1 ''y''))
     (visitImportFrom sourceFileInfo unresolvedCollaborators
        (ImportFromNode 1 (ModuleNameNode 2 0 [NameNode 3 ''missing'']) False
           [ImportFromAsNode 4 (NameNode 5 ''y'') None])
        moduleStart) =
   Inr (Some [AliasDeclaration 4 [] False ''m'' (Some ''y'') None None None])"
proof -
  have "''y'' \<notin> {''__doc__'', ''__name__'', ''__loader__'', ''__package__'', ''__spec__'',
                ''__path__'', ''__file__'', ''__cached__'', ''__dict__''}"
    by simp
  then obtain sc where sc: "scopes moduleStart 1 = Some sc" "scopeType sc = Builtin"
    "scopeParent sc = None" "map_of (symbolTable sc) ''y'' = None"
    by (rule moduleStart_fresh)
  have info: "getImportInfo unresolvedCollaborators 2 = Some unresolvedImport"
    by (simp add: unresolvedCollaborators_def)
  have fi: "fileNameWithoutExtension sourceFileInfo = ''m''" "isStubFile sourceFileInfo = False"
    "moduleName sourceFileInfo = ''m''"
    by (simp_all add: sourceFileInfo_def)
  have b: "bindNameToScope sourceFileInfo unresolvedCollaborators 1 ''y'' None moduleStart =
    Inr (Some 10, None,
      moduleStart\<lparr>nextSymbolId := 11,
        symbols := (symbols moduleStart)(10 \<mapsto>
          \<lparr>symbolFlags = {InitiallyUnbound, ClassMember}, symbolDeclarations = []\<rparr>),
        scopes := (scopes moduleStart)(1 \<mapsto>
          sc\<lparr>symbolTable := AList.update ''y'' 10 (symbolTable sc)\<rparr>)\<rparr>)"
    using sc
    by (simp add: bindNameToScope_def lookUpSymbol_def addSymbol_def fi
        moduleStart_flow moduleStart_maps moduleStart_symbols(2,3))
  show ?thesis
    using b sc
    by (simp add: visitImportFrom_def info fi unresolvedImport_def Let_def andThen_def raised_def
        importedNameNode_def lookUpSymbol_def
        moduleStart_flow moduleStart_maps moduleStart_symbols(2,3) newDeclaration_def
        addDeclaration_def createFlowAssignment_def getUniqueFlowNodeId_def isCodeUnreachable_def
        setReferenceKey_def addExceptTargets_def setFlowNode_def getDeclarations_def
        update_conv' List.map_filter_def)
qed

section \<open>Wildcard imports\<close>


lemma createAssignmentAliasFlowNode_frame [simp]:
  "symbols (createAssignmentAliasFlowNode t a st) = symbols st"
  "scopes (createAssignmentAliasFlowNode t a st) = scopes st"
  "declarations (createAssignmentAliasFlowNode t a st) = declarations st"
  "nextRef (createAssignmentAliasFlowNode t a st) = nextRef st"
  "nextSymbolId (createAssignmentAliasFlowNode t a st) = nextSymbolId st"
  "currentScope (createAssignmentAliasFlowNode t a st) = currentScope st"
  "bindingMaps (createAssignmentAliasFlowNode t a st) = bindingMaps st"
  "notLocalBindings (createAssignmentAliasFlowNode t a st) = notLocalBindings st"
  "isCodeUnreachable (createAssignmentAliasFlowNode t a st) = isCodeUnreachable st"
  by (simp_all add: createAssignmentAliasFlowNode_def getUniqueFlowNodeId_def isCodeUnreachable_def)

lemma setSymbolFlag_frame [simp]:
  "scopes (setSymbolFlag x f st) = scopes st"
  "declarations (setSymbolFlag x f st) = declarations st"
  "nextRef (setSymbolFlag x f st) = nextRef st"
  "nextSymbolId (setSymbolFlag x f st) = nextSymbolId st"
  "currentScope (setSymbolFlag x f st) = currentScope st"
  "bindingMaps (setSymbolFlag x f st) = bindingMaps st"
  "notLocalBindings (setSymbolFlag x f st) = notLocalBindings st"
  "isCodeUnreachable (setSymbolFlag x f st) = isCodeUnreachable st"
  "map_option symbolDeclarations (symbols (setSymbolFlag x f st) y) =
     map_option symbolDeclarations (symbols st y)"
  by (simp_all add: setSymbolFlag_def isCodeUnreachable_def split: option.splits)









lemma addExceptTargets_currentFlowNode [simp]:
  "currentFlowNode (addExceptTargets n st) = currentFlowNode st"
  by (simp add: addExceptTargets_def split: option.splits)

lemma createFlowWildcardImport_frame [simp]:
  "symbols (createFlowWildcardImport node names st) = symbols st"
  "declarations (createFlowWildcardImport node names st) = declarations st"
  "scopes (createFlowWildcardImport node names st) = scopes st"
  by (simp_all add: createFlowWildcardImport_def Let_def getUniqueFlowNodeId_def setFlowNode_def)





section \<open>Generators\<close>

text \<open>
  Claim C4 does not hold of the code. The deferred callback of a function sets the
  target function declaration and nothing resets it; the deferred callback of a lambda
  leaves it as it is. In the module \<^verbatim>\<open>def f(): pass\<close> / \<^verbatim>\<open>lambda: (yield)\<close> the body of
  \<^verbatim>\<open>f\<close> is bound first, the body of the lambda after it, and the yield of the lambda
  marks the declaration of \<^verbatim>\<open>f\<close> as a generator, although \<^verbatim>\<open>f\<close> contains no yield (the
  yield finder finds none in it). The yield is also reported as outside a function.
\<close>

theorem stale_target_marks_generator:
  "map_sum (\<lambda>e. e)
     (\<lambda>st. (containsYieldStatement (hd staleTargetModule),
            map_option isGenerator (Option.bind (declarationInfo st 1) (declarations st)),
            diagnostics st))
     (bindModule 2 (walkFuel 3 sourceFileInfo moduleLevelCollaborators) sourceFileInfo
        moduleLevelCollaborators 0 staleTargetModule) =
   Inr (False, Some True, [(''error'', ''yieldOutsideFunction'', 8)])"
proof -
  have "''f'' \<notin> {''__doc__'', ''__name__'', ''__loader__'', ''__package__'', ''__spec__'',
                ''__path__'', ''__file__'', ''__cached__'', ''__dict__''}"
    by simp
  then obtain sc where sc: "scopes moduleStart 1 = Some sc" "scopeType sc = Builtin"
    "scopeParent sc = None" "map_of (symbolTable sc) ''f'' = None"
    by (rule moduleStart_fresh)
  have sc1: "scopes moduleStart (Suc 0) = Some sc" using sc(1) by simp
  have fuel: "(3::nat) = Suc (Suc (Suc 0))" "(2::nat) = Suc (Suc 0)" by simp_all
  have fi: "isStubFile sourceFileInfo = False" "filePath sourceFileInfo = ''/project/m.py''"
    "moduleName sourceFileInfo = ''m''"
    by (simp_all add: sourceFileInfo_def)
  have ex: "\<And>n. getEnclosingFunction moduleLevelCollaborators n = None"
    "\<And>n b. getEnclosingClass moduleLevelCollaborators n b = None"
    "\<And>n. getEnclosingFunctionOrModule moduleLevelCollaborators n = Some 0"
    by (simp_all add: moduleLevelCollaborators_def)
  let ?m = "moduleStart\<lparr>flowNodeInfo := [Suc 0 \<mapsto> FlowNode {Start} (Suc 0)]\<rparr>"
  have b: "bindNameToScope sourceFileInfo moduleLevelCollaborators (Suc 0) ''f'' None ?m =
    Inr (Some 10, None,
      ?m\<lparr>nextSymbolId := 11,
        symbols := (symbols moduleStart)(10 \<mapsto>
          \<lparr>symbolFlags = {InitiallyUnbound, ClassMember}, symbolDeclarations = []\<rparr>),
        scopes := (scopes moduleStart)(Suc 0 \<mapsto>
          sc\<lparr>symbolTable := AList.update ''f'' 10 (symbolTable sc)\<rparr>)\<rparr>)"
    using sc
    by (simp add: bindNameToScope_def lookUpSymbol_def addSymbol_def fi
        moduleStart_flow moduleStart_maps moduleStart_symbols(2,3))
  show ?thesis
    unfolding bindModule_sourceFile staleTargetModule_def fuel
    by (simp add: walk_defs moduleStart_flow moduleStart_maps moduleStart_symbols(2,3) ext_static
        Let_def b fi ex sc sc1 newDeclaration_def addDeclaration_def setDeclaration_def
        createNewScope_def enterNewScope_def deferBinding_def createFlowAssignment_def
        setReferenceKey_def bindYield_def visitYield_def updateDeclaration_def addError_def
        update_conv' constructBinder_def containsYieldOptional_def)
qed

end
